(* ===== verification/Prelude.thy ===== *)
theory Prelude
  imports Main "HOL-Library.Sublist" "HOL-Library.AList" "HOL-Library.Product_Lexorder"
begin

text \<open>
  Shared vocabulary of the model of the tulayngmamamo bridge: the two assistant
  identities, the JavaScript string primitives the sources use (\<open>includes\<close>,
  \<open>startsWith\<close>, \<open>toLowerCase\<close>, number-to-string conversion), the type names of
  identifiers and clock readings, JSON values with JavaScript truthiness, property access
  and \<open>String()\<close>, and the generic lemmas on lists and association lists that the
  component theories share.
\<close>

named_theorems model_simps "equations that evaluate the model's operations on concrete states"
named_theorems wf_intros "preservation lemmas of the well-formedness invariants"

type_synonym uuid = string
text \<open>Clock readings (SQLite \<open>strftime('%Y-%m-%dT%H:%M:%fZ','now')\<close>, \<open>Date.now()\<close>)
  are milliseconds since the epoch.\<close>
type_synonym timestamp = nat

section \<open>Assistant identities (src/src/db/clients.ts, \<open>ClientId\<close>)\<close>

datatype client_id = Claude | Codex

fun client_name :: "client_id \<Rightarrow> string" where
  "client_name Claude = ''claude''"
| "client_name Codex = ''codex''"

text \<open>The closed enumeration \<open>CLIENTS = ["claude", "codex"]\<close> of the queue processor.\<close>
definition all_clients :: "client_id list" where
  "all_clients = [Claude, Codex]"

section \<open>JavaScript string primitives\<close>

text \<open>\<open>s.includes(t)\<close>: \<open>t\<close> occurs contiguously in \<open>s\<close>. Written as the scan the
  engine performs (a prefix test at each position) and shown equal to \<open>sublist\<close>.\<close>
fun js_includes :: "string \<Rightarrow> string \<Rightarrow> bool" where
  "js_includes [] t = (t = [])"
| "js_includes (c # s) t = (prefix t (c # s) \<or> js_includes s t)"

text \<open>\<open>toLowerCase\<close> on the ASCII letters; other characters are left as they are.\<close>
definition ascii_lower :: "char \<Rightarrow> char" where
  "ascii_lower c = (if 65 \<le> (of_char c :: nat) \<and> (of_char c :: nat) \<le> 90
                    then char_of (of_char c + (32 :: nat)) else c)"

definition js_to_lower :: "string \<Rightarrow> string" where
  "js_to_lower s = map ascii_lower s"

text \<open>Decimal rendering of a non-negative integer, as a template literal \<open>`${n}`\<close>
  prints it, and the digit reader that inverts it.\<close>
fun string_of_nat :: "nat \<Rightarrow> string" where
  "string_of_nat n =
     (if n < 10 then [char_of (48 + n)]
      else string_of_nat (n div 10) @ [char_of (48 + n mod 10)])"

declare string_of_nat.simps [simp del]

text \<open>A signed integer as \<open>`${n}`\<close> prints it.\<close>
definition string_of_int :: "int \<Rightarrow> string" where
  "string_of_int i = (if i < 0 then CHR ''-'' # string_of_nat (nat (- i)) else string_of_nat (nat i))"

text \<open>Truthiness of an optional string (\<open>undefined\<close> and \<open>""\<close> are falsy).\<close>
definition js_truthy :: "string option \<Rightarrow> bool" where
  "js_truthy v \<longleftrightarrow> v \<noteq> None \<and> v \<noteq> Some []"

text \<open>The line feed \<open>"\n"\<close>.\<close>
definition nl :: string where
  "nl = [CHR 0x0A]"

text \<open>\<open>xs.join(sep)\<close> on an array of strings.\<close>
fun js_join :: "string \<Rightarrow> string list \<Rightarrow> string" where
  "js_join sep [] = []"
| "js_join sep [x] = x"
| "js_join sep (x # y # ys) = x @ sep @ js_join sep (y # ys)"

text \<open>\<open>s.split(c)\<close> for a one-character separator: the maximal separator-free pieces, as
  many as there are separators plus one.\<close>
fun js_split :: "char \<Rightarrow> string \<Rightarrow> string list" where
  "js_split sep [] = [[]]"
| "js_split sep (c # cs) =
     (if c = sep then [] # js_split sep cs
      else (case js_split sep cs of [] \<Rightarrow> [[c]] | w # ws \<Rightarrow> (c # w) # ws))"

text \<open>The first element of a list for which a partial function is defined.\<close>
fun first_some :: "('a \<Rightarrow> 'b option) \<Rightarrow> 'a list \<Rightarrow> 'b option" where
  "first_some f [] = None"
| "first_some f (x # xs) = (case f x of Some y \<Rightarrow> Some y | None \<Rightarrow> first_some f xs)"

definition is_digit :: "char \<Rightarrow> bool" where
  "is_digit c \<longleftrightarrow> 48 \<le> (of_char c :: nat) \<and> (of_char c :: nat) \<le> 57"

definition nat_of_digits :: "string \<Rightarrow> nat" where
  "nat_of_digits s = foldl (\<lambda>acc c. 10 * acc + (of_char c - 48)) 0 s"


text \<open>\<open>x ?? d\<close>.\<close>
definition with_default :: "'a \<Rightarrow> 'a option \<Rightarrow> 'a" where
  "with_default d x = (case x of None \<Rightarrow> d | Some v \<Rightarrow> v)"

section \<open>JSON values\<close>

text \<open>A JSON value as \<open>JSON.parse\<close> produces it and \<open>JSON.stringify\<close> consumes
  it; an object is the list of its members in order, with distinct keys.\<close>
datatype json =
    J_Null | J_Bool bool | J_Num int | J_Str string | J_Arr "json list"
  | J_Obj "(string \<times> json) list"

text \<open>JavaScript truthiness of a JSON value, property access (\<open>v.k\<close>, absent on
  anything but an object) and \<open>String(v)\<close>.\<close>
fun js_truthy_json :: "json \<Rightarrow> bool" where
  "js_truthy_json J_Null = False"
| "js_truthy_json (J_Bool b) = b"
| "js_truthy_json (J_Num n) = (n \<noteq> 0)"
| "js_truthy_json (J_Str s) = (s \<noteq> [])"
| "js_truthy_json (J_Arr _) = True"
| "js_truthy_json (J_Obj _) = True"

fun js_get :: "json \<Rightarrow> string \<Rightarrow> json option" where
  "js_get (J_Obj kvs) k = map_of kvs k"
| "js_get _ k = None"

fun js_String :: "json \<Rightarrow> string" where
  "js_String J_Null = ''null''"
| "js_String (J_Bool b) = (if b then ''true'' else ''false'')"
| "js_String (J_Num n) = string_of_int n"
| "js_String (J_Str s) = s"
| "js_String (J_Arr vs) = js_join '','' (map (\<lambda>v. if v = J_Null then [] else js_String v) vs)"
| "js_String (J_Obj _) = ''[object Object]''"

section \<open>HTTP requests\<close>

text \<open>The parts of a Fastify request the bridge reads: the peer address, the \<open>host\<close>,
  \<open>origin\<close>, \<open>x-client-id\<close>, \<open>user-agent\<close>, \<open>mcp-session-id\<close> and
  \<open>last-event-id\<close> headers, the \<open>client\<close> query parameter and the URL path. An absent
  header is \<open>None\<close>.\<close>
record http_request =
  req_ip :: "string option"
  req_host :: "string option"
  req_origin :: "string option"
  req_client_header :: "string option"
  req_user_agent :: "string option"
  req_query_client :: "string option"
  req_session_id :: "string option"
  req_last_event_id :: "string option"
  req_url :: string

section \<open>Generic lemmas\<close>

lemma js_includes_sublist [simp]: "js_includes s t \<longleftrightarrow> sublist t s"
  by (induction s) (auto simp: sublist_Cons_right)

lemma js_includes_Nil_pattern: "js_includes s []"
  by simp

lemma of_char_digit: "n < 10 \<Longrightarrow> (of_char (char_of (48 + n)) :: nat) = 48 + n"
  by (simp add: of_char_of)

lemma string_of_nat_digits: "\<forall>c \<in> set (string_of_nat n). is_digit c"
proof (induction n rule: string_of_nat.induct)
  case (1 n)
  then show ?case
    by (subst string_of_nat.simps) (auto simp: is_digit_def of_char_digit)
qed

lemma string_of_nat_nonempty: "string_of_nat n \<noteq> []"
  by (subst string_of_nat.simps) simp

lemma nat_of_digits_snoc: "nat_of_digits (s @ [c]) = 10 * nat_of_digits s + (of_char c - 48)"
  by (simp add: nat_of_digits_def)

lemma nat_of_digits_string_of_nat [simp]: "nat_of_digits (string_of_nat n) = n"
proof (induction n rule: string_of_nat.induct)
  case (1 n)
  show ?case
  proof (cases "n < 10")
    case True
    then show ?thesis
      by (subst string_of_nat.simps) (simp add: nat_of_digits_def of_char_digit)
  next
    case False
    with "1.IH" have "nat_of_digits (string_of_nat (n div 10)) = n div 10" by simp
    with False show ?thesis
      by (subst string_of_nat.simps) (simp add: nat_of_digits_snoc of_char_digit)
  qed
qed

lemma string_of_nat_inj: "string_of_nat m = string_of_nat n \<longleftrightarrow> m = n"
  by (metis nat_of_digits_string_of_nat)

lemma colon_not_digit: "\<not> is_digit (CHR '':'')"
  by (simp add: is_digit_def)

lemma colon_notin_string_of_nat: "CHR '':'' \<notin> set (string_of_nat n)"
  using string_of_nat_digits colon_not_digit by blast

text \<open>Association lists stand for JavaScript \<open>Map\<close>s (insertion ordered, one entry per key).\<close>

lemma distinct_fold_update:
  "distinct (map fst al) \<Longrightarrow> distinct (map fst (fold (\<lambda>(k, v). AList.update k v) kvs al))"
  by (induction kvs arbitrary: al) (auto simp: distinct_update)

lemma map_of_fold_update:
  "map_of (fold (\<lambda>(k, v). AList.update k v) kvs al) = fold (\<lambda>(k, v) m. m(k \<mapsto> v)) kvs (map_of al)"
  by (induction kvs arbitrary: al) (auto simp: update_conv')

text \<open>Updating the rows that match a key, with an update that keeps the key, keeps the keys.\<close>

lemma map_key_cond_update:
  "(\<And>x. g (f x) = g x) \<Longrightarrow> map g (map (\<lambda>x. if P x then f x else x) xs) = map g xs"
  by (induction xs) auto

lemma image_key_cond_update:
  "(\<And>x. g (f x) = g x) \<Longrightarrow> g ` set (map (\<lambda>x. if P x then f x else x) xs) = g ` set xs"
  using map_key_cond_update [of g f P xs] by (metis set_map)

lemma list_all_cond_update:
  "(\<And>x. Q x \<Longrightarrow> Q (f x)) \<Longrightarrow> list_all Q xs \<Longrightarrow> list_all Q (map (\<lambda>x. if P x then f x else x) xs)"
  by (induction xs) auto

text \<open>A running maximum bounds every element folded into it (rowid allocation).\<close>

lemma fold_max_ge_start: "a \<le> fold max xs (a :: nat)"
  by (induction xs arbitrary: a) (auto intro: order.trans [OF max.cobounded2])

lemma fold_max_ge_member: "x \<in> set xs \<Longrightarrow> x \<le> fold max xs (a :: nat)"
proof (induction xs arbitrary: a)
  case Nil
  then show ?case by simp
next
  case (Cons y ys)
  then show ?case
    by (auto intro: order.trans [OF _ fold_max_ge_start])
qed

lemma keys_fold_update:
  "fst ` set (fold (\<lambda>(k, v). AList.update k v) kvs al) = fst ` set kvs \<union> fst ` set al"
proof (induction kvs arbitrary: al)
  case Nil
  then show ?case by simp
next
  case (Cons p kvs)
  obtain a b where p: "p = (a, b)" by fastforce
  show ?case by (simp add: p Cons.IH dom_update)
qed

lemma map_of_fold_update_notin:
  "k \<notin> fst ` set kvs \<Longrightarrow> map_of (fold (\<lambda>(k, v). AList.update k v) kvs al) k = map_of al k"
  by (induction kvs arbitrary: al) (auto simp: update_conv')

lemma map_of_fold_update_in:
  "distinct (map fst kvs) \<Longrightarrow> (k, v) \<in> set kvs \<Longrightarrow>
   map_of (fold (\<lambda>(k, v). AList.update k v) kvs al) k = Some v"
proof (induction kvs arbitrary: al)
  case Nil
  then show ?case by simp
next
  case (Cons p kvs)
  show ?case
  proof (cases "p = (k, v)")
    case True
    with Cons.prems have "k \<notin> fst ` set kvs" by force
    with True show ?thesis by (simp add: map_of_fold_update_notin update_conv')
  next
    case False
    obtain a b where p: "p = (a, b)" by fastforce
    from False Cons.prems have "(k, v) \<in> set kvs" and "distinct (map fst kvs)" by auto
    then show ?thesis by (simp add: p Cons.IH)
  qed
qed

lemma list_all_update: "list_all P al \<Longrightarrow> P (k, v) \<Longrightarrow> list_all P (AList.update k v al)"
  by (induction al) auto

text \<open>A lookup by a key that is unique in the table finds the row with that key.\<close>

lemma find_key_distinct:
  "distinct (map k xs) \<Longrightarrow> x \<in> set xs \<Longrightarrow> find (\<lambda>y. k y = k x) xs = Some x"
  by (induction xs) (auto simp: rev_image_eqI)

lemma find_map_conv: "find P (map f xs) = map_option f (find (P \<circ> f) xs)"
  by (induction xs) auto

lemma find_key_cond_update:
  "(\<And>x. k (f x) = k x) \<Longrightarrow>
   find (\<lambda>y. k y = v) (map (\<lambda>x. if P x then f x else x) xs) =
   map_option (\<lambda>x. if P x then f x else x) (find (\<lambda>y. k y = v) xs)"
  by (induction xs) auto

lemma find_append_skip: "(\<forall>x \<in> set xs. \<not> P x) \<Longrightarrow> find P (xs @ ys) = find P ys"
  by (induction xs) auto

lemma find_append_found: "find P xs = Some x \<Longrightarrow> find P (xs @ ys) = Some x"
  by (induction xs) (auto split: if_splits)

lemma distinct_key_eq:
  "distinct (map k xs) \<Longrightarrow> x \<in> set xs \<Longrightarrow> y \<in> set xs \<Longrightarrow> k x = k y \<Longrightarrow> x = y"
  by (auto simp: distinct_map dest: inj_onD)

lemma js_split_nonempty: "js_split sep s \<noteq> []"
  by (induction s) (auto split: list.splits)

text \<open>Splitting and joining with the same separator are inverse.\<close>
lemma js_join_split: "js_join [sep] (js_split sep s) = s"
proof (induction s)
  case Nil
  then show ?case by simp
next
  case (Cons c cs)
  then show ?case
    using js_split_nonempty [of sep cs]
    by (cases "js_split sep cs" rule: remdups_adj.cases) (auto split: list.splits)
qed

lemma first_some_SomeD: "first_some f xs = Some y \<Longrightarrow> \<exists>x \<in> set xs. f x = Some y"
  by (induction xs) (auto split: option.splits)

lemma first_some_None_iff: "first_some f xs = None \<longleftrightarrow> (\<forall>x \<in> set xs. f x = None)"
  by (induction xs) (auto split: option.splits)

text \<open>A page of rows in the order of a key, as \<open>ORDER BY key LIMIT l OFFSET k\<close> returns
  it: rows of the input, at most \<open>l\<close> of them, in key order.\<close>
lemma page_by_key_props:
  "set (take l (drop k (sort_key f xs))) \<subseteq> set xs \<and>
   length (take l (drop k (sort_key f xs))) \<le> l \<and>
   sorted (map f (take l (drop k (sort_key f xs))))"
proof -
  have "sorted (map f (sort_key f xs))" by simp
  then have "sorted (map f (take l (drop k (sort_key f xs))))"
    by (simp add: take_map [symmetric] drop_map [symmetric] sorted_wrt_take sorted_wrt_drop)
  moreover have "set (take l (drop k (sort_key f xs))) \<subseteq> set xs"
    by (metis set_sort set_drop_subset set_take_subset subset_trans)
  ultimately show ?thesis by simp
qed

text \<open>Two \<open>COUNT\<close>s over disjoint conditions add up to at most the rows counted.\<close>
lemma length_filter_disjoint:
  "(\<And>x. x \<in> set xs \<Longrightarrow> \<not> (P x \<and> Q x)) \<Longrightarrow> length (filter P xs) + length (filter Q xs) \<le> length xs"
  by (induction xs) auto

text \<open>Deleting, from a list with unique keys, the rows whose keys are those of some of
  its \<open>P\<close>-rows leaves that many fewer \<open>P\<close>-rows.\<close>
lemma length_filter_remove_keys:
  assumes dk: "distinct (map k xs)" and ys: "set ys \<subseteq> {x \<in> set xs. P x}" and dy: "distinct ys"
  shows "length (filter P (filter (\<lambda>x. k x \<notin> k ` set ys) xs)) = length (filter P xs) - length ys"
proof -
  have dx: "distinct xs" using dk by (simp add: distinct_map)
  have inj: "inj_on k (set xs)" using dk by (simp add: distinct_map)
  have eq: "filter P (filter (\<lambda>x. k x \<notin> k ` set ys) xs) = filter (\<lambda>x. P x \<and> x \<notin> set ys) xs"
  proof (rule filter_cong [OF refl, THEN trans [OF filter_filter]])
    fix x assume x: "x \<in> set xs"
    have "k x \<in> k ` set ys \<longleftrightarrow> x \<in> set ys"
      using inj x ys by (auto dest: inj_onD)
    then show "(k x \<notin> k ` set ys \<and> P x) = (P x \<and> x \<notin> set ys)" by blast
  qed
  have "length (filter (\<lambda>x. P x \<and> x \<notin> set ys) xs) = card ({x \<in> set xs. P x} - set ys)"
    using dx by (simp add: distinct_length_filter) (rule arg_cong [where f = card], blast)
  also have "\<dots> = card {x \<in> set xs. P x} - card (set ys)"
    using ys by (simp add: card_Diff_subset finite_subset)
  also have "\<dots> = length (filter P xs) - length ys"
  proof -
    have "{x \<in> set xs. P x} = {x. P x} \<inter> set xs" by blast
    then show ?thesis using dx dy by (simp add: distinct_length_filter distinct_card)
  qed
  finally show ?thesis by (simp only: eq)
qed

end
