(* ===== verification/Store.thy ===== *)
theory Store
  imports Prelude
begin

text \<open>
  The SQLite store (src/unnamed/part_005 holds \<open>schema.sql\<close> and \<open>db/messages.ts\<close>;
  src/src/db/clients.ts, conversations.ts, message_queue.ts; the invocations table is in
  src/src/db/db.ts). Each table is a list of rows in insertion (rowid) order; every
  statement is a function from the database to the new database, and a statement that
  violates a constraint of the schema (primary key, foreign key, \<open>UNIQUE\<close>) is the
  \<open>Inl\<close> error the driver throws. \<open>randomUUID()\<close> and the clock are arguments.
  The full-text search takes FTS5's matcher as a parameter. The lemmas at the end state
  what a search returns and what \<open>closeConversation\<close> reads back.
\<close>

section \<open>Rows\<close>

datatype client_status = Online | Offline | Busy

record client_row =
  client_display_name :: string
  client_last_seen_at :: "timestamp option"
  client_session_id :: "string option"
  client_status :: client_status
  client_created_at :: timestamp

datatype conversation_status = Conv_Active | Conv_Pending | Conv_Completed | Conv_Archived

record conversation =
  conv_id :: uuid
  conv_title :: "string option"
  conv_project :: "string option"
  conv_status :: conversation_status
  conv_created_by :: client_id
  conv_created_at :: timestamp
  conv_updated_at :: timestamp
  conv_closed_at :: "timestamp option"
  conv_summary :: "string option"
  conv_metadata :: "string option"

datatype message_type =
  Msg_Message | Research_Request | Research_Response | Review_Request | Review_Response
  | Context_Share | Msg_System

datatype message_priority = Prio_Normal | Prio_High | Prio_Urgent

datatype message_status = Pending | Delivered | Read | Responded

record message =
  msg_id :: uuid
  msg_conversation_id :: uuid
  msg_sender :: client_id
  msg_target :: client_id
  msg_content :: string
  msg_type :: message_type
  msg_priority :: message_priority
  msg_status :: message_status
  msg_response_to_id :: "uuid option"
  msg_created_at :: timestamp
  msg_delivered_at :: "timestamp option"
  msg_read_at :: "timestamp option"
  msg_metadata :: "string option"

record queued_message =
  q_id :: nat
  q_message_id :: uuid
  q_target :: client_id
  q_priority :: int
  q_attempts :: nat
  q_max_attempts :: nat
  q_next_attempt :: timestamp
  q_created_at :: timestamp

datatype invocation_type = Codex_Exec | Claude_Mcp

datatype invocation_status = Inv_Pending | Inv_Running | Inv_Completed | Inv_Failed | Inv_Timeout

record invocation =
  inv_id :: uuid
  inv_target :: client_id
  inv_message_id :: uuid
  inv_type :: invocation_type
  inv_status :: invocation_status
  inv_command :: "string option"
  inv_stdout :: "string option"
  inv_stderr :: "string option"
  inv_exit_code :: "int option"
  inv_started_at :: "timestamp option"
  inv_completed_at :: "timestamp option"
  inv_created_at :: timestamp

datatype context_type = Ctx_File | Ctx_Snippet | Ctx_Entity | Ctx_Memory_Item | Ctx_Url

record shared_context =
  sc_id :: uuid
  sc_conversation_id :: "uuid option"
  sc_context_type :: context_type
  sc_content :: string
  sc_description :: "string option"
  sc_shared_by :: client_id
  sc_memorantado_id :: "int option"
  sc_created_at :: timestamp

record db =
  db_clients :: "client_id \<Rightarrow> client_row"
  db_conversations :: "conversation list"
  db_messages :: "message list"
  db_queue :: "queued_message list"
  db_invocations :: "invocation list"
  db_shared_context :: "shared_context list"

datatype db_error = Primary_Key_Violation | Foreign_Key_Violation | Unique_Violation

text \<open>The database right after \<open>migrate\<close>: the two seeded client rows, offline.\<close>
definition initial_db :: "timestamp \<Rightarrow> db" where
  "initial_db now =
     \<lparr>db_clients = (\<lambda>c. \<lparr>client_display_name =
                            (if c = Claude then ''Claude Code CLI'' else ''OpenAI Codex CLI''),
                          client_last_seen_at = None, client_session_id = None,
                          client_status = Offline, client_created_at = now\<rparr>),
      db_conversations = [], db_messages = [], db_queue = [], db_invocations = [],
      db_shared_context = []\<rparr>"

section \<open>Clients (src/src/db/clients.ts)\<close>

definition update_client_status ::
  "db \<Rightarrow> client_id \<Rightarrow> client_status \<Rightarrow> string option \<Rightarrow> timestamp \<Rightarrow> db" where
  "update_client_status d c st sid now =
     d\<lparr>db_clients := (db_clients d)(c := (db_clients d c)\<lparr>client_status := st,
                        client_session_id := sid, client_last_seen_at := Some now\<rparr>)\<rparr>"

definition set_client_offline :: "db \<Rightarrow> client_id \<Rightarrow> db" where
  "set_client_offline d c =
     d\<lparr>db_clients := (db_clients d)(c := (db_clients d c)\<lparr>client_status := Offline,
                        client_session_id := None\<rparr>)\<rparr>"

definition is_client_online :: "db \<Rightarrow> client_id \<Rightarrow> bool" where
  "is_client_online d c \<longleftrightarrow> client_status (db_clients d c) = Online"

text \<open>\<open>getClient\<close> and \<open>getAllClients\<close>: the two rows \<open>migrate\<close> seeds (in that order)
  are never deleted, so the lookup always finds its row; a row's \<open>id\<close> is its key.\<close>
definition get_client :: "db \<Rightarrow> client_id \<Rightarrow> client_row option" where
  "get_client d c = Some (db_clients d c)"

definition get_all_clients :: "db \<Rightarrow> (client_id \<times> client_row) list" where
  "get_all_clients d = map (\<lambda>c. (c, db_clients d c)) all_clients"

definition get_client_by_session :: "db \<Rightarrow> string \<Rightarrow> client_id option" where
  "get_client_by_session d sid =
     find (\<lambda>c. client_session_id (db_clients d c) = Some sid) all_clients"

section \<open>Conversations (src/src/db/conversations.ts)\<close>

definition get_conversation :: "db \<Rightarrow> uuid \<Rightarrow> conversation option" where
  "get_conversation d cid = find (\<lambda>c. conv_id c = cid) (db_conversations d)"

definition create_conversation ::
  "db \<Rightarrow> uuid \<Rightarrow> string option \<Rightarrow> string option \<Rightarrow> client_id \<Rightarrow> string option \<Rightarrow> timestamp
   \<Rightarrow> db_error + (db \<times> conversation)" where
  "create_conversation d cid title project created_by metadata now =
     (if cid \<in> conv_id ` set (db_conversations d) then Inl Primary_Key_Violation
      else
        (let c = \<lparr>conv_id = cid, conv_title = title, conv_project = project,
                  conv_status = Conv_Active, conv_created_by = created_by,
                  conv_created_at = now, conv_updated_at = now, conv_closed_at = None,
                  conv_summary = None, conv_metadata = metadata\<rparr>
         in Inr (d\<lparr>db_conversations := db_conversations d @ [c]\<rparr>, c)))"

text \<open>\<open>listConversations\<close>: with a participant, the conversations having a message sent
  or received by it (\<open>SELECT DISTINCT\<close>); the status filter unless it is \<open>"all"\<close>
  (\<open>None\<close>); newest \<open>updated_at\<close> first; then \<open>LIMIT\<close> and \<open>OFFSET\<close>.\<close>
definition list_conversations ::
  "db \<Rightarrow> conversation_status option \<Rightarrow> client_id option \<Rightarrow> nat \<Rightarrow> nat \<Rightarrow> conversation list" where
  "list_conversations d status participant limit offset =
     (let rows = filter (\<lambda>c. (case participant of None \<Rightarrow> True
                              | Some p \<Rightarrow> list_ex (\<lambda>m.
                                   msg_conversation_id m = conv_id c \<and>
                                   (msg_sender m = p \<or> msg_target m = p)) (db_messages d))
                           \<and> (case status of None \<Rightarrow> True | Some st \<Rightarrow> conv_status c = st))
                 (db_conversations d)
      in take limit (drop offset (sort_key (\<lambda>c. - int (conv_updated_at c)) rows)))"

text \<open>\<open>updateConversation\<close>: always stamps \<open>updated_at\<close>; a new status of completed
  or archived also stamps \<open>closed_at\<close>; returns the row read back.\<close>
definition conv_apply_update ::
  "string option \<Rightarrow> conversation_status option \<Rightarrow> string option \<Rightarrow> timestamp
   \<Rightarrow> conversation \<Rightarrow> conversation" where
  "conv_apply_update title status summary now c =
     (let c1 = c\<lparr>conv_updated_at := now\<rparr>;
          c2 = (case title of None \<Rightarrow> c1 | Some t \<Rightarrow> c1\<lparr>conv_title := Some t\<rparr>);
          c3 = (case status of None \<Rightarrow> c2
                | Some st \<Rightarrow> (if st = Conv_Completed \<or> st = Conv_Archived
                              then c2\<lparr>conv_status := st, conv_closed_at := Some now\<rparr>
                              else c2\<lparr>conv_status := st\<rparr>));
          c4 = (case summary of None \<Rightarrow> c3 | Some s \<Rightarrow> c3\<lparr>conv_summary := Some s\<rparr>)
      in c4)"

definition update_conversation ::
  "db \<Rightarrow> uuid \<Rightarrow> string option \<Rightarrow> conversation_status option \<Rightarrow> string option \<Rightarrow> timestamp
   \<Rightarrow> db \<times> conversation option" where
  "update_conversation d cid title status summary now =
     (let d' = d\<lparr>db_conversations :=
                  map (\<lambda>c. if conv_id c = cid then conv_apply_update title status summary now c else c)
                      (db_conversations d)\<rparr>
      in (d', get_conversation d' cid))"

definition close_conversation ::
  "db \<Rightarrow> uuid \<Rightarrow> string option \<Rightarrow> timestamp \<Rightarrow> db \<times> conversation option" where
  "close_conversation d cid summary now =
     update_conversation d cid None (Some Conv_Completed) summary now"

section \<open>Messages (db/messages.ts, src/unnamed/part_005)\<close>

record create_message_input =
  cm_conversation_id :: uuid
  cm_sender :: client_id
  cm_target :: client_id
  cm_content :: string
  cm_message_type :: "message_type option"
  cm_priority :: "message_priority option"
  cm_response_to_id :: "uuid option"
  cm_metadata :: "string option"

definition get_message :: "db \<Rightarrow> uuid \<Rightarrow> message option" where
  "get_message d mid = find (\<lambda>m. msg_id m = mid) (db_messages d)"

definition message_of_input :: "uuid \<Rightarrow> create_message_input \<Rightarrow> timestamp \<Rightarrow> message" where
  "message_of_input mid i now =
     \<lparr>msg_id = mid, msg_conversation_id = cm_conversation_id i, msg_sender = cm_sender i,
      msg_target = cm_target i, msg_content = cm_content i,
      msg_type = (case cm_message_type i of None \<Rightarrow> Msg_Message | Some t \<Rightarrow> t),
      msg_priority = (case cm_priority i of None \<Rightarrow> Prio_Normal | Some p \<Rightarrow> p),
      msg_status = Pending, msg_response_to_id = cm_response_to_id i, msg_created_at = now,
      msg_delivered_at = None, msg_read_at = None, msg_metadata = cm_metadata i\<rparr>"

text \<open>\<open>createMessage\<close>: the \<open>INSERT\<close> (primary key, and the foreign keys to the
  conversation and to the message answered), then the \<open>UPDATE\<close> of the conversation's
  \<open>updated_at\<close>.\<close>
definition create_message ::
  "db \<Rightarrow> uuid \<Rightarrow> create_message_input \<Rightarrow> timestamp \<Rightarrow> db_error + (db \<times> message)" where
  "create_message d mid i now =
     (if mid \<in> msg_id ` set (db_messages d) then Inl Primary_Key_Violation
      else if cm_conversation_id i \<notin> conv_id ` set (db_conversations d) then Inl Foreign_Key_Violation
      else if (case cm_response_to_id i of None \<Rightarrow> False
               | Some r \<Rightarrow> r \<notin> msg_id ` set (db_messages d)) then Inl Foreign_Key_Violation
      else
        (let m = message_of_input mid i now;
             d1 = d\<lparr>db_messages := db_messages d @ [m]\<rparr>;
             d2 = d1\<lparr>db_conversations :=
                    map (\<lambda>c. if conv_id c = cm_conversation_id i then c\<lparr>conv_updated_at := now\<rparr> else c)
                        (db_conversations d1)\<rparr>
         in Inr (d2, m)))"

definition get_conversation_messages :: "db \<Rightarrow> uuid \<Rightarrow> nat \<Rightarrow> nat \<Rightarrow> message list" where
  "get_conversation_messages d cid limit offset =
     take limit (drop offset
       (sort_key msg_created_at (filter (\<lambda>m. msg_conversation_id m = cid) (db_messages d))))"

definition set_message_status :: "message_status \<Rightarrow> timestamp \<Rightarrow> message \<Rightarrow> message" where
  "set_message_status st now m =
     (if st = Delivered then m\<lparr>msg_status := st, msg_delivered_at := Some now\<rparr>
      else if st = Read then m\<lparr>msg_status := st, msg_read_at := Some now\<rparr>
      else m\<lparr>msg_status := st\<rparr>)"

definition update_message_status :: "db \<Rightarrow> uuid \<Rightarrow> message_status \<Rightarrow> timestamp \<Rightarrow> db" where
  "update_message_status d mid st now =
     d\<lparr>db_messages := map (\<lambda>m. if msg_id m = mid then set_message_status st now m else m)
                          (db_messages d)\<rparr>"

definition priority_rank :: "message_priority \<Rightarrow> nat" where
  "priority_rank p = (case p of Prio_Urgent \<Rightarrow> 0 | Prio_High \<Rightarrow> 1 | Prio_Normal \<Rightarrow> 2)"

definition get_pending_messages_for_target :: "db \<Rightarrow> client_id \<Rightarrow> nat \<Rightarrow> message list" where
  "get_pending_messages_for_target d t limit =
     take limit (sort_key (\<lambda>m. (priority_rank (msg_priority m), msg_created_at m))
       (filter (\<lambda>m. msg_target m = t \<and> msg_status m = Pending) (db_messages d)))"

text \<open>\<open>getResponseToMessage\<close>: the earliest message answering \<open>mid\<close>.\<close>
definition get_response_to_message :: "db \<Rightarrow> uuid \<Rightarrow> message option" where
  "get_response_to_message d mid =
     (case sort_key msg_created_at (filter (\<lambda>m. msg_response_to_id m = Some mid) (db_messages d)) of
        [] \<Rightarrow> None
      | r # _ \<Rightarrow> Some r)"

text \<open>\<open>searchMessages\<close>: the full-text index \<open>messages_fts\<close> holds the content of every
  message (the triggers \<open>messages_ai\<close>, \<open>messages_ad\<close> and \<open>messages_au\<close> keep it
  in step with the table), so a message is found when the \<open>MATCH\<close> query accepts its
  content. FTS5's query language and porter stemmer are a parameter: \<open>fts\<close> compiles
  a query to the contents it accepts, and is \<open>None\<close> for a query FTS5 refuses, on which
  the statement throws. A \<open>conversationId\<close> narrows the search only when it is a
  non-empty string (the code tests it for truthiness); at most \<open>limit\<close> (50) rows, newest
  first.\<close>
definition in_conversation :: "uuid option \<Rightarrow> message \<Rightarrow> bool" where
  "in_conversation cid m = (case cid of Some c \<Rightarrow> if c = [] then True else msg_conversation_id m = c | None \<Rightarrow> True)"

definition search_messages ::
  "(string \<Rightarrow> (string \<Rightarrow> bool) option) \<Rightarrow> db \<Rightarrow> string \<Rightarrow> uuid option \<Rightarrow> nat option
   \<Rightarrow> message list option" where
  "search_messages fts d query cid limit =
     (case fts query of
        None \<Rightarrow> None
      | Some matches \<Rightarrow>
          Some (take (case limit of None \<Rightarrow> 50 | Some l \<Rightarrow> l)
                 (sort_key (\<lambda>m. - int (msg_created_at m))
                   (filter (\<lambda>m. matches (msg_content m) \<and> in_conversation cid m) (db_messages d)))))"

section \<open>Lemmas\<close>

text \<open>What a search returns: matching messages of the conversation asked for, at most
  \<open>limit\<close> of them, newest first.\<close>
lemma search_messages_props:
  assumes "search_messages fts d query cid limit = Some ms" and "fts query = Some matches"
  shows "\<forall>m \<in> set ms. m \<in> set (db_messages d) \<and> matches (msg_content m) \<and> in_conversation cid m"
    and "length ms \<le> (case limit of None \<Rightarrow> 50 | Some l \<Rightarrow> l)"
    and "sorted_wrt (\<lambda>a b. msg_created_at b \<le> msg_created_at a) ms"
proof -
  let ?rows = "filter (\<lambda>m. matches (msg_content m) \<and> in_conversation cid m) (db_messages d)"
  have ms: "ms = take (case limit of None \<Rightarrow> 50 | Some l \<Rightarrow> l) (drop 0 (sort_key (\<lambda>m. - int (msg_created_at m)) ?rows))"
    using assms by (simp add: search_messages_def)
  note p = page_by_key_props [of "case limit of None \<Rightarrow> 50 | Some l \<Rightarrow> l" 0 "\<lambda>m. - int (msg_created_at m)" ?rows]
  show "\<forall>m \<in> set ms. m \<in> set (db_messages d) \<and> matches (msg_content m) \<and> in_conversation cid m"
    using p unfolding ms by auto
  show "length ms \<le> (case limit of None \<Rightarrow> 50 | Some l \<Rightarrow> l)"
    using p unfolding ms by blast
  show "sorted_wrt (\<lambda>a b. msg_created_at b \<le> msg_created_at a) ms"
    using p unfolding ms by (simp add: sorted_map)
qed

text \<open>\<open>closeConversation\<close> reads back the closed row.\<close>
lemma close_conversation_Some:
  assumes "close_conversation d cid s now = (d', Some cv)"
  shows "conv_id cv = cid \<and> conv_status cv = Conv_Completed \<and> conv_closed_at cv = Some now"
  using assms
  by (auto simp: close_conversation_def update_conversation_def get_conversation_def Let_def
                 find_map_conv conv_apply_update_def find_Some_iff o_def split: option.splits)

end
