(* ===== verification/Shared_Context.thy ===== *)
theory Shared_Context
  imports Store
begin

text \<open>
  The \<open>shared_context\<close> table (db/shared_context.ts, staged as src/unnamed/part_004; the
  table is declared in \<open>schema.sql\<close>, src/unnamed/part_005 lines 246-258). A row may
  name a conversation, which is then a foreign key; \<open>created_at\<close> is the clock reading at
  the insert. The list queries order newest first and page with \<open>LIMIT\<close> and
  \<open>OFFSET\<close>, which default to 50 and 0.
\<close>

section \<open>Statements\<close>

record create_shared_context_input =
  csi_conversation_id :: "uuid option"
  csi_context_type :: context_type
  csi_content :: string
  csi_description :: "string option"
  csi_shared_by :: client_id

definition get_shared_context :: "db \<Rightarrow> uuid \<Rightarrow> shared_context option" where
  "get_shared_context d sid = find (\<lambda>s. sc_id s = sid) (db_shared_context d)"

text \<open>\<open>createSharedContext\<close>: the insert, checked against the primary key and the
  conversation foreign key; the row read back is the one inserted.\<close>
definition create_shared_context ::
  "db \<Rightarrow> uuid \<Rightarrow> create_shared_context_input \<Rightarrow> timestamp \<Rightarrow> db_error + (db \<times> shared_context)" where
  "create_shared_context d sid i now =
     (if sid \<in> sc_id ` set (db_shared_context d) then Inl Primary_Key_Violation
      else if \<not> set_option (csi_conversation_id i) \<subseteq> conv_id ` set (db_conversations d)
      then Inl Foreign_Key_Violation
      else
        (let s = \<lparr>sc_id = sid, sc_conversation_id = csi_conversation_id i,
                  sc_context_type = csi_context_type i, sc_content = csi_content i,
                  sc_description = csi_description i, sc_shared_by = csi_shared_by i,
                  sc_memorantado_id = None, sc_created_at = now\<rparr>
         in Inr (d\<lparr>db_shared_context := db_shared_context d @ [s]\<rparr>, s)))"

text \<open>\<open>const { limit = 50, offset = 0 } = opts\<close> followed by
  \<open>ORDER BY created_at DESC LIMIT ? OFFSET ?\<close>.\<close>
definition newest_page :: "nat option \<Rightarrow> nat option \<Rightarrow> shared_context list \<Rightarrow> shared_context list" where
  "newest_page limit offset rows =
     take (case limit of None \<Rightarrow> 50 | Some l \<Rightarrow> l) (drop (case offset of None \<Rightarrow> 0 | Some k \<Rightarrow> k)
       (sort_key (\<lambda>s. - int (sc_created_at s)) rows))"

definition list_shared_context_by_conversation ::
  "db \<Rightarrow> uuid \<Rightarrow> nat option \<Rightarrow> nat option \<Rightarrow> shared_context list" where
  "list_shared_context_by_conversation d cid limit offset =
     newest_page limit offset (filter (\<lambda>s. sc_conversation_id s = Some cid) (db_shared_context d))"

definition list_shared_context_by_type ::
  "db \<Rightarrow> context_type \<Rightarrow> nat option \<Rightarrow> nat option \<Rightarrow> shared_context list" where
  "list_shared_context_by_type d ty limit offset =
     newest_page limit offset (filter (\<lambda>s. sc_context_type s = ty) (db_shared_context d))"

definition list_all_shared_context :: "db \<Rightarrow> nat option \<Rightarrow> nat option \<Rightarrow> shared_context list" where
  "list_all_shared_context d limit offset = newest_page limit offset (db_shared_context d)"

text \<open>The \<open>SET\<close> clause of \<open>updateSharedContext\<close>: each given field.\<close>
definition sc_apply_update :: "int option \<Rightarrow> string option \<Rightarrow> shared_context \<Rightarrow> shared_context" where
  "sc_apply_update memorantado_id description s =
     (let s1 = (case memorantado_id of None \<Rightarrow> s | Some n \<Rightarrow> s\<lparr>sc_memorantado_id := Some n\<rparr>)
      in case description of None \<Rightarrow> s1 | Some t \<Rightarrow> s1\<lparr>sc_description := Some t\<rparr>)"

text \<open>\<open>updateSharedContext\<close>: with neither field given it only reads the row back;
  otherwise it updates the row with that id and reads it back.\<close>
definition update_shared_context ::
  "db \<Rightarrow> uuid \<Rightarrow> int option \<Rightarrow> string option \<Rightarrow> db \<times> shared_context option" where
  "update_shared_context d sid memorantado_id description =
     (if memorantado_id = None \<and> description = None then (d, get_shared_context d sid)
      else
        (let d' = d\<lparr>db_shared_context :=
                    map (\<lambda>s. if sc_id s = sid then sc_apply_update memorantado_id description s else s)
                        (db_shared_context d)\<rparr>
         in (d', get_shared_context d' sid)))"

text \<open>\<open>deleteSharedContext\<close>: whether a row was deleted.\<close>
definition delete_shared_context :: "db \<Rightarrow> uuid \<Rightarrow> db \<times> bool" where
  "delete_shared_context d sid =
     (d\<lparr>db_shared_context := filter (\<lambda>s. sc_id s \<noteq> sid) (db_shared_context d)\<rparr>,
      sid \<in> sc_id ` set (db_shared_context d))"

section \<open>Lemmas\<close>

lemma sc_apply_update_keys [simp]:
  "sc_id (sc_apply_update n t s) = sc_id s"
  "sc_conversation_id (sc_apply_update n t s) = sc_conversation_id s"
  by (simp_all add: sc_apply_update_def Let_def split: option.splits)

lemma create_shared_context_Inr:
  assumes "create_shared_context d sid i now = Inr (d', s)"
  shows "sid \<notin> sc_id ` set (db_shared_context d)"
    and "d' = d\<lparr>db_shared_context := db_shared_context d @ [s]\<rparr>"
    and "s = \<lparr>sc_id = sid, sc_conversation_id = csi_conversation_id i,
              sc_context_type = csi_context_type i, sc_content = csi_content i,
              sc_description = csi_description i, sc_shared_by = csi_shared_by i,
              sc_memorantado_id = None, sc_created_at = now\<rparr>"
  using assms by (auto simp: create_shared_context_def Let_def split: if_splits)

text \<open>A page is a newest-first slice of the rows it selects, at most \<open>limit\<close> long.\<close>
lemma newest_page_props:
  "set (newest_page l k rows) \<subseteq> set rows \<and>
   length (newest_page l k rows) \<le> (case l of None \<Rightarrow> 50 | Some n \<Rightarrow> n) \<and>
   sorted_wrt (\<lambda>a b. sc_created_at b \<le> sc_created_at a) (newest_page l k rows)"
proof -
  let ?s = "sort_key (\<lambda>s. - int (sc_created_at s)) rows"
  have "sorted (map (\<lambda>s. - int (sc_created_at s)) ?s)" by simp
  then have "sorted_wrt (\<lambda>a b. sc_created_at b \<le> sc_created_at a) ?s"
    by (simp add: sorted_map)
  then have "sorted_wrt (\<lambda>a b. sc_created_at b \<le> sc_created_at a) (take m (drop j ?s))" for m j
    by (simp add: sorted_wrt_take sorted_wrt_drop)
  moreover have "set (take m (drop j ?s)) \<subseteq> set rows" for m j
    by (metis set_sort set_drop_subset set_take_subset subset_trans)
  ultimately show ?thesis by (simp add: newest_page_def)
qed

section \<open>Properties\<close>

text \<open>C25. Sharing then reading back: a successful \<open>createSharedContext\<close> stores one row
  under the new id, and \<open>getSharedContext\<close> returns exactly that row, carrying the
  input's conversation, type, content and author, stamped with the insert's time.\<close>
theorem create_shared_context_get:
  assumes "create_shared_context d sid i now = Inr (d', s)"
  shows "get_shared_context d' sid = Some s \<and> sc_conversation_id s = csi_conversation_id i \<and>
         sc_context_type s = csi_context_type i \<and> sc_content s = csi_content i \<and>
         sc_shared_by s = csi_shared_by i \<and> sc_created_at s = now"
proof -
  note r = create_shared_context_Inr [OF assms]
  have "\<forall>x \<in> set (db_shared_context d). sc_id x \<noteq> sid" using r(1) by blast
  then have "get_shared_context d' sid = find (\<lambda>x. sc_id x = sid) [s]"
    by (simp add: get_shared_context_def r(2) find_append_skip)
  then show ?thesis by (simp add: r(3))
qed

text \<open>Sharing into a conversation that does not exist is refused by the foreign
  key: the driver throws and nothing is stored.\<close>
theorem create_shared_context_missing_conversation:
  assumes "sid \<notin> sc_id ` set (db_shared_context d)"
    and "csi_conversation_id i = Some cid" and "cid \<notin> conv_id ` set (db_conversations d)"
  shows "create_shared_context d sid i now = Inl Foreign_Key_Violation"
  using assms by (simp add: create_shared_context_def)

text \<open>\<open>listSharedContextByConversation\<close> returns only items shared into that
  conversation, at most \<open>limit\<close> of them (50 by default), newest first.\<close>
theorem list_shared_context_by_conversation_page:
  "set (list_shared_context_by_conversation d cid l k) \<subseteq>
     {s \<in> set (db_shared_context d). sc_conversation_id s = Some cid} \<and>
   length (list_shared_context_by_conversation d cid l k) \<le> (case l of None \<Rightarrow> 50 | Some n \<Rightarrow> n) \<and>
   sorted_wrt (\<lambda>a b. sc_created_at b \<le> sc_created_at a) (list_shared_context_by_conversation d cid l k)"
  using newest_page_props [of l k "filter (\<lambda>s. sc_conversation_id s = Some cid) (db_shared_context d)"]
  by (auto simp: list_shared_context_by_conversation_def)

section \<open>Witnesses\<close>

definition example_share :: create_shared_context_input where
  "example_share = \<lparr>csi_conversation_id = None, csi_context_type = Ctx_Snippet,
     csi_content = ''x = 1'', csi_description = None, csi_shared_by = Claude\<rparr>"

theorem create_shared_context_get_witness:
  "\<exists>d' s. create_shared_context (initial_db 0) ''s1'' example_share 5 = Inr (d', s) \<and>
          get_shared_context d' ''s1'' = Some s \<and> sc_content s = ''x = 1''"
proof -
  obtain d' s where r: "create_shared_context (initial_db 0) ''s1'' example_share 5 = Inr (d', s)"
    by (simp add: create_shared_context_def initial_db_def example_share_def Let_def)
  show ?thesis using create_shared_context_get [OF r] r by (simp add: example_share_def)
qed

theorem create_shared_context_missing_conversation_witness:
  "create_shared_context (initial_db 0) ''s1'' (example_share\<lparr>csi_conversation_id := Some ''c9''\<rparr>) 5
     = Inl Foreign_Key_Violation"
  by (rule create_shared_context_missing_conversation [where cid = "''c9''"])
     (simp_all add: initial_db_def)

end
