(* ===== verification/Queue_Store.thy ===== *)
theory Queue_Store
  imports Shared_Context
begin

text \<open>
  The \<open>message_queue\<close> table (src/src/db/message_queue.ts) and the \<open>invocations\<close>
  audit table (db/invocations.ts, staged in src/src/db/db.ts). Queue rows get the
  \<open>INTEGER PRIMARY KEY\<close> rowid SQLite assigns (one more than the largest in use),
  \<open>message_id\<close> is \<open>UNIQUE\<close> and a foreign key to \<open>messages\<close>. Backoff delays are
  in seconds, as \<open>strftime(..., '+N seconds')\<close> takes them; the clock is in ms.
  The theory ends with the store's invariant \<open>db_wf\<close> (unique keys, valid foreign
  keys over all six tables), the datatype \<open>store_op\<close> of every statement of the
  program, and the proof that every run of statements keeps the invariant.
\<close>

section \<open>The message queue\<close>

definition next_rowid :: "queued_message list \<Rightarrow> nat" where
  "next_rowid q = Suc (fold max (map q_id q) 0)"

text \<open>\<open>enqueueMessage\<close>: priority defaults to 0 and \<open>max_attempts\<close> to 3.\<close>
definition enqueue_message ::
  "db \<Rightarrow> uuid \<Rightarrow> client_id \<Rightarrow> int option \<Rightarrow> nat option \<Rightarrow> timestamp
   \<Rightarrow> db_error + (db \<times> queued_message)" where
  "enqueue_message d mid t prio max_att now =
     (if mid \<in> q_message_id ` set (db_queue d) then Inl Unique_Violation
      else if mid \<notin> msg_id ` set (db_messages d) then Inl Foreign_Key_Violation
      else
        (let e = \<lparr>q_id = next_rowid (db_queue d), q_message_id = mid, q_target = t,
                  q_priority = (case prio of None \<Rightarrow> 0 | Some p \<Rightarrow> p), q_attempts = 0,
                  q_max_attempts = (case max_att of None \<Rightarrow> 3 | Some n \<Rightarrow> n),
                  q_next_attempt = now, q_created_at = now\<rparr>
         in Inr (d\<lparr>db_queue := db_queue d @ [e]\<rparr>, e)))"

definition get_queued_message :: "db \<Rightarrow> uuid \<Rightarrow> queued_message option" where
  "get_queued_message d mid = find (\<lambda>e. q_message_id e = mid) (db_queue d)"

definition ready_entry :: "client_id \<Rightarrow> timestamp \<Rightarrow> queued_message \<Rightarrow> bool" where
  "ready_entry t now e \<longleftrightarrow> q_target e = t \<and> q_next_attempt e \<le> now \<and> q_attempts e < q_max_attempts e"

text \<open>\<open>dequeueMessages\<close>: ready rows of the target, highest priority first, then oldest
  \<open>next_attempt\<close>, at most \<open>limit\<close> of them. It only reads.\<close>
definition dequeue_messages :: "db \<Rightarrow> client_id \<Rightarrow> nat \<Rightarrow> timestamp \<Rightarrow> queued_message list" where
  "dequeue_messages d t limit now =
     take limit (sort_key (\<lambda>e. (- q_priority e, q_next_attempt e))
                    (filter (ready_entry t now) (db_queue d)))"

definition increment_attempts :: "db \<Rightarrow> nat \<Rightarrow> nat \<Rightarrow> timestamp \<Rightarrow> db" where
  "increment_attempts d qid delay_seconds now =
     d\<lparr>db_queue := map (\<lambda>e. if q_id e = qid
                            then e\<lparr>q_attempts := Suc (q_attempts e),
                                   q_next_attempt := now + 1000 * delay_seconds\<rparr>
                            else e) (db_queue d)\<rparr>"

definition remove_from_queue :: "db \<Rightarrow> uuid \<Rightarrow> db \<times> bool" where
  "remove_from_queue d mid =
     (d\<lparr>db_queue := filter (\<lambda>e. q_message_id e \<noteq> mid) (db_queue d)\<rparr>,
      mid \<in> q_message_id ` set (db_queue d))"

definition exhausted :: "queued_message \<Rightarrow> bool" where
  "exhausted e \<longleftrightarrow> q_max_attempts e \<le> q_attempts e"

definition clear_exhausted_messages :: "db \<Rightarrow> db \<times> nat" where
  "clear_exhausted_messages d =
     (d\<lparr>db_queue := filter (\<lambda>e. \<not> exhausted e) (db_queue d)\<rparr>,
      length (filter exhausted (db_queue d)))"

definition get_queue_length :: "db \<Rightarrow> client_id option \<Rightarrow> nat" where
  "get_queue_length d t =
     (case t of None \<Rightarrow> length (db_queue d)
      | Some c \<Rightarrow> length (filter (\<lambda>e. q_target e = c) (db_queue d)))"

text \<open>\<open>getQueueStats\<close>: one row per target that has queue rows (\<open>GROUP BY target\<close>,
  listed in key order), counting its rows, those ready for delivery now and those out of
  attempts.\<close>
record queue_stats =
  qs_target :: client_id
  qs_pending :: nat
  qs_ready :: nat
  qs_exhausted :: nat

definition queue_stats_for :: "queued_message list \<Rightarrow> timestamp \<Rightarrow> client_id \<Rightarrow> queue_stats" where
  "queue_stats_for q now t =
     (let rows = filter (\<lambda>e. q_target e = t) q
      in \<lparr>qs_target = t, qs_pending = length rows,
          qs_ready = length (filter (\<lambda>e. q_next_attempt e \<le> now \<and> q_attempts e < q_max_attempts e) rows),
          qs_exhausted = length (filter exhausted rows)\<rparr>)"

definition get_queue_stats :: "db \<Rightarrow> timestamp \<Rightarrow> queue_stats list" where
  "get_queue_stats d now =
     map (queue_stats_for (db_queue d) now) (filter (\<lambda>t. t \<in> q_target ` set (db_queue d)) [Claude, Codex])"

section \<open>Invocations\<close>

definition get_invocation :: "db \<Rightarrow> uuid \<Rightarrow> invocation option" where
  "get_invocation d iid = find (\<lambda>i. inv_id i = iid) (db_invocations d)"

definition create_invocation ::
  "db \<Rightarrow> uuid \<Rightarrow> client_id \<Rightarrow> uuid \<Rightarrow> invocation_type \<Rightarrow> string option \<Rightarrow> timestamp
   \<Rightarrow> db_error + (db \<times> invocation)" where
  "create_invocation d iid t mid ty cmd now =
     (if iid \<in> inv_id ` set (db_invocations d) then Inl Primary_Key_Violation
      else if mid \<notin> msg_id ` set (db_messages d) then Inl Foreign_Key_Violation
      else
        (let i = \<lparr>inv_id = iid, inv_target = t, inv_message_id = mid, inv_type = ty,
                  inv_status = Inv_Pending, inv_command = cmd, inv_stdout = None,
                  inv_stderr = None, inv_exit_code = None, inv_started_at = None,
                  inv_completed_at = None, inv_created_at = now\<rparr>
         in Inr (d\<lparr>db_invocations := db_invocations d @ [i]\<rparr>, i)))"

text \<open>\<open>getInvocationByMessageId\<close>: the newest invocation of the message
  (\<open>ORDER BY created_at DESC LIMIT 1\<close>; among rows created at the same instant the
  model takes the earliest inserted).\<close>
definition get_invocation_by_message_id :: "db \<Rightarrow> uuid \<Rightarrow> invocation option" where
  "get_invocation_by_message_id d mid =
     (case sort_key (\<lambda>i. - int (inv_created_at i)) (filter (\<lambda>i. inv_message_id i = mid) (db_invocations d)) of
        [] \<Rightarrow> None
      | i # _ \<Rightarrow> Some i)"

definition list_invocations_by_status ::
  "db \<Rightarrow> invocation_status \<Rightarrow> nat \<Rightarrow> nat \<Rightarrow> invocation list" where
  "list_invocations_by_status d st limit offset =
     take limit (drop offset (sort_key (\<lambda>i. - int (inv_created_at i))
                                (filter (\<lambda>i. inv_status i = st) (db_invocations d))))"

definition list_invocations_by_target ::
  "db \<Rightarrow> client_id \<Rightarrow> nat \<Rightarrow> nat \<Rightarrow> invocation list" where
  "list_invocations_by_target d t limit offset =
     take limit (drop offset (sort_key (\<lambda>i. - int (inv_created_at i))
                                (filter (\<lambda>i. inv_target i = t) (db_invocations d))))"

text \<open>\<open>updateInvocation\<close> takes a partial row: each field that is given is written.\<close>
record invocation_update =
  iu_status :: "invocation_status option"
  iu_stdout :: "string option"
  iu_stderr :: "string option"
  iu_exit_code :: "int option"
  iu_started_at :: "timestamp option"
  iu_completed_at :: "timestamp option"

definition apply_invocation_update :: "invocation_update \<Rightarrow> invocation \<Rightarrow> invocation" where
  "apply_invocation_update u i =
     i\<lparr>inv_status := (case iu_status u of None \<Rightarrow> inv_status i | Some s \<Rightarrow> s),
       inv_stdout := (case iu_stdout u of None \<Rightarrow> inv_stdout i | Some s \<Rightarrow> Some s),
       inv_stderr := (case iu_stderr u of None \<Rightarrow> inv_stderr i | Some s \<Rightarrow> Some s),
       inv_exit_code := (case iu_exit_code u of None \<Rightarrow> inv_exit_code i | Some c \<Rightarrow> Some c),
       inv_started_at := (case iu_started_at u of None \<Rightarrow> inv_started_at i | Some t \<Rightarrow> Some t),
       inv_completed_at := (case iu_completed_at u of None \<Rightarrow> inv_completed_at i | Some t \<Rightarrow> Some t)\<rparr>"

definition update_invocation :: "db \<Rightarrow> uuid \<Rightarrow> invocation_update \<Rightarrow> db \<times> invocation option" where
  "update_invocation d iid u =
     (let d' = d\<lparr>db_invocations :=
                  map (\<lambda>i. if inv_id i = iid then apply_invocation_update u i else i) (db_invocations d)\<rparr>
      in (d', get_invocation d' iid))"

section \<open>Well-formedness of the store\<close>

text \<open>What the schema's keys guarantee: ids are unique, every message lies in an existing
  conversation and answers an existing message, every queue row and every invocation
  refers to an existing message, queue rowids and queued message ids are unique, shared
  context ids are unique and a shared context names no missing conversation.\<close>
definition db_wf :: "db \<Rightarrow> bool" where
  "db_wf d \<longleftrightarrow>
     distinct (map conv_id (db_conversations d)) \<and>
     distinct (map msg_id (db_messages d)) \<and>
     list_all (\<lambda>m. msg_conversation_id m \<in> conv_id ` set (db_conversations d) \<and>
                   set_option (msg_response_to_id m) \<subseteq> msg_id ` set (db_messages d))
              (db_messages d) \<and>
     distinct (map q_id (db_queue d)) \<and>
     distinct (map q_message_id (db_queue d)) \<and>
     list_all (\<lambda>e. q_message_id e \<in> msg_id ` set (db_messages d)) (db_queue d) \<and>
     distinct (map inv_id (db_invocations d)) \<and>
     list_all (\<lambda>i. inv_message_id i \<in> msg_id ` set (db_messages d)) (db_invocations d) \<and>
     distinct (map sc_id (db_shared_context d)) \<and>
     list_all (\<lambda>s. set_option (sc_conversation_id s) \<subseteq> conv_id ` set (db_conversations d))
              (db_shared_context d)"

text \<open>The statements of the store, as one datatype, and the effect of running one: a
  statement that throws leaves the database as it was.\<close>
datatype store_op =
    Op_Create_Conversation uuid "string option" "string option" client_id "string option"
  | Op_Update_Conversation uuid "string option" "conversation_status option" "string option"
  | Op_Create_Message uuid create_message_input
  | Op_Update_Message_Status uuid message_status
  | Op_Enqueue uuid client_id "int option" "nat option"
  | Op_Increment_Attempts nat nat
  | Op_Remove_From_Queue uuid
  | Op_Clear_Exhausted
  | Op_Create_Invocation uuid client_id uuid invocation_type "string option"
  | Op_Update_Invocation uuid invocation_update
  | Op_Update_Client_Status client_id client_status "string option"
  | Op_Set_Client_Offline client_id
  | Op_Create_Shared_Context uuid create_shared_context_input
  | Op_Update_Shared_Context uuid "int option" "string option"
  | Op_Delete_Shared_Context uuid

definition db_of_result :: "db \<Rightarrow> db_error + (db \<times> 'a) \<Rightarrow> db" where
  "db_of_result d r = (case r of Inl _ \<Rightarrow> d | Inr (d', _) \<Rightarrow> d')"

fun store_step :: "db \<Rightarrow> timestamp \<Rightarrow> store_op \<Rightarrow> db" where
  "store_step d now (Op_Create_Conversation cid t p c md) =
     db_of_result d (create_conversation d cid t p c md now)"
| "store_step d now (Op_Update_Conversation cid t st s) = fst (update_conversation d cid t st s now)"
| "store_step d now (Op_Create_Message mid i) = db_of_result d (create_message d mid i now)"
| "store_step d now (Op_Update_Message_Status mid st) = update_message_status d mid st now"
| "store_step d now (Op_Enqueue mid t p m) = db_of_result d (enqueue_message d mid t p m now)"
| "store_step d now (Op_Increment_Attempts qid delay) = increment_attempts d qid delay now"
| "store_step d now (Op_Remove_From_Queue mid) = fst (remove_from_queue d mid)"
| "store_step d now Op_Clear_Exhausted = fst (clear_exhausted_messages d)"
| "store_step d now (Op_Create_Invocation iid t mid ty cmd) =
     db_of_result d (create_invocation d iid t mid ty cmd now)"
| "store_step d now (Op_Update_Invocation iid u) = fst (update_invocation d iid u)"
| "store_step d now (Op_Update_Client_Status c st sid) = update_client_status d c st sid now"
| "store_step d now (Op_Set_Client_Offline c) = set_client_offline d c"
| "store_step d now (Op_Create_Shared_Context sid i) =
     db_of_result d (create_shared_context d sid i now)"
| "store_step d now (Op_Update_Shared_Context sid n t) = fst (update_shared_context d sid n t)"
| "store_step d now (Op_Delete_Shared_Context sid) = fst (delete_shared_context d sid)"

text \<open>A run of the program against the store: its statements in order, each with the
  clock reading at which it executes.\<close>
definition store_run :: "db \<Rightarrow> (timestamp \<times> store_op) list \<Rightarrow> db" where
  "store_run d ops = fold (\<lambda>(now, op) d. store_step d now op) ops d"

subsection \<open>Each statement keeps the store well formed\<close>

text \<open>A store with one message queued for Claude.\<close>
definition example_stats_db :: db where
  "example_stats_db = store_run (initial_db 0)
     [(0, Op_Create_Conversation ''c1'' None None Codex None),
      (1, Op_Create_Message ''m1'' \<lparr>cm_conversation_id = ''c1'', cm_sender = Codex,
            cm_target = Claude, cm_content = ''hi'', cm_message_type = None, cm_priority = None,
            cm_response_to_id = None, cm_metadata = None\<rparr>),
      (1, Op_Enqueue ''m1'' Claude None None)]"

text \<open>Whether the store is well formed depends only on the key columns.\<close>
lemma db_wf_keys_cong:
  assumes "map conv_id (db_conversations d') = map conv_id (db_conversations d)"
    and "db_messages d' = db_messages d" and "db_queue d' = db_queue d"
    and "db_invocations d' = db_invocations d"
    and "db_shared_context d' = db_shared_context d"
  shows "db_wf d' = db_wf d"
proof -
  from assms(1) have ids: "conv_id ` set (db_conversations d') = conv_id ` set (db_conversations d)"
    by (metis set_map)
  show ?thesis
    unfolding db_wf_def assms(1-5) ids by (rule refl)
qed

lemma conv_apply_update_id [simp]: "conv_id (conv_apply_update t st s now c) = conv_id c"
  by (simp add: conv_apply_update_def Let_def split: option.splits)

lemma db_wf_create_conversation [wf_intros]:
  assumes wf: "db_wf d" and r: "create_conversation d cid t p c md now = Inr (d', cv)"
  shows "db_wf d'"
proof -
  from r have fresh: "cid \<notin> conv_id ` set (db_conversations d)"
    and d': "d' = d\<lparr>db_conversations := db_conversations d @ [cv]\<rparr>" and cid: "conv_id cv = cid"
    by (auto simp: create_conversation_def Let_def split: if_splits)
  from wf fresh show ?thesis
    by (auto simp: d' cid db_wf_def list_all_iff split: option.splits)
qed

lemma db_wf_update_conversation [wf_intros]:
  "db_wf d \<Longrightarrow> db_wf (fst (update_conversation d cid t st s now))"
  by (subst db_wf_keys_cong [where d = d])
     (simp_all add: update_conversation_def Let_def map_key_cond_update)

lemma db_wf_create_message [wf_intros]:
  assumes wf: "db_wf d" and r: "create_message d mid i now = Inr (d', m)"
  shows "db_wf d'"
proof -
  let ?d1 = "d\<lparr>db_messages := db_messages d @ [message_of_input mid i now]\<rparr>"
  from r have fresh: "mid \<notin> msg_id ` set (db_messages d)"
    and conv: "cm_conversation_id i \<in> conv_id ` set (db_conversations d)"
    and resp: "\<And>x. cm_response_to_id i = Some x \<Longrightarrow> x \<in> msg_id ` set (db_messages d)"
    by (auto simp: create_message_def split: if_splits option.splits)
  from r have d': "d' = ?d1\<lparr>db_conversations := map (\<lambda>c. if conv_id c = cm_conversation_id i
                   then c\<lparr>conv_updated_at := now\<rparr> else c) (db_conversations d)\<rparr>"
    by (auto simp: create_message_def Let_def split: if_splits option.splits)
  have "db_wf ?d1"
    using wf fresh conv resp
    by (auto simp: db_wf_def message_of_input_def list_all_iff split: option.splits)
  then show ?thesis
    by (subst db_wf_keys_cong [where d = ?d1]) (simp_all add: d' map_key_cond_update)
qed

text \<open>Rewriting the message rows with a map that keeps the key columns keeps the store
  well formed.\<close>
lemma db_wf_map_messages:
  assumes wf: "db_wf d"
    and key: "\<And>m. msg_id (f m) = msg_id m"
    and conv: "\<And>m. msg_conversation_id (f m) = msg_conversation_id m"
    and resp: "\<And>m. msg_response_to_id (f m) = msg_response_to_id m"
  shows "db_wf (d\<lparr>db_messages := map f (db_messages d)\<rparr>)"
proof -
  have k: "msg_id \<circ> f = msg_id" by (rule ext) (simp add: key)
  have ids: "msg_id ` f ` set (db_messages d) = msg_id ` set (db_messages d)"
    by (simp add: image_comp k)
  from wf show ?thesis
    by (simp add: db_wf_def k ids list_all_iff conv resp)
qed

lemma db_wf_update_message_status [wf_intros]:
  "db_wf d \<Longrightarrow> db_wf (update_message_status d mid st now)"
  unfolding update_message_status_def
  by (rule db_wf_map_messages) (simp_all add: set_message_status_def)

lemma db_wf_enqueue_message [wf_intros]:
  assumes wf: "db_wf d" and r: "enqueue_message d mid t p m now = Inr (d', e)"
  shows "db_wf d'"
proof -
  from r have fresh: "mid \<notin> q_message_id ` set (db_queue d)"
    and msg: "mid \<in> msg_id ` set (db_messages d)"
    and d': "d' = d\<lparr>db_queue := db_queue d @ [e]\<rparr>"
    and e: "q_message_id e = mid" "q_id e = next_rowid (db_queue d)"
    by (auto simp: enqueue_message_def Let_def split: if_splits)
  have "q_id e \<notin> q_id ` set (db_queue d)"
  proof
    assume "q_id e \<in> q_id ` set (db_queue d)"
    then have "q_id e \<le> fold max (map q_id (db_queue d)) 0"
      by (auto intro: fold_max_ge_member)
    with e(2) show False by (simp add: next_rowid_def)
  qed
  with wf fresh msg e show ?thesis
    by (auto simp: d' db_wf_def list_all_iff split: option.splits)
qed

lemma db_wf_increment_attempts [wf_intros]:
  assumes wf: "db_wf d" shows "db_wf (increment_attempts d qid delay now)"
proof -
  let ?f = "\<lambda>e. if q_id e = qid then e\<lparr>q_attempts := Suc (q_attempts e),
                  q_next_attempt := now + 1000 * delay\<rparr> else e"
  have k1: "q_id \<circ> ?f = q_id" and k2: "q_message_id \<circ> ?f = q_message_id"
    by (rule ext, simp)+
  from wf show ?thesis
    by (auto simp: db_wf_def increment_attempts_def k1 k2 list_all_iff)
qed

lemma db_wf_filter_queue:
  "db_wf d \<Longrightarrow> db_wf (d\<lparr>db_queue := filter P (db_queue d)\<rparr>)"
  by (simp add: db_wf_def distinct_map_filter list_all_iff)

lemma db_wf_remove_from_queue [wf_intros]: "db_wf d \<Longrightarrow> db_wf (fst (remove_from_queue d mid))"
  by (simp add: remove_from_queue_def db_wf_filter_queue)

lemma db_wf_clear_exhausted [wf_intros]: "db_wf d \<Longrightarrow> db_wf (fst (clear_exhausted_messages d))"
  by (simp add: clear_exhausted_messages_def db_wf_filter_queue)

lemma db_wf_create_invocation [wf_intros]:
  assumes wf: "db_wf d" and r: "create_invocation d iid t mid ty cmd now = Inr (d', i)"
  shows "db_wf d'"
proof -
  from r have "iid \<notin> inv_id ` set (db_invocations d)" and "mid \<in> msg_id ` set (db_messages d)"
    and d': "d' = d\<lparr>db_invocations := db_invocations d @ [i]\<rparr>"
    and "inv_id i = iid" "inv_message_id i = mid"
    by (auto simp: create_invocation_def Let_def split: if_splits)
  with wf show ?thesis by (auto simp: d' db_wf_def list_all_iff)
qed

lemma db_wf_update_invocation [wf_intros]: "db_wf d \<Longrightarrow> db_wf (fst (update_invocation d iid u))"
proof -
  let ?f = "\<lambda>i. if inv_id i = iid then apply_invocation_update u i else i"
  have k1: "inv_id \<circ> ?f = inv_id" and k2: "inv_message_id \<circ> ?f = inv_message_id"
    by (rule ext, simp add: apply_invocation_update_def)+
  assume "db_wf d"
  then show ?thesis
    by (auto simp: db_wf_def update_invocation_def Let_def k1 list_all_iff apply_invocation_update_def)
qed

lemma db_wf_update_client_status [wf_intros]: "db_wf d \<Longrightarrow> db_wf (update_client_status d c st sid now)"
  by (simp add: db_wf_def update_client_status_def)

lemma db_wf_set_client_offline [wf_intros]: "db_wf d \<Longrightarrow> db_wf (set_client_offline d c)"
  by (simp add: db_wf_def set_client_offline_def)

lemma db_wf_create_shared_context [wf_intros]:
  assumes wf: "db_wf d" and r: "create_shared_context d sid i now = Inr (d', s)"
  shows "db_wf d'"
proof -
  from r have "sid \<notin> sc_id ` set (db_shared_context d)"
    and "set_option (csi_conversation_id i) \<subseteq> conv_id ` set (db_conversations d)"
    and d': "d' = d\<lparr>db_shared_context := db_shared_context d @ [s]\<rparr>"
    and "sc_id s = sid" "sc_conversation_id s = csi_conversation_id i"
    by (auto simp: create_shared_context_def Let_def split: if_splits)
  with wf show ?thesis by (auto simp: d' db_wf_def list_all_iff)
qed

lemma db_wf_update_shared_context [wf_intros]:
  "db_wf d \<Longrightarrow> db_wf (fst (update_shared_context d sid n t))"
proof -
  let ?f = "\<lambda>s. if sc_id s = sid then sc_apply_update n t s else s"
  have k: "sc_id \<circ> ?f = sc_id" by (rule ext) simp
  assume "db_wf d"
  then show ?thesis by (auto simp: db_wf_def update_shared_context_def Let_def k list_all_iff)
qed

lemma db_wf_delete_shared_context [wf_intros]:
  "db_wf d \<Longrightarrow> db_wf (fst (delete_shared_context d sid))"
  by (simp add: db_wf_def delete_shared_context_def distinct_map_filter list_all_iff)

lemma db_wf_db_of_result:
  "db_wf d \<Longrightarrow> (\<And>d' x. r = Inr (d', x) \<Longrightarrow> db_wf d') \<Longrightarrow> db_wf (db_of_result d r)"
  by (auto simp: db_of_result_def split: sum.splits)

lemma db_wf_initial: "db_wf (initial_db now)"
  by (simp add: db_wf_def initial_db_def)

lemma db_wf_store_step [wf_intros]: "db_wf d \<Longrightarrow> db_wf (store_step d now op)"
  by (cases op) (auto intro: db_wf_db_of_result wf_intros)

lemma db_wf_store_run: "db_wf d \<Longrightarrow> db_wf (store_run d ops)"
  by (induction ops arbitrary: d) (auto simp: store_run_def intro: db_wf_store_step)

lemma get_message_Some: "get_message d mid = Some m \<Longrightarrow> msg_id m = mid \<and> m \<in> set (db_messages d)"
  by (auto simp: get_message_def find_Some_iff)

subsection \<open>Queue statistics\<close>

lemma queue_stats_for_bounds:
  "qs_ready (queue_stats_for q now t) + qs_exhausted (queue_stats_for q now t) \<le> qs_pending (queue_stats_for q now t)"
  unfolding queue_stats_for_def Let_def queue_stats.simps
  by (rule length_filter_disjoint) (auto simp: exhausted_def)

lemma get_queue_stats_bounds:
  assumes "s \<in> set (get_queue_stats d now)"
  shows "qs_ready s + qs_exhausted s \<le> qs_pending s \<and> 0 < qs_pending s"
proof -
  obtain t where t: "t \<in> q_target ` set (db_queue d)" and s: "s = queue_stats_for (db_queue d) now t"
    using assms unfolding get_queue_stats_def set_map set_filter by blast
  have "0 < qs_pending s"
    using t by (auto simp: s queue_stats_for_def filter_empty_conv length_greater_0_conv)
  then show ?thesis using queue_stats_for_bounds [of "db_queue d" now t] by (simp add: s)
qed

lemma length_filter_client:
  "length xs = length (filter (\<lambda>e. f e = Claude) xs) + length (filter (\<lambda>e. f e = Codex) xs)"
proof -
  have "length (filter (\<lambda>e. f e = Codex) xs) = length (filter (\<lambda>e. \<not> f e = Claude) xs)"
    by (metis (full_types) client_id.exhaust client_id.distinct(1))
  then show ?thesis by (simp add: sum_length_filter_compl)
qed

text \<open>A sum over the groups of \<open>GROUP BY target\<close> is the sum over both clients, a
  client without rows adding nothing.\<close>
lemma sum_queue_stats:
  assumes "\<And>t. t \<notin> q_target ` set (db_queue d) \<Longrightarrow> f (queue_stats_for (db_queue d) now t) = 0"
  shows "sum_list (map f (get_queue_stats d now)) =
         f (queue_stats_for (db_queue d) now Claude) + f (queue_stats_for (db_queue d) now Codex)"
  using assms by (auto simp: get_queue_stats_def)

lemma get_queue_stats_total:
  "sum_list (map qs_pending (get_queue_stats d now)) = get_queue_length d None"
  using length_filter_client [where f = q_target and xs = "db_queue d"]
  by (subst sum_queue_stats)
     (auto simp: queue_stats_for_def get_queue_length_def filter_empty_conv)

lemma clear_exhausted_stats:
  "snd (clear_exhausted_messages d) = sum_list (map qs_exhausted (get_queue_stats d now)) \<and>
   (\<forall>s \<in> set (get_queue_stats (fst (clear_exhausted_messages d)) now). qs_exhausted s = 0)"
proof
  show "snd (clear_exhausted_messages d) = sum_list (map qs_exhausted (get_queue_stats d now))"
    using length_filter_client [where f = q_target and xs = "filter exhausted (db_queue d)"]
    by (subst sum_queue_stats)
       (auto simp: queue_stats_for_def clear_exhausted_messages_def filter_filter
                   filter_empty_conv conj_commute)
  show "\<forall>s \<in> set (get_queue_stats (fst (clear_exhausted_messages d)) now). qs_exhausted s = 0"
    by (auto simp: get_queue_stats_def queue_stats_for_def clear_exhausted_messages_def filter_empty_conv)
qed

lemma get_queue_stats_ready:
  assumes "s \<in> set (get_queue_stats d now)" and "length (db_queue d) \<le> n"
  shows "qs_ready s = length (dequeue_messages d (qs_target s) n now)"
proof -
  have "length (filter (ready_entry t now) (db_queue d)) \<le> n" for t
    using assms(2) by (meson length_filter_le order_trans)
  then show ?thesis using assms(1)
    by (auto simp: get_queue_stats_def queue_stats_for_def dequeue_messages_def ready_entry_def
                   filter_filter conj_commute intro!: arg_cong [where f = length] filter_cong)
qed

text \<open>C14. \<open>getQueueStats\<close> agrees with the queue: in each target's row the ready and
  the exhausted rows together are at most its pending rows, of which there is at least
  one; the ready count is what \<open>dequeueMessages\<close> hands the processor for that target
  when the limit does not cut it; and the pending counts add up to \<open>getQueueLength\<close>.\<close>
theorem get_queue_stats_consistent:
  "(\<forall>s \<in> set (get_queue_stats d now).
      qs_ready s + qs_exhausted s \<le> qs_pending s \<and> 0 < qs_pending s \<and>
      qs_ready s = length (dequeue_messages d (qs_target s) (length (db_queue d)) now)) \<and>
   sum_list (map qs_pending (get_queue_stats d now)) = get_queue_length d None"
  using get_queue_stats_bounds get_queue_stats_ready [OF _ order_refl] get_queue_stats_total by blast

subsection \<open>The store invariant\<close>

text \<open>C1. Every run of the program's statements against the migrated store (creating and
  updating conversations, messages, queue rows, invocations, client rows and shared
  context items, removing and sweeping queue rows, deleting shared context items, at any clock readings and in any order) leaves it well formed:
  unique ids, messages in existing conversations and answering existing messages, queue
  rows and invocations referring to existing messages, one queue row per message, shared
  context attached only to existing conversations. A
  statement that throws leaves the store unchanged.\<close>
theorem store_run_initial_wf: "db_wf (store_run (initial_db now) ops)"
  using db_wf_initial by (rule db_wf_store_run)

section \<open>Witnesses\<close>

theorem get_queue_stats_consistent_witness:
  "get_queue_stats example_stats_db 5 \<noteq> [] \<and>
   qs_ready (hd (get_queue_stats example_stats_db 5)) = length (dequeue_messages example_stats_db Claude 1 5) \<and>
   sum_list (map qs_pending (get_queue_stats example_stats_db 5)) = get_queue_length example_stats_db None"
proof -
  have ne: "get_queue_stats example_stats_db 5 \<noteq> []" by code_simp
  have t: "qs_target (hd (get_queue_stats example_stats_db 5)) = Claude" by code_simp
  have l: "length (db_queue example_stats_db) = 1" by code_simp
  have "hd (get_queue_stats example_stats_db 5) \<in> set (get_queue_stats example_stats_db 5)"
    using ne by simp
  with get_queue_stats_consistent [of example_stats_db 5] ne t l show ?thesis by simp
qed

end
