(* ===== verification/Invoker.thy ===== *)
theory Invoker
  imports Queue_Store
begin

text \<open>
  The one-shot Codex subprocess peer (\<open>invokeCodexExec\<close> and its helpers, staged in
  src/src/mcp/identity.ts lines 875-1252 as src/router/invoker.ts). It builds the prompt
  and the argument vector, records an invocation row (\<open>pending\<close>, then \<open>running\<close>,
  then final), runs \<open>codex exec --json\<close>, and extracts an answer from the NDJSON
  output. The process run is an input of the model (\<open>exec_outcome\<close>), and so are the
  two JSON parsers the code calls: \<open>JSON.parse\<close> of a stdout line and of a structured
  answer. A parsed line is \<open>null\<close> or an event whose fields the code reads; a parsed
  answer is one of the three response shapes of the output schemas or a value on which
  the formatting throws.
\<close>

section \<open>JSON text the code writes\<close>

text \<open>\<open>JSON.stringify\<close> of a string: quotes, backslash and control characters escaped.\<close>
definition hex_digit :: "nat \<Rightarrow> char" where
  "hex_digit n = ''0123456789abcdef'' ! n"

definition json_escape_char :: "char \<Rightarrow> string" where
  "json_escape_char c =
     (if c = CHR 0x22 then [CHR 0x5C, CHR 0x22]
      else if c = CHR 0x5C then [CHR 0x5C, CHR 0x5C]
      else if c = CHR 0x08 then [CHR 0x5C, CHR ''b'']
      else if c = CHR 0x0C then [CHR 0x5C, CHR ''f'']
      else if c = CHR 0x0A then [CHR 0x5C, CHR ''n'']
      else if c = CHR 0x0D then [CHR 0x5C, CHR ''r'']
      else if c = CHR 0x09 then [CHR 0x5C, CHR ''t'']
      else if (of_char c :: nat) < 32
      then [CHR 0x5C, CHR ''u'', CHR ''0'', CHR ''0'',
            hex_digit (of_char c div 16), hex_digit (of_char c mod 16)]
      else [c])"

definition json_quote :: "string \<Rightarrow> string" where
  "json_quote s = CHR 0x22 # concat (map json_escape_char s) @ [CHR 0x22]"

section \<open>Prompt, schema and command line\<close>

text \<open>\<open>getSchemaPath\<close>, with \<open>SCHEMAS_DIR\<close> as a parameter.\<close>
definition get_schema_path :: "string \<Rightarrow> message_type \<Rightarrow> string" where
  "get_schema_path schemas_dir mt =
     schemas_dir @ ''/'' @
     (case mt of Research_Request \<Rightarrow> ''research-response.json''
               | Review_Request \<Rightarrow> ''review-response.json''
               | _ \<Rightarrow> ''general-response.json'')"

definition apostrophe :: string where
  "apostrophe = [CHR 0x27]"

definition build_codex_prompt :: "message \<Rightarrow> string \<Rightarrow> string" where
  "build_codex_prompt m ctx =
     (if ctx \<noteq> [] then ''You are participating in a conversation with Claude Code CLI.'' @ nl @ nl @
                       ''Previous context:'' @ nl @ ctx @ nl @ nl
      else []) @
     ''You have received a message from Claude:'' @ nl @ nl @
     ''---'' @ nl @ msg_content m @ nl @ ''---'' @ nl @ nl @
     (case msg_type m of
        Research_Request \<Rightarrow>
          ''This is a research request. Please investigate this topic and provide your findings.'' @ nl @
          ''IMPORTANT: After your research, you MUST write a final summary as your last action.'' @ nl @
          ''Do not end with just commands or exploration - conclude with a written response.'' @ nl
      | Review_Request \<Rightarrow>
          ''This is a code review request. Please review the provided code and give detailed feedback.'' @ nl @
          ''IMPORTANT: After your review, you MUST write a final summary with your recommendations.'' @ nl
      | _ \<Rightarrow>
          ''Please respond with your analysis, insights, or answer.'' @ nl @
          ''IMPORTANT: You MUST conclude with a written response summarizing your findings.'' @ nl) @
     nl @ ''Be efficient - limit exploration to what'' @ apostrophe @
     ''s necessary, then provide your conclusion.''"

text \<open>The argument vector without its last element, the prompt.\<close>
definition codex_args :: "bool \<Rightarrow> string \<Rightarrow> string list" where
  "codex_args use_schema schema_path =
     [''exec'', ''--json'', ''--full-auto'', ''--skip-git-repo-check''] @
     (if use_schema then [''--output-schema'', schema_path] else [])"

text \<open>\<open>commandInfo\<close>: the descriptive JSON stored in the \<open>command\<close> column.\<close>
definition json_key :: "string \<Rightarrow> string" where
  "json_key k = json_quote k @ '':''"

definition command_info :: "bool \<Rightarrow> string \<Rightarrow> string \<Rightarrow> string" where
  "command_info use_schema schema_path prompt =
     ''{'' @ json_key ''executable'' @ json_quote ''codex'' @ '','' @
     json_key ''args'' @ ''['' @ js_join '','' (map json_quote (codex_args use_schema schema_path)) @ '']'' @
     (if use_schema then '','' @ json_key ''schemaPath'' @ json_quote schema_path else []) @
     '','' @ json_key ''promptLength'' @ string_of_nat (length prompt) @
     '','' @ json_key ''promptPreview'' @
     json_quote (take 100 prompt @ (if length prompt > 100 then ''...'' else [])) @ ''}''"

section \<open>Structured answers (\<open>formatStructuredResponse\<close>)\<close>

text \<open>The three shapes of the output schemas. Optional strings and arrays are tested
  for truthiness and length only, so an absent one is the empty string or list; an issue's
  \<open>line\<close> is printed when it is a non-zero number.\<close>
record review_issue =
  ri_severity :: string
  ri_file :: string
  ri_line :: int
  ri_description :: string
  ri_suggestion :: string

datatype review_verdict = Approve | Request_Changes | Comment

record review_response =
  rv_summary :: string
  rv_verdict :: review_verdict
  rv_issues :: "review_issue list"
  rv_strengths :: "string list"
  rv_recommendations :: "string list"

record research_finding =
  rf_title :: string
  rf_description :: string
  rf_code_references :: "string list"

record code_snippet =
  cs_file :: string
  cs_language :: string
  cs_code :: string
  cs_explanation :: string

record research_response =
  rs_summary :: string
  rs_findings :: "research_finding list"
  rs_recommendations :: "string list"
  rs_concerns :: "string list"
  rs_code_snippets :: "code_snippet list"

record general_response =
  gr_response :: string
  gr_summary :: string
  gr_references :: "string list"

text \<open>A parsed answer: an object with a \<open>verdict\<close> key, else one with \<open>findings\<close>, else
  a general answer; \<open>Structured_Other\<close> is a value (\<open>null\<close>, a number, an object of
  the wrong shape) on which the formatting throws.\<close>
datatype structured =
    Structured_Review review_response
  | Structured_Research research_response
  | Structured_General general_response
  | Structured_Other

definition verdict_upper :: "review_verdict \<Rightarrow> string" where
  "verdict_upper v = (case v of Approve \<Rightarrow> ''APPROVE'' | Request_Changes \<Rightarrow> ''REQUEST_CHANGES''
                               | Comment \<Rightarrow> ''COMMENT'')"

definition bullets :: "string list \<Rightarrow> string" where
  "bullets xs = js_join nl (map (\<lambda>x. ''- '' @ x) xs)"

definition format_issue :: "review_issue \<Rightarrow> string" where
  "format_issue i =
     ''- **['' @ ri_severity i @ '']** '' @ ri_description i @
     (if ri_file i \<noteq> [] then '' ('' @ ri_file i @
        (if ri_line i \<noteq> 0 then '':'' @ string_of_int (ri_line i) else []) @ '')'' else []) @
     (if ri_suggestion i \<noteq> [] then nl @ ''  - Suggestion: '' @ ri_suggestion i else []) @ nl"

definition format_review :: "review_response \<Rightarrow> string" where
  "format_review r =
     ''## Review: '' @ verdict_upper (rv_verdict r) @ nl @ nl @ rv_summary r @ nl @
     (if rv_strengths r \<noteq> [] then nl @ ''### Strengths'' @ nl @ bullets (rv_strengths r) @ nl else []) @
     (if rv_issues r \<noteq> [] then nl @ ''### Issues'' @ nl @ concat (map format_issue (rv_issues r)) else []) @
     (if rv_recommendations r \<noteq> []
      then nl @ ''### Recommendations'' @ nl @ bullets (rv_recommendations r) @ nl else [])"

definition fence :: string where
  "fence = [CHR 0x60, CHR 0x60, CHR 0x60]"

definition format_finding :: "research_finding \<Rightarrow> string" where
  "format_finding f =
     ''### '' @ rf_title f @ nl @ rf_description f @ nl @
     (if rf_code_references f \<noteq> []
      then nl @ ''References: '' @ js_join '', '' (rf_code_references f) @ nl else []) @ nl"

definition format_snippet :: "code_snippet \<Rightarrow> string" where
  "format_snippet c =
     (if cs_file c \<noteq> [] then ''**'' @ cs_file c @ ''**'' @ nl else []) @
     fence @ cs_language c @ nl @ cs_code c @ nl @ fence @ nl @
     (if cs_explanation c \<noteq> [] then cs_explanation c @ nl else []) @ nl"

definition format_research :: "research_response \<Rightarrow> string" where
  "format_research r =
     ''## Summary'' @ nl @ rs_summary r @ nl @ nl @ ''## Findings'' @ nl @
     concat (map format_finding (rs_findings r)) @
     (if rs_concerns r \<noteq> [] then ''## Concerns'' @ nl @ bullets (rs_concerns r) @ nl @ nl else []) @
     (if rs_recommendations r \<noteq> []
      then ''## Recommendations'' @ nl @ bullets (rs_recommendations r) @ nl @ nl else []) @
     (if rs_code_snippets r \<noteq> []
      then ''## Code Examples'' @ nl @ concat (map format_snippet (rs_code_snippets r)) else [])"

definition format_general :: "general_response \<Rightarrow> string" where
  "format_general r =
     (if gr_summary r \<noteq> [] \<and> length (gr_response r) > 500
      then ''## Summary'' @ nl @ gr_summary r @ nl @ nl @ ''## Details'' @ nl @ gr_response r
      else gr_response r) @
     (if gr_references r \<noteq> [] then nl @ nl @ ''## References'' @ nl @ bullets (gr_references r) else [])"

text \<open>\<open>None\<close> where the formatting throws.\<close>
definition format_structured_response :: "structured \<Rightarrow> string option" where
  "format_structured_response s =
     (case s of Structured_Review r \<Rightarrow> Some (format_review r)
              | Structured_Research r \<Rightarrow> Some (format_research r)
              | Structured_General r \<Rightarrow> Some (format_general r)
              | Structured_Other \<Rightarrow> None)"

text \<open>The \<open>try\<close> around \<open>JSON.parse\<close> and the formatting: the raw text when either
  throws.\<close>
definition render_structured :: "(string \<Rightarrow> structured option) \<Rightarrow> string \<Rightarrow> string" where
  "render_structured parse_structured t =
     (case parse_structured t of
        None \<Rightarrow> t
      | Some s \<Rightarrow> (case format_structured_response s of None \<Rightarrow> t | Some out \<Rightarrow> out))"

section \<open>Codex NDJSON events (\<open>extractCodexResponse\<close>)\<close>

record codex_item =
  ci_type :: string
  ci_text :: "string option"
  ci_command :: "string option"
  ci_aggregated_output :: "string option"
  ci_exit_code :: "int option"

text \<open>The fields of a parsed line that the code reads: \<open>type\<close>, \<open>item\<close>,
  \<open>response.output_text\<close>, and the top-level \<open>output_text\<close>, \<open>role\<close> and
  \<open>content\<close> of the older formats. A field that is absent or not a string is \<open>None\<close>.\<close>
record codex_event =
  ce_type :: string
  ce_item :: "codex_item option"
  ce_response_output_text :: "string option"
  ce_output_text :: "string option"
  ce_role :: "string option"
  ce_content :: "string option"

datatype json_line = Json_Null | Json_Event codex_event

text \<open>What V8 throws when the loops read \<open>event.type\<close> of a \<open>null\<close> line.\<close>
definition null_type_error :: string where
  "null_type_error = ''Cannot read properties of null (reading '' @ apostrophe @ ''type'' @ apostrophe @ '')''"

text \<open>Step 1: a final answer of \<open>response.completed\<close> or \<open>turn.completed\<close>.\<close>
definition structured_text :: "codex_event \<Rightarrow> string option" where
  "structured_text e =
     (if ce_type e = ''response.completed'' \<and> js_truthy (ce_response_output_text e)
      then ce_response_output_text e
      else if ce_type e = ''turn.completed'' \<and> js_truthy (ce_output_text e) then ce_output_text e
      else None)"

text \<open>Step 2: an \<open>agent_message\<close> item, or an assistant message of the older format.\<close>
definition agent_text :: "codex_event \<Rightarrow> string option" where
  "agent_text e =
     (if ce_type e = ''item.completed'' \<and>
         (case ce_item e of Some it \<Rightarrow> ci_type it = ''agent_message'' \<and> ci_text it \<noteq> None | None \<Rightarrow> False)
      then (case ce_item e of Some it \<Rightarrow> ci_text it | None \<Rightarrow> None)
      else if ce_type e = ''message'' \<and> ce_role e = Some ''assistant'' \<and> ce_content e \<noteq> None
      then ce_content e
      else None)"

text \<open>The loops of steps 1 and 2 run over the events from the last; a \<open>null\<close> line
  reached by a loop throws.\<close>
fun scan_events :: "(codex_event \<Rightarrow> string option) \<Rightarrow> json_line list \<Rightarrow> string + string option" where
  "scan_events f [] = Inr None"
| "scan_events f (Json_Null # ls) = Inl null_type_error"
| "scan_events f (Json_Event e # ls) = (case f e of Some t \<Rightarrow> Inr (Some t) | None \<Rightarrow> scan_events f ls)"

text \<open>Step 3: \<open>push\<close>, then \<open>shift\<close> when the array has grown past its bound.\<close>
definition push_bounded :: "nat \<Rightarrow> 'a list \<Rightarrow> 'a \<Rightarrow> 'a list" where
  "push_bounded n xs x = (let ys = xs @ [x] in if length ys > n then tl ys else ys)"

definition bash_prefix :: string where
  "bash_prefix = ''/usr/bin/bash -lc ''"

definition render_command :: "codex_item \<Rightarrow> string \<Rightarrow> string" where
  "render_command it cmd =
     (let output = (case ci_aggregated_output it of None \<Rightarrow> [] | Some out \<Rightarrow> out)
      in ''$ '' @ (if prefix bash_prefix cmd then drop (length bash_prefix) cmd else cmd) @ nl @
         take 500 output @ (if length output > 500 then ''...'' else []) @
         (if ci_exit_code it \<noteq> Some 0
          then '' (exit: '' @ (case ci_exit_code it of None \<Rightarrow> ''undefined'' | Some c \<Rightarrow> string_of_int c) @ '')''
          else []))"

definition activity_step :: "string list \<times> string list \<Rightarrow> codex_event \<Rightarrow> string list \<times> string list" where
  "activity_step acc e =
     (case (if ce_type e = ''item.completed'' then ce_item e else None) of
        None \<Rightarrow> acc
      | Some it \<Rightarrow>
          (let (reasoning, commands) = acc;
               reasoning' = (if ci_type it = ''reasoning'' \<and> js_truthy (ci_text it)
                             then push_bounded 2 reasoning (case ci_text it of Some t \<Rightarrow> t | None \<Rightarrow> [])
                             else reasoning);
               commands' = (case ci_command it of
                              Some cmd \<Rightarrow> if ci_type it = ''command_execution'' \<and> cmd \<noteq> []
                                          then push_bounded 3 commands (render_command it cmd) else commands
                            | None \<Rightarrow> commands)
           in (reasoning', commands')))"

definition activity_summary :: "codex_event list \<Rightarrow> string option" where
  "activity_summary events =
     (let (reasoning, commands) = fold (\<lambda>e acc. activity_step acc e) events ([], [])
      in if reasoning = [] \<and> commands = [] then None
         else Some (''[Codex exploration - no final answer]'' @ nl @ nl @
                    (if reasoning \<noteq> [] then ''## Latest Reasoning'' @ nl @ js_join (nl @ nl) reasoning @ nl @ nl
                     else []) @
                    (if commands \<noteq> [] then ''## Recent Commands'' @ nl @ js_join (nl @ nl) commands else [])))"

definition events_of :: "json_line list \<Rightarrow> codex_event list" where
  "events_of ls = List.map_filter (\<lambda>l. case l of Json_Event e \<Rightarrow> Some e | Json_Null \<Rightarrow> None) ls"

text \<open>\<open>extractCodexResponse\<close>: \<open>Inl\<close> is the error it throws. Lines that do not parse
  are skipped; step 3 runs only when steps 1 and 2 went through every line, so it never
  meets a \<open>null\<close>.\<close>
definition extract_codex_response ::
  "(string \<Rightarrow> json_line option) \<Rightarrow> (string \<Rightarrow> structured option) \<Rightarrow> string \<Rightarrow> string + string option" where
  "extract_codex_response parse_line parse_structured stdout =
     (let lines = List.map_filter parse_line (filter (\<lambda>l. l \<noteq> []) (js_split (CHR 0x0A) stdout))
      in case scan_events structured_text (rev lines) of
           Inl err \<Rightarrow> Inl err
         | Inr (Some t) \<Rightarrow> Inr (Some (render_structured parse_structured t))
         | Inr None \<Rightarrow>
             (case scan_events agent_text (rev lines) of
                Inl err \<Rightarrow> Inl err
              | Inr (Some t) \<Rightarrow> Inr (Some t)
              | Inr None \<Rightarrow> Inr (activity_summary (events_of lines))))"

section \<open>The invocation (\<open>invokeCodexExec\<close>)\<close>

text \<open>How the \<open>execa\<close> call ended: with \<open>reject: false\<close> it resolves with the exit
  code (\<open>None\<close> when the process was killed), the captured output and the
  \<open>timedOut\<close> flag; \<open>Exec_Threw\<close> is a rejection, with its \<open>timedOut\<close> flag and
  message.\<close>
datatype exec_outcome =
    Exec_Result "int option" string string bool
  | Exec_Threw bool string

record invocation_result =
  ir_id :: uuid
  ir_success :: bool
  ir_stdout :: string
  ir_stderr :: string
  ir_exit_code :: "int option"
  ir_response :: "string option"

definition max_response_size :: nat where
  "max_response_size = 50000"

definition truncation_notice :: string where
  "truncation_notice = nl @ nl @ ''[Response truncated - exceeded 50KB]''"

text \<open>The final fallback to the raw output when the extraction gave nothing (or the
  empty string).\<close>
definition response_fallback :: "string option \<Rightarrow> string \<Rightarrow> string option" where
  "response_fallback r stdout =
     (if \<not> js_truthy r \<and> stdout \<noteq> []
      then Some (if length stdout > max_response_size
                 then take max_response_size stdout @ truncation_notice else stdout)
      else r)"

definition invocation_update_none :: invocation_update where
  "invocation_update_none =
     \<lparr>iu_status = None, iu_stdout = None, iu_stderr = None, iu_exit_code = None,
      iu_started_at = None, iu_completed_at = None\<rparr>"

text \<open>The \<open>catch\<close> branch: the row is marked \<open>timeout\<close> or \<open>failed\<close> with the
  error message.\<close>
definition fail_invocation :: "db \<Rightarrow> uuid \<Rightarrow> bool \<Rightarrow> string \<Rightarrow> timestamp \<Rightarrow> db \<times> invocation_result" where
  "fail_invocation d iid timed_out msg t1 =
     (fst (update_invocation d iid
             (invocation_update_none\<lparr>iu_status := Some (if timed_out then Inv_Timeout else Inv_Failed),
                                     iu_stderr := Some msg, iu_completed_at := Some t1\<rparr>)),
      \<lparr>ir_id = iid, ir_success = False, ir_stdout = [], ir_stderr = msg, ir_exit_code = None,
       ir_response = None\<rparr>)"

text \<open>\<open>invokeCodexExec\<close>: \<open>iid\<close> is the \<open>randomUUID()\<close> of \<open>createInvocation\<close>,
  \<open>t0\<close> and \<open>t1\<close> the clock before and after the run. \<open>Inl\<close> is a store error thrown
  by \<open>createInvocation\<close>. The \<open>exit_code\<close> written is \<open>exitCode ?? null\<close>; a \<open>null\<close>
  leaves the column \<open>NULL\<close>, as it already was.\<close>
definition invoke_codex_exec ::
  "(string \<Rightarrow> json_line option) \<Rightarrow> (string \<Rightarrow> structured option) \<Rightarrow> string \<Rightarrow> db \<Rightarrow> uuid \<Rightarrow>
   message \<Rightarrow> string \<Rightarrow> bool \<Rightarrow> exec_outcome \<Rightarrow> timestamp \<Rightarrow> timestamp \<Rightarrow>
   db_error + (db \<times> invocation_result)" where
  "invoke_codex_exec parse_line parse_structured schemas_dir d iid m ctx use_schema outcome t0 t1 =
     (let prompt = build_codex_prompt m ctx;
          schema_path = get_schema_path schemas_dir (msg_type m);
          cmd = command_info use_schema schema_path prompt
      in case create_invocation d iid Codex (msg_id m) Codex_Exec (Some cmd) t0 of
           Inl err \<Rightarrow> Inl err
         | Inr (d1, row) \<Rightarrow>
             (let d2 = fst (update_invocation d1 (inv_id row)
                              (invocation_update_none\<lparr>iu_status := Some Inv_Running, iu_started_at := Some t0\<rparr>))
              in case outcome of
                   Exec_Threw timed_out msg \<Rightarrow> Inr (fail_invocation d2 (inv_id row) timed_out msg t1)
                 | Exec_Result ec out err timed_out \<Rightarrow>
                     (let success = (ec = Some 0);
                          d3 = fst (update_invocation d2 (inv_id row)
                                 (invocation_update_none\<lparr>iu_status := Some (if success then Inv_Completed else Inv_Failed),
                                    iu_stdout := Some out, iu_stderr := Some err, iu_exit_code := ec,
                                    iu_completed_at := Some t1\<rparr>))
                      in case extract_codex_response parse_line parse_structured out of
                           Inl msg \<Rightarrow> Inr (fail_invocation d3 (inv_id row) False msg t1)
                         | Inr r \<Rightarrow>
                             Inr (d3, \<lparr>ir_id = inv_id row, ir_success = success, ir_stdout = out,
                                       ir_stderr = err, ir_exit_code = ec,
                                       ir_response = response_fallback r out\<rparr>))))"

section \<open>Reference views of the extraction\<close>

text \<open>The reasoning text and the rendered command that an event contributes to step 3,
  and the last \<open>n\<close> elements of a list: what the bounded arrays are meant to hold.\<close>
definition reasoning_of :: "codex_event \<Rightarrow> string option" where
  "reasoning_of e =
     (case (if ce_type e = ''item.completed'' then ce_item e else None) of
        None \<Rightarrow> None
      | Some it \<Rightarrow> if ci_type it = ''reasoning'' \<and> js_truthy (ci_text it) then ci_text it else None)"

definition command_of :: "codex_event \<Rightarrow> string option" where
  "command_of e =
     (case (if ce_type e = ''item.completed'' then ce_item e else None) of
        None \<Rightarrow> None
      | Some it \<Rightarrow> (case ci_command it of
                     None \<Rightarrow> None
                   | Some cmd \<Rightarrow> if ci_type it = ''command_execution'' \<and> cmd \<noteq> []
                                then Some (render_command it cmd) else None))"

definition last_n :: "nat \<Rightarrow> 'a list \<Rightarrow> 'a list" where
  "last_n n xs = drop (length xs - n) xs"

definition push_opt :: "nat \<Rightarrow> 'a list \<Rightarrow> 'a option \<Rightarrow> 'a list" where
  "push_opt n xs ox = (case ox of None \<Rightarrow> xs | Some x \<Rightarrow> push_bounded n xs x)"

text \<open>A store holding one request from Claude to Codex, the request itself, and a
  line parser that knows two lines: an agent message and \<open>null\<close>.\<close>
definition example_invoke_db :: db where
  "example_invoke_db = store_run (initial_db 0)
     [(0, Op_Create_Conversation ''c1'' None None Claude None),
      (1, Op_Create_Message ''m1'' \<lparr>cm_conversation_id = ''c1'', cm_sender = Claude,
            cm_target = Codex, cm_content = ''Why?'', cm_message_type = None, cm_priority = None,
            cm_response_to_id = None, cm_metadata = None\<rparr>)]"

definition example_request :: message where
  "example_request =
     \<lparr>msg_id = ''m1'', msg_conversation_id = ''c1'', msg_sender = Claude, msg_target = Codex,
      msg_content = ''Why?'', msg_type = Msg_Message, msg_priority = Prio_Normal, msg_status = Pending,
      msg_response_to_id = None, msg_created_at = 1, msg_delivered_at = None, msg_read_at = None,
      msg_metadata = None\<rparr>"

definition example_parse_line :: "string \<Rightarrow> json_line option" where
  "example_parse_line l =
     (if l = ''A'' then Some (Json_Event \<lparr>ce_type = ''item.completed'',
         ce_item = Some \<lparr>ci_type = ''agent_message'', ci_text = Some ''answer'', ci_command = None,
                         ci_aggregated_output = None, ci_exit_code = None\<rparr>,
         ce_response_output_text = None, ce_output_text = None, ce_role = None, ce_content = None\<rparr>)
      else if l = ''null'' then Some Json_Null else None)"

section \<open>Lemmas\<close>

lemma last_n_rev: "last_n n xs = rev (take n (rev xs))"
  by (simp add: last_n_def take_rev)

lemma fold_push_bounded:
  assumes "0 < n" "length acc \<le> n"
  shows "fold (\<lambda>x xs. push_bounded n xs x) ys acc = last_n n (acc @ ys)"
  using assms(2)
proof (induction ys arbitrary: acc)
  case Nil
  then show ?case by (simp add: last_n_def)
next
  case (Cons y ys)
  have len: "length (push_bounded n acc y) \<le> n"
    using Cons.prems assms(1) by (auto simp: push_bounded_def Let_def)
  have step: "push_bounded n acc y = last_n n (acc @ [y])"
  proof (cases "length acc = n")
    case True
    with assms(1) have "acc \<noteq> []" by auto
    with True assms(1) show ?thesis by (simp add: push_bounded_def last_n_def tl_append2 drop_Suc)
  next
    case False
    with Cons.prems show ?thesis by (simp add: push_bounded_def last_n_def)
  qed
  have "last_n n (last_n n (acc @ [y]) @ ys) = last_n n (acc @ y # ys)"
    by (simp add: last_n_rev take_append min_def)
  with Cons.IH [OF len] step show ?case by simp
qed

lemma fold_push_opt:
  "fold (\<lambda>ox xs. push_opt n xs ox) os acc = fold (\<lambda>x xs. push_bounded n xs x) (List.map_filter id os) acc"
  by (induction os arbitrary: acc) (auto simp: push_opt_def map_filter_simps split: option.splits)

lemma activity_step_split:
  "activity_step (r, c) e = (push_opt 2 r (reasoning_of e), push_opt 3 c (command_of e))"
  by (auto simp: activity_step_def reasoning_of_def command_of_def push_opt_def js_truthy_def
           split: option.splits if_splits)

lemma fold_activity_step:
  "fold (\<lambda>e acc. activity_step acc e) es (r, c) =
   (fold (\<lambda>ox xs. push_opt 2 xs ox) (map reasoning_of es) r,
    fold (\<lambda>ox xs. push_opt 3 xs ox) (map command_of es) c)"
  by (induction es arbitrary: r c) (simp_all add: activity_step_split)

lemma map_filter_id_map: "List.map_filter id (map f xs) = List.map_filter f xs"
  by (induction xs) (simp_all add: map_filter_simps split: option.splits)

lemma events_of_rev: "events_of (rev ls) = rev (events_of ls)"
  by (simp add: events_of_def List.map_filter_def rev_map rev_filter)

lemma scan_events_no_null:
  "Json_Null \<notin> set ls \<Longrightarrow> scan_events f ls = Inr (first_some f (events_of ls))"
proof (induction ls)
  case Nil
  then show ?case by (simp add: events_of_def map_filter_simps)
next
  case (Cons l ls)
  then obtain e where "l = Json_Event e" by (cases l) auto
  with Cons show ?case by (simp add: events_of_def map_filter_simps split: option.splits)
qed

lemma apply_invocation_update_keys [simp]:
  "inv_id (apply_invocation_update u i) = inv_id i"
  "inv_message_id (apply_invocation_update u i) = inv_message_id i"
  "inv_target (apply_invocation_update u i) = inv_target i"
  "inv_type (apply_invocation_update u i) = inv_type i"
  by (simp_all add: apply_invocation_update_def)

lemma update_invocation_last:
  assumes "db_invocations d = is @ [r]" "inv_id r \<notin> inv_id ` set is"
  shows "fst (update_invocation d (inv_id r) u) = d\<lparr>db_invocations := is @ [apply_invocation_update u r]\<rparr>"
proof -
  have "map (\<lambda>i. if inv_id i = inv_id r then apply_invocation_update u i else i) is = is"
    using assms(2) by (induction "is") auto
  with assms(1) show ?thesis by (simp add: update_invocation_def Let_def)
qed

lemma db_wf_append_invocation:
  "db_wf d \<Longrightarrow> inv_id r \<notin> inv_id ` set (db_invocations d) \<Longrightarrow>
   inv_message_id r \<in> msg_id ` set (db_messages d) \<Longrightarrow>
   db_wf (d\<lparr>db_invocations := db_invocations d @ [r]\<rparr>)"
  by (simp add: db_wf_def)

lemma create_invocation_fresh:
  assumes "iid \<notin> inv_id ` set (db_invocations d)" "mid \<in> msg_id ` set (db_messages d)"
  shows "create_invocation d iid t mid ty cmd now =
         Inr (d\<lparr>db_invocations := db_invocations d @
                 [\<lparr>inv_id = iid, inv_target = t, inv_message_id = mid, inv_type = ty,
                   inv_status = Inv_Pending, inv_command = cmd, inv_stdout = None,
                   inv_stderr = None, inv_exit_code = None, inv_started_at = None,
                   inv_completed_at = None, inv_created_at = now\<rparr>]\<rparr>,
              \<lparr>inv_id = iid, inv_target = t, inv_message_id = mid, inv_type = ty,
               inv_status = Inv_Pending, inv_command = cmd, inv_stdout = None,
               inv_stderr = None, inv_exit_code = None, inv_started_at = None,
               inv_completed_at = None, inv_created_at = now\<rparr>)"
  using assms by (simp add: create_invocation_def Let_def)

lemma db_wf_fail_invocation [wf_intros]: "db_wf d \<Longrightarrow> db_wf (fst (fail_invocation d iid to msg t))"
  by (simp add: fail_invocation_def db_wf_update_invocation)

lemma db_wf_invoke_codex_exec:
  assumes wf: "db_wf d"
    and r: "invoke_codex_exec parse_line parse_structured schemas_dir d iid m ctx use_schema outcome t0 t1 = Inr (d', r)"
  shows "db_wf d'"
proof -
  define cmd where
    "cmd = command_info use_schema (get_schema_path schemas_dir (msg_type m)) (build_codex_prompt m ctx)"
  from r obtain d1 row where c: "create_invocation d iid Codex (msg_id m) Codex_Exec (Some cmd) t0 = Inr (d1, row)"
    by (auto simp: invoke_codex_exec_def Let_def cmd_def split: sum.splits)
  have w1: "db_wf d1" using wf c by (rule db_wf_create_invocation)
  from r show ?thesis
    by (auto simp: invoke_codex_exec_def Let_def cmd_def [symmetric] c fail_invocation_def
             split: exec_outcome.splits sum.splits intro!: db_wf_update_invocation w1)
qed

section \<open>Properties\<close>

text \<open>C23. The bounded arrays of step 3 hold exactly the last two reasoning texts and the
  last three rendered commands of the run: the push-then-shift loop equals taking the
  suffix of the filtered events.\<close>
theorem activity_keeps_latest:
  "fold (\<lambda>e acc. activity_step acc e) es ([], []) =
   (last_n 2 (List.map_filter reasoning_of es), last_n 3 (List.map_filter command_of es))"
  by (simp add: fold_activity_step fold_push_opt map_filter_id_map fold_push_bounded)

text \<open>The effect of an invocation on the store, with the final status of its row.\<close>
lemma invoke_codex_exec_effect:
  assumes wf: "db_wf d" and m: "msg_id m \<in> msg_id ` set (db_messages d)"
    and fresh: "iid \<notin> inv_id ` set (db_invocations d)"
  shows "\<exists>d' r row.
     invoke_codex_exec parse_line parse_structured schemas_dir d iid m ctx use_schema outcome t0 t1 = Inr (d', r) \<and>
     d' = d\<lparr>db_invocations := db_invocations d @ [row]\<rparr> \<and> db_wf d' \<and> ir_id r = iid \<and>
     inv_id row = iid \<and> inv_message_id row = msg_id m \<and> inv_target row = Codex \<and>
     inv_type row = Codex_Exec \<and> inv_started_at row = Some t0 \<and> inv_completed_at row = Some t1 \<and>
     ir_success r = (inv_status row = Inv_Completed) \<and>
     inv_status row =
       (case outcome of
          Exec_Threw timed_out msg \<Rightarrow> if timed_out then Inv_Timeout else Inv_Failed
        | Exec_Result ec out err timed_out \<Rightarrow>
            (case extract_codex_response parse_line parse_structured out of
               Inl _ \<Rightarrow> Inv_Failed
             | Inr _ \<Rightarrow> if ec = Some 0 then Inv_Completed else Inv_Failed))"
proof -
  define cmd where
    "cmd = command_info use_schema (get_schema_path schemas_dir (msg_type m)) (build_codex_prompt m ctx)"
  define r0 where
    "r0 = \<lparr>inv_id = iid, inv_target = Codex, inv_message_id = msg_id m, inv_type = Codex_Exec,
           inv_status = Inv_Pending, inv_command = Some cmd, inv_stdout = None, inv_stderr = None,
           inv_exit_code = None, inv_started_at = None, inv_completed_at = None, inv_created_at = t0\<rparr>"
  have c: "create_invocation d iid Codex (msg_id m) Codex_Exec (Some cmd) t0 =
           Inr (d\<lparr>db_invocations := db_invocations d @ [r0]\<rparr>, r0)"
    unfolding r0_def by (rule create_invocation_fresh [OF fresh m])
  have upd: "fst (update_invocation (d\<lparr>db_invocations := db_invocations d @ [r]\<rparr>) iid u) =
             d\<lparr>db_invocations := db_invocations d @ [apply_invocation_update u r]\<rparr>"
    if "inv_id r = iid" for r u
    using update_invocation_last [of "d\<lparr>db_invocations := db_invocations d @ [r]\<rparr>" "db_invocations d" r u]
      that fresh by simp
  have wf': "db_wf (d\<lparr>db_invocations := db_invocations d @ [r]\<rparr>)"
    if "inv_id r = iid" "inv_message_id r = msg_id m" for r
    using db_wf_append_invocation [OF wf] that fresh m by simp
  show ?thesis
    by (auto simp: invoke_codex_exec_def cmd_def [symmetric] c Let_def r0_def upd wf'
          fail_invocation_def invocation_update_none_def apply_invocation_update_def
          split: exec_outcome.splits sum.splits)
qed

text \<open>C22. Running the subprocess peer on a stored message records exactly one new
  invocation row for it (target \<open>codex\<close>, type \<open>codex_exec\<close>), started at the first
  clock reading and completed at the second, and leaves the rest of the store as it was and
  well formed. The row ends \<open>completed\<close> exactly when the result reports success, and
  otherwise \<open>failed\<close> or \<open>timeout\<close>: never \<open>pending\<close> or \<open>running\<close>.\<close>
theorem invoke_codex_exec_records:
  assumes wf: "db_wf d" and m: "msg_id m \<in> msg_id ` set (db_messages d)"
    and fresh: "iid \<notin> inv_id ` set (db_invocations d)"
  shows "\<exists>d' r row.
     invoke_codex_exec parse_line parse_structured schemas_dir d iid m ctx use_schema outcome t0 t1 = Inr (d', r) \<and>
     d' = d\<lparr>db_invocations := db_invocations d @ [row]\<rparr> \<and> db_wf d' \<and> ir_id r = iid \<and>
     inv_id row = iid \<and> inv_message_id row = msg_id m \<and> inv_target row = Codex \<and>
     inv_type row = Codex_Exec \<and> inv_started_at row = Some t0 \<and> inv_completed_at row = Some t1 \<and>
     (inv_status row = Inv_Completed \<longleftrightarrow> ir_success r) \<and>
     inv_status row \<in> {Inv_Completed, Inv_Failed, Inv_Timeout}"
proof -
  from invoke_codex_exec_effect [OF wf m fresh, of parse_line parse_structured schemas_dir ctx use_schema outcome t0 t1]
  obtain d' r row where facts:
    "invoke_codex_exec parse_line parse_structured schemas_dir d iid m ctx use_schema outcome t0 t1 = Inr (d', r)"
    "d' = d\<lparr>db_invocations := db_invocations d @ [row]\<rparr>" "db_wf d'" "ir_id r = iid"
    "inv_id row = iid" "inv_message_id row = msg_id m" "inv_target row = Codex"
    "inv_type row = Codex_Exec" "inv_started_at row = Some t0" "inv_completed_at row = Some t1"
    "ir_success r = (inv_status row = Inv_Completed)"
    and st: "inv_status row =
       (case outcome of
          Exec_Threw timed_out msg \<Rightarrow> if timed_out then Inv_Timeout else Inv_Failed
        | Exec_Result ec out err timed_out \<Rightarrow>
            (case extract_codex_response parse_line parse_structured out of
               Inl _ \<Rightarrow> Inv_Failed
             | Inr _ \<Rightarrow> if ec = Some 0 then Inv_Completed else Inv_Failed))"
    by blast
  have "inv_status row \<in> {Inv_Completed, Inv_Failed, Inv_Timeout}"
    using st by (simp split: exec_outcome.splits sum.splits)
  with facts show ?thesis by blast
qed

theorem invoke_codex_exec_records_witness:
  "db_wf example_invoke_db \<and> msg_id example_request \<in> msg_id ` set (db_messages example_invoke_db) \<and>
   ''i1'' \<notin> inv_id ` set (db_invocations example_invoke_db) \<and>
   (\<exists>d' r row.
     invoke_codex_exec example_parse_line (\<lambda>_. None) ''/schemas'' example_invoke_db ''i1'' example_request
       [] True (Exec_Result (Some 0) ''A'' [] False) 2 3 = Inr (d', r) \<and>
     d' = example_invoke_db\<lparr>db_invocations := db_invocations example_invoke_db @ [row]\<rparr> \<and>
     db_wf d' \<and> ir_id r = ''i1'' \<and>
     inv_id row = ''i1'' \<and> inv_message_id row = msg_id example_request \<and> inv_target row = Codex \<and>
     inv_type row = Codex_Exec \<and> inv_started_at row = Some 2 \<and> inv_completed_at row = Some 3 \<and>
     (inv_status row = Inv_Completed \<longleftrightarrow> ir_success r) \<and>
     inv_status row \<in> {Inv_Completed, Inv_Failed, Inv_Timeout})"
proof -
  have wf: "db_wf example_invoke_db" by code_simp
  have m: "msg_id example_request \<in> msg_id ` set (db_messages example_invoke_db)" by code_simp
  have fresh: "''i1'' \<notin> inv_id ` set (db_invocations example_invoke_db)" by code_simp
  show ?thesis
    using invoke_codex_exec_records [OF wf m fresh, of example_parse_line "\<lambda>_. None" "''/schemas''"
            "[]" True "Exec_Result (Some 0) ''A'' [] False" 2 3] wf m fresh
    by blast
qed

text \<open>When the last line of the output that parses is \<open>null\<close>, the extraction throws
  a \<open>TypeError\<close> (the backward scan reads \<open>event.type\<close> of it first), whatever the
  earlier lines hold: an answer printed before it is lost.\<close>
theorem extract_last_null:
  assumes "List.map_filter parse_line (filter (\<lambda>l. l \<noteq> []) (js_split (CHR 0x0A) stdout)) = ls @ [Json_Null]"
  shows "extract_codex_response parse_line parse_structured stdout = Inl null_type_error"
  using assms by (simp add: extract_codex_response_def)

theorem extract_last_null_witness:
  "List.map_filter example_parse_line (filter (\<lambda>l. l \<noteq> []) (js_split (CHR 0x0A) (''A'' @ nl @ ''null'')))
     = [Json_Event \<lparr>ce_type = ''item.completed'',
         ce_item = Some \<lparr>ci_type = ''agent_message'', ci_text = Some ''answer'', ci_command = None,
                         ci_aggregated_output = None, ci_exit_code = None\<rparr>,
         ce_response_output_text = None, ce_output_text = None, ce_role = None, ce_content = None\<rparr>]
       @ [Json_Null] \<and>
   extract_codex_response example_parse_line (\<lambda>_. None) (''A'' @ nl @ ''null'') = Inl null_type_error"
proof -
  have h: "List.map_filter example_parse_line (filter (\<lambda>l. l \<noteq> []) (js_split (CHR 0x0A) (''A'' @ nl @ ''null'')))
     = [Json_Event \<lparr>ce_type = ''item.completed'',
         ce_item = Some \<lparr>ci_type = ''agent_message'', ci_text = Some ''answer'', ci_command = None,
                         ci_aggregated_output = None, ci_exit_code = None\<rparr>,
         ce_response_output_text = None, ce_output_text = None, ce_role = None, ce_content = None\<rparr>]
       @ [Json_Null]" by code_simp
  show ?thesis using extract_last_null [OF h] h by simp
qed

text \<open>When the extraction yields nothing (or the empty string) and the process
  printed something, the response is the raw output cut at 50000 characters with the
  truncation notice appended: it starts with the first 50000 characters of the output and
  is never longer than 50000 characters plus the notice.\<close>
theorem response_fallback_bounded:
  assumes "\<not> js_truthy r" "stdout \<noteq> []"
  shows "\<exists>x. response_fallback r stdout = Some x \<and> x \<noteq> [] \<and>
             prefix (take max_response_size stdout) x \<and>
             length x \<le> max_response_size + length truncation_notice"
  using assms by (auto simp: response_fallback_def max_response_size_def)

theorem response_fallback_bounded_witness:
  "\<not> js_truthy None \<and> ''out'' \<noteq> [] \<and>
   (\<exists>x. response_fallback None ''out'' = Some x \<and> x \<noteq> [] \<and>
        prefix (take max_response_size ''out'') x \<and>
        length x \<le> max_response_size + length truncation_notice)"
  using response_fallback_bounded [of None "''out''"] by (simp add: js_truthy_def)

text \<open>On output none of whose lines is \<open>null\<close>, the extraction never throws and
  answers, in this order of preference: the formatted structured output of the last
  \<open>response.completed\<close>/\<open>turn.completed\<close> event that carries one; else the text of the
  last agent message; else the summary of the reasoning and commands, if any.\<close>
theorem extract_codex_response_no_null:
  assumes "Json_Null \<notin> set (List.map_filter parse_line (filter (\<lambda>l. l \<noteq> []) (js_split (CHR 0x0A) stdout)))"
  shows "extract_codex_response parse_line parse_structured stdout =
    Inr (let evs = events_of (List.map_filter parse_line (filter (\<lambda>l. l \<noteq> []) (js_split (CHR 0x0A) stdout)))
         in case first_some structured_text (rev evs) of
              Some t \<Rightarrow> Some (render_structured parse_structured t)
            | None \<Rightarrow> (case first_some agent_text (rev evs) of
                         Some t \<Rightarrow> Some t
                       | None \<Rightarrow> activity_summary evs))"
  using assms
  by (simp add: extract_codex_response_def scan_events_no_null events_of_rev Let_def split: option.splits)

theorem extract_codex_response_no_null_witness:
  "Json_Null \<notin> set (List.map_filter example_parse_line (filter (\<lambda>l. l \<noteq> []) (js_split (CHR 0x0A) ''A''))) \<and>
   extract_codex_response example_parse_line (\<lambda>_. None) ''A'' = Inr (Some ''answer'')"
proof -
  have h: "Json_Null \<notin> set (List.map_filter example_parse_line (filter (\<lambda>l. l \<noteq> []) (js_split (CHR 0x0A) ''A'')))"
    by code_simp
  have "(let evs = events_of (List.map_filter example_parse_line (filter (\<lambda>l. l \<noteq> []) (js_split (CHR 0x0A) ''A'')))
         in case first_some structured_text (rev evs) of
              Some t \<Rightarrow> Some (render_structured (\<lambda>_. None) t)
            | None \<Rightarrow> (case first_some agent_text (rev evs) of
                         Some t \<Rightarrow> Some t
                       | None \<Rightarrow> activity_summary evs)) = Some ''answer''" by code_simp
  with extract_codex_response_no_null [OF h] h show ?thesis by simp
qed

text \<open>C24. A run that \<open>execa\<close> stopped at the timeout resolves (the call passes
  \<open>reject: false\<close>), so its invocation row is recorded \<open>completed\<close> or \<open>failed\<close>,
  never \<open>timeout\<close>: the \<open>timeout\<close> status is written only when the call rejects.\<close>
theorem invoke_timed_out_not_timeout:
  assumes wf: "db_wf d" and m: "msg_id m \<in> msg_id ` set (db_messages d)"
    and fresh: "iid \<notin> inv_id ` set (db_invocations d)"
  shows "\<exists>d' r row.
     invoke_codex_exec parse_line parse_structured schemas_dir d iid m ctx use_schema
       (Exec_Result ec out err True) t0 t1 = Inr (d', r) \<and>
     d' = d\<lparr>db_invocations := db_invocations d @ [row]\<rparr> \<and> inv_id row = iid \<and>
     inv_status row \<noteq> Inv_Timeout"
proof -
  from invoke_codex_exec_effect [OF wf m fresh, of parse_line parse_structured schemas_dir ctx use_schema
          "Exec_Result ec out err True" t0 t1]
  obtain d' r row where facts:
    "invoke_codex_exec parse_line parse_structured schemas_dir d iid m ctx use_schema
       (Exec_Result ec out err True) t0 t1 = Inr (d', r)"
    "d' = d\<lparr>db_invocations := db_invocations d @ [row]\<rparr>" "inv_id row = iid"
    and st: "inv_status row =
            (case extract_codex_response parse_line parse_structured out of
               Inl _ \<Rightarrow> Inv_Failed
             | Inr _ \<Rightarrow> if ec = Some 0 then Inv_Completed else Inv_Failed)"
    by auto
  have "inv_status row \<noteq> Inv_Timeout"
    using st by (simp split: sum.splits)
  with facts show ?thesis by blast
qed

theorem invoke_timed_out_not_timeout_witness:
  "db_wf example_invoke_db \<and> msg_id example_request \<in> msg_id ` set (db_messages example_invoke_db) \<and>
   ''i1'' \<notin> inv_id ` set (db_invocations example_invoke_db) \<and>
   (\<exists>d' r row.
     invoke_codex_exec example_parse_line (\<lambda>_. None) ''/schemas'' example_invoke_db ''i1'' example_request
       [] True (Exec_Result None [] [] True) 2 300002 = Inr (d', r) \<and>
     d' = example_invoke_db\<lparr>db_invocations := db_invocations example_invoke_db @ [row]\<rparr> \<and>
     inv_id row = ''i1'' \<and> inv_status row \<noteq> Inv_Timeout)"
proof -
  have wf: "db_wf example_invoke_db" by code_simp
  have m: "msg_id example_request \<in> msg_id ` set (db_messages example_invoke_db)" by code_simp
  have fresh: "''i1'' \<notin> inv_id ` set (db_invocations example_invoke_db)" by code_simp
  show ?thesis
    using invoke_timed_out_not_timeout [OF wf m fresh, of example_parse_line "\<lambda>_. None" "''/schemas''"
            "[]" True None "[]" "[]" 2 300002] wf m fresh
    by blast
qed

end
