(* ===== verification/Agents.thy ===== *)
theory Agents
  imports Prelude
begin

text \<open>
  Agent personas (src/src/agents/types.ts, registry.ts, personas/oracle.ts, and the
  architect_persona persona in src/unnamed/part_003). A persona's \<open>baseInstructions\<close> is a long
  literal prompt; the model names it by a tag (\<open>persona_prompt\<close>) instead of copying the
  text, since no behaviour of the bridge inspects it.
\<close>

datatype agent_category = Advisor | Exploration | Specialist

datatype agent_name = Architect | Oracle

datatype persona_prompt = Architect_Prompt | Oracle_Prompt

record agent_persona =
  persona_name :: string
  persona_description :: string
  persona_category :: agent_category
  persona_base_instructions :: persona_prompt
  persona_triggers :: "string list"
  persona_sandbox :: "string option"

definition architect_persona :: agent_persona where
  "architect_persona =
     \<lparr>persona_name = ''architect'', persona_description = ''Critical code reviewer and design advisor'',
      persona_category = Advisor, persona_base_instructions = Architect_Prompt,
      persona_triggers = [''architecture'', ''design'', ''review'', ''should we'', ''approach'', ''refactor''],
      persona_sandbox = None\<rparr>"

definition oracle_persona :: agent_persona where
  "oracle_persona =
     \<lparr>persona_name = ''oracle'',
      persona_description = ''Strategic reasoning for debugging and complex problems'',
      persona_category = Advisor, persona_base_instructions = Oracle_Prompt,
      persona_triggers = [''why'', ''debug'', ''investigate'', ''understand'', ''root cause'', ''explain''],
      persona_sandbox = None\<rparr>"

primrec agent_personas :: "agent_name \<Rightarrow> agent_persona" where
  "agent_personas Architect = architect_persona"
| "agent_personas Oracle = oracle_persona"

definition default_agent :: agent_name where
  "default_agent = Architect"

text \<open>\<open>getAgent\<close>: the named persona, or the default when no name is given. Names
  reach it already checked against the enumeration \<open>AgentName\<close>.\<close>
definition get_agent :: "agent_name option \<Rightarrow> agent_persona" where
  "get_agent name = (case name of Some n \<Rightarrow> agent_personas n | None \<Rightarrow> agent_personas default_agent)"

definition oracle_triggers :: "string list" where
  "oracle_triggers = [''why'', ''debug'', ''investigate'', ''root cause'', ''understand'', ''explain'',
                      ''failing'', ''broken'', ''not working'', ''error'', ''bug'']"

text \<open>\<open>selectAgent\<close>: the trigger loop returns the oracle at the first trigger that
  occurs in the lower-cased content, and the architect_persona after the loop.\<close>
fun first_trigger :: "string \<Rightarrow> string list \<Rightarrow> bool" where
  "first_trigger lower [] = False"
| "first_trigger lower (t # ts) = (js_includes lower t \<or> first_trigger lower ts)"

definition select_agent :: "string \<Rightarrow> agent_persona" where
  "select_agent content =
     (let lower = js_to_lower content in if first_trigger lower oracle_triggers then oracle_persona else architect_persona)"

definition list_agent_names :: "agent_name list" where
  "list_agent_names = [Architect, Oracle]"

lemma first_trigger_list_ex: "first_trigger lower ts \<longleftrightarrow> list_ex (\<lambda>t. sublist t lower) ts"
  by (induction ts) auto

lemma oracle_ne_architect: "oracle_persona \<noteq> architect_persona"
  by (simp add: oracle_persona_def architect_persona_def)


section \<open>Persona selection\<close>

text \<open>\<open>selectAgent\<close> picks the oracle exactly when one of the oracle triggers occurs
  in the lower-cased content, and the architect otherwise (spec property 7).\<close>
theorem select_agent_oracle_iff:
  "select_agent content =
     (if list_ex (\<lambda>t. sublist t (js_to_lower content)) oracle_triggers then oracle_persona
      else architect_persona)"
  by (simp add: select_agent_def first_trigger_list_ex)

text \<open>The trigger list \<open>selectAgent\<close> scans is not the oracle persona's declared
  \<open>triggers\<close>: "The build is FAILING" selects the oracle through \<open>"failing"\<close>, which
  the persona does not list, and the architect's declared triggers are never consulted
  ("review this design" selects the architect only because nothing matched).\<close>
theorem persona_triggers_unused:
  "select_agent ''The build is FAILING'' = oracle_persona \<and>
   ''failing'' \<notin> set (persona_triggers oracle_persona) \<and>
   select_agent ''please review this design'' = architect_persona"
  by code_simp

end
