(* ===== verification/Client_Registry.thy ===== *)
theory Client_Registry
  imports Prelude
begin

text \<open>
  The in-memory registry of live sessions (\<open>ClientRegistry\<close>,
  src/src/mcp/clientRegistry.ts): a JavaScript \<open>Map\<close> from assistant to session id,
  modelled as an association list. It is the authoritative answer to "is the peer
  reachable now"; the transport keeps it in step with its sessions.
\<close>

record client_registry =
  active_sessions :: "(client_id \<times> string) list"

definition empty_registry :: client_registry where
  "empty_registry = \<lparr>active_sessions = []\<rparr>"

definition set_online :: "client_registry \<Rightarrow> client_id \<Rightarrow> string \<Rightarrow> client_registry" where
  "set_online r c sid = r\<lparr>active_sessions := AList.update c sid (active_sessions r)\<rparr>"

definition set_offline :: "client_registry \<Rightarrow> client_id \<Rightarrow> client_registry" where
  "set_offline r c = r\<lparr>active_sessions := AList.delete c (active_sessions r)\<rparr>"

definition is_online :: "client_registry \<Rightarrow> client_id \<Rightarrow> bool" where
  "is_online r c \<longleftrightarrow> map_of (active_sessions r) c \<noteq> None"

definition get_session_id :: "client_registry \<Rightarrow> client_id \<Rightarrow> string option" where
  "get_session_id r c = map_of (active_sessions r) c"

definition get_online_clients :: "client_registry \<Rightarrow> client_id list" where
  "get_online_clients r = map fst (active_sessions r)"

definition clear_registry :: "client_registry \<Rightarrow> client_registry" where
  "clear_registry r = r\<lparr>active_sessions := []\<rparr>"

lemma get_session_id_set_online [simp]:
  "get_session_id (set_online r c sid) c' = (if c' = c then Some sid else get_session_id r c')"
  by (simp add: get_session_id_def set_online_def update_conv')

lemma get_session_id_set_offline [simp]:
  "get_session_id (set_offline r c) c' = (if c' = c then None else get_session_id r c')"
  by (simp add: get_session_id_def set_offline_def delete_conv')

lemma get_session_id_clear [simp]: "get_session_id (clear_registry r) c = None"
  by (simp add: get_session_id_def clear_registry_def)

lemma is_online_get_session_id: "is_online r c \<longleftrightarrow> get_session_id r c \<noteq> None"
  by (simp add: is_online_def get_session_id_def)

end
