(* ===== verification/Dispatcher.thy ===== *)
theory Dispatcher
  imports Invoker Agents Client_Registry
begin

text \<open>
  The message dispatcher (\<open>MessageDispatcher\<close>, src/unnamed/part_002, staged as
  src/router/dispatcher.ts). \<open>sendMessage\<close> resolves or creates the conversation, stores
  the message and routes it: delivered when the registry has the target online; for an
  offline Codex, first the persistent Codex MCP server (tier A) and then the one-shot
  \<open>codex exec\<close> (tier B, \<open>Invoker\<close>); for an offline Claude, a queue row. It then
  polls for a response if asked to. Everything one call receives from outside the store is
  a field of \<open>send_env\<close>: the clock, the \<open>randomUUID()\<close> values, the reply of the MCP
  client, the JSON parsers and the subprocess run of the invoker, and the store as the
  polling loop observes it while other requests write to it.
\<close>

record dispatcher =
  disp_codex_mcp_enabled :: bool
  disp_registry :: "client_registry option"

text \<open>The constructor: \<open>codexMcpEnabled ?? true\<close>; the MCP client exists exactly when
  it is enabled.\<close>
definition new_dispatcher :: "client_registry option \<Rightarrow> bool option \<Rightarrow> dispatcher" where
  "new_dispatcher reg enabled =
     \<lparr>disp_codex_mcp_enabled = (case enabled of None \<Rightarrow> True | Some b \<Rightarrow> b), disp_registry = reg\<rparr>"

record send_opts =
  so_conversation_id :: "uuid option"
  so_sender :: client_id
  so_target :: client_id
  so_content :: string
  so_message_type :: "message_type option"
  so_priority :: "message_priority option"
  so_wait_for_response :: bool
  so_timeout_ms :: "nat option"
  so_use_output_schema :: "bool option"
  so_metadata :: "string option"
  so_agent :: "agent_name option"

text \<open>\<open>SendMessageResult\<close>; an optional field the code never sets is \<open>None\<close>.\<close>
record send_result =
  sr_message :: message
  sr_conversation :: conversation
  sr_response :: "message option"
  sr_invoked :: "bool option"
  sr_invoked_via_mcp :: "bool option"
  sr_invocation_error :: "string option"
  sr_selected_agent :: "string option"

datatype dispatch_error = Conversation_Not_Found uuid | Store_Error db_error

text \<open>The outside world of one \<open>sendMessage\<close> call. \<open>env_mcp_send\<close> is the
  \<open>response\<close> of \<open>codexMcpClient.sendMessage(prompt, messageId, persona)\<close>, \<open>None\<close>
  when it resolves without one or rejects; \<open>env_observe k\<close> is the store that the
  polling loop reads \<open>k\<close> eighths of a millisecond after it started.\<close>
record send_env =
  env_now :: timestamp
  env_conversation_uuid :: uuid
  env_message_uuid :: uuid
  env_response_uuid :: uuid
  env_invocation_uuid :: uuid
  env_mcp_send :: "string \<Rightarrow> uuid \<Rightarrow> agent_persona \<Rightarrow> string option"
  env_parse_line :: "string \<Rightarrow> json_line option"
  env_parse_structured :: "string \<Rightarrow> structured option"
  env_schemas_dir :: string
  env_exec_outcome :: exec_outcome
  env_exec_end :: timestamp
  env_observe :: "nat \<Rightarrow> db"

section \<open>Helpers of \<open>sendMessage\<close>\<close>

text \<open>\<open>buildConversationContext\<close>: the first 20 messages of the conversation in
  \<open>created_at\<close> order (\<open>getConversationMessages\<close> with \<open>limit: 20\<close>), one
  \<open>"[sender]: content"\<close> each, separated by blank lines.\<close>
definition build_conversation_context :: "db \<Rightarrow> uuid \<Rightarrow> string" where
  "build_conversation_context d cid =
     (let msgs = get_conversation_messages d cid 20 0
      in if msgs = [] then []
         else js_join (nl @ nl) (map (\<lambda>m. ''['' @ client_name (msg_sender m) @ '']: '' @ msg_content m) msgs))"

text \<open>\<open>tryCodexMcpServer\<close>: \<open>None\<close> is the \<open>null\<close> that sends the caller to tier B.\<close>
definition try_codex_mcp_server ::
  "dispatcher \<Rightarrow> (string \<Rightarrow> uuid \<Rightarrow> agent_persona \<Rightarrow> string option) \<Rightarrow> string \<Rightarrow> string \<Rightarrow> uuid \<Rightarrow>
   agent_persona \<Rightarrow> string option" where
  "try_codex_mcp_server disp send content ctx mid persona =
     (if \<not> disp_codex_mcp_enabled disp then None
      else (let prompt = (if ctx \<noteq> [] then ''Previous conversation:'' @ nl @ ctx @ nl @ nl @
                                            ''New message:'' @ nl @ content
                          else content)
            in case send prompt mid persona of
                 None \<Rightarrow> None
               | Some r \<Rightarrow> if r \<noteq> [] then Some r else None))"

definition get_response_type :: "message_type option \<Rightarrow> message_type" where
  "get_response_type t =
     (case t of Some Research_Request \<Rightarrow> Research_Response
              | Some Review_Request \<Rightarrow> Review_Response
              | _ \<Rightarrow> Msg_Message)"

text \<open>\<open>priorityMap[opts.priority ?? "normal"]\<close>.\<close>
definition queue_priority :: "message_priority option \<Rightarrow> int" where
  "queue_priority p =
     (case p of Some Prio_Urgent \<Rightarrow> 2 | Some Prio_High \<Rightarrow> 1 | _ \<Rightarrow> 0)"

text \<open>Get or create the conversation: a given id (a non-empty string) must exist.\<close>
definition resolve_conversation ::
  "send_env \<Rightarrow> db \<Rightarrow> send_opts \<Rightarrow> db \<times> (dispatch_error + conversation)" where
  "resolve_conversation env d opts =
     (let create = (case create_conversation d (env_conversation_uuid env) None None (so_sender opts) None
                           (env_now env) of
                      Inl e \<Rightarrow> (d, Inl (Store_Error e))
                    | Inr (d1, c) \<Rightarrow> (d1, Inr c))
      in case so_conversation_id opts of
           None \<Rightarrow> create
         | Some cid \<Rightarrow>
             if cid = [] then create
             else (case get_conversation d cid of
                     None \<Rightarrow> (d, Inl (Conversation_Not_Found cid))
                   | Some c \<Rightarrow> (d, Inr c)))"

text \<open>The response message of tiers A and B, and the original marked \<open>responded\<close>.\<close>
definition store_response ::
  "send_env \<Rightarrow> db \<Rightarrow> send_opts \<Rightarrow> conversation \<Rightarrow> message \<Rightarrow> string \<Rightarrow>
   db \<times> (dispatch_error + message)" where
  "store_response env d opts c m content =
     (case create_message d (env_response_uuid env)
             \<lparr>cm_conversation_id = conv_id c, cm_sender = so_target opts, cm_target = so_sender opts,
              cm_content = content, cm_message_type = Some (get_response_type (so_message_type opts)),
              cm_priority = None, cm_response_to_id = Some (msg_id m), cm_metadata = None\<rparr> (env_now env) of
        Inl e \<Rightarrow> (d, Inl (Store_Error e))
      | Inr (d1, r) \<Rightarrow> (update_message_status d1 (msg_id m) Responded (env_now env), Inr r))"

text \<open>Tier B: the one-shot \<open>codex exec\<close>, its response stored when it has one, its
  error surfaced when it has none.\<close>
definition exec_tier ::
  "send_env \<Rightarrow> db \<Rightarrow> send_opts \<Rightarrow> conversation \<Rightarrow> message \<Rightarrow> string \<Rightarrow> send_result \<Rightarrow>
   db \<times> (dispatch_error + send_result)" where
  "exec_tier env d opts c m ctx res =
     (case invoke_codex_exec (env_parse_line env) (env_parse_structured env) (env_schemas_dir env)
             d (env_invocation_uuid env) m ctx
             (case so_use_output_schema opts of None \<Rightarrow> True | Some b \<Rightarrow> b)
             (env_exec_outcome env) (env_now env) (env_exec_end env) of
        Inl e \<Rightarrow> (d, Inl (Store_Error e))
      | Inr (d1, ir) \<Rightarrow>
          (let res2 = res\<lparr>sr_invoked := Some True,
                          sr_invocation_error :=
                            (if \<not> ir_success ir \<and> \<not> js_truthy (ir_response ir)
                             then Some (if ir_stderr ir \<noteq> [] then ir_stderr ir
                                        else ''Invocation failed with no output'')
                             else None)\<rparr>
           in if js_truthy (ir_response ir) then
                (case store_response env d1 opts c m (case ir_response ir of None \<Rightarrow> [] | Some t \<Rightarrow> t) of
                   (d2, Inl e) \<Rightarrow> (d2, Inl e)
                 | (d2, Inr r) \<Rightarrow> (d2, Inr (res2\<lparr>sr_response := Some r\<rparr>)))
              else (d1, Inr res2)))"

text \<open>The offline-Codex branch: the conversation context, the persona (given, or
  selected from the content), then tier A and, when it gives nothing, tier B.\<close>
definition codex_tiers ::
  "dispatcher \<Rightarrow> send_env \<Rightarrow> db \<Rightarrow> send_opts \<Rightarrow> conversation \<Rightarrow> message \<Rightarrow> send_result \<Rightarrow>
   db \<times> (dispatch_error + send_result)" where
  "codex_tiers disp env d opts c m res =
     (let ctx = build_conversation_context d (conv_id c);
          persona = (case so_agent opts of Some a \<Rightarrow> get_agent (Some a)
                                        | None \<Rightarrow> select_agent (so_content opts));
          res1 = res\<lparr>sr_selected_agent := Some (persona_name persona)\<rparr>
      in case try_codex_mcp_server disp (env_mcp_send env) (so_content opts) ctx (msg_id m) persona of
           Some reply \<Rightarrow>
             (case store_response env d opts c m reply of
                (d1, Inl e) \<Rightarrow> (d1, Inl e)
              | (d1, Inr r) \<Rightarrow> (d1, Inr (res1\<lparr>sr_response := Some r, sr_invoked := Some True,
                                               sr_invoked_via_mcp := Some True\<rparr>)))
         | None \<Rightarrow> exec_tier env d opts c m ctx res1)"

text \<open>\<open>this.clientRegistry?.isOnline(target) ?? false\<close>.\<close>
definition target_online :: "dispatcher \<Rightarrow> client_id \<Rightarrow> bool" where
  "target_online disp t = (case disp_registry disp of None \<Rightarrow> False | Some reg \<Rightarrow> is_online reg t)"

text \<open>The routing decision and its effects, after the message has been stored.\<close>
definition route_message ::
  "dispatcher \<Rightarrow> send_env \<Rightarrow> db \<Rightarrow> send_opts \<Rightarrow> conversation \<Rightarrow> message \<Rightarrow>
   db \<times> (dispatch_error + send_result)" where
  "route_message disp env d opts c m =
     (let res = \<lparr>sr_message = m, sr_conversation = c, sr_response = None, sr_invoked = None,
                 sr_invoked_via_mcp = None, sr_invocation_error = None, sr_selected_agent = None\<rparr>
      in if target_online disp (so_target opts) then (update_message_status d (msg_id m) Delivered (env_now env), Inr res)
         else if so_target opts = Codex then codex_tiers disp env d opts c m res
         else
           (case enqueue_message d (msg_id m) (so_target opts) (Some (queue_priority (so_priority opts)))
                   (Some 5) (env_now env) of
              Inl e \<Rightarrow> (d, Inl (Store_Error e))
            | Inr (d1, _) \<Rightarrow> (d1, Inr res)))"

text \<open>The conversation that \<open>createConversation\<close> makes for a send, and the input
  of the \<open>createMessage\<close> of the request.\<close>
definition new_conversation :: "send_env \<Rightarrow> send_opts \<Rightarrow> conversation" where
  "new_conversation env opts =
     \<lparr>conv_id = env_conversation_uuid env, conv_title = None, conv_project = None,
      conv_status = Conv_Active, conv_created_by = so_sender opts, conv_created_at = env_now env,
      conv_updated_at = env_now env, conv_closed_at = None, conv_summary = None, conv_metadata = None\<rparr>"

definition request_input :: "send_opts \<Rightarrow> conversation \<Rightarrow> create_message_input" where
  "request_input opts c =
     \<lparr>cm_conversation_id = conv_id c, cm_sender = so_sender opts, cm_target = so_target opts,
      cm_content = so_content opts, cm_message_type = so_message_type opts,
      cm_priority = so_priority opts, cm_response_to_id = None, cm_metadata = so_metadata opts\<rparr>"

text \<open>\<open>sendMessage\<close> up to the wait: the store after the call's own writes and the
  result or the error it throws (a throw leaves the writes made before it).\<close>
definition send_message_core ::
  "dispatcher \<Rightarrow> send_env \<Rightarrow> db \<Rightarrow> send_opts \<Rightarrow> db \<times> (dispatch_error + send_result)" where
  "send_message_core disp env d opts =
     (case resolve_conversation env d opts of
        (d1, Inl e) \<Rightarrow> (d1, Inl e)
      | (d1, Inr c) \<Rightarrow>
          (case create_message d1 (env_message_uuid env) (request_input opts c) (env_now env) of
             Inl e \<Rightarrow> (d1, Inl (Store_Error e))
           | Inr (d2, m) \<Rightarrow> route_message disp env d2 opts c m))"

section \<open>Waiting for a response (\<open>waitForResponse\<close>)\<close>

text \<open>The polling loop, in eighths of a millisecond so that the intervals
  \<open>100, 150, 225, 337.5, 506.25, 759.375, 1000, 1000, ...\<close> ms are whole numbers
  (\<open>800, 1200, ..., 6075, 8000\<close>). Elapsed time is the sum of the sleeps. The loop has
  no termination argument of its own (an interval of 0 would spin), so it is a partial
  function into \<open>option\<close>; \<open>None\<close> is divergence.\<close>
partial_function (option) wait_loop ::
  "(nat \<Rightarrow> db) \<Rightarrow> uuid \<Rightarrow> nat \<Rightarrow> nat \<Rightarrow> nat \<Rightarrow> message option option" where
  "wait_loop obs mid deadline elapsed interval =
     (if elapsed < deadline then
        (case get_response_to_message (obs elapsed) mid of
           Some r \<Rightarrow> Some (Some r)
         | None \<Rightarrow> wait_loop obs mid deadline (elapsed + interval) (min (interval * 3 div 2) 8000))
      else Some None)"

definition wait_for_response :: "(nat \<Rightarrow> db) \<Rightarrow> uuid \<Rightarrow> nat \<Rightarrow> message option option" where
  "wait_for_response obs mid timeout_ms = wait_loop obs mid (8 * timeout_ms) 0 800"

text \<open>\<open>sendMessage\<close>: the core, then the wait when \<open>waitForResponse\<close> is set and no
  response came inline (\<open>timeoutMs ?? 60000\<close>).\<close>
definition send_message ::
  "dispatcher \<Rightarrow> send_env \<Rightarrow> db \<Rightarrow> send_opts \<Rightarrow> (db \<times> (dispatch_error + send_result)) option" where
  "send_message disp env d opts =
     (case send_message_core disp env d opts of
        (d1, Inl e) \<Rightarrow> Some (d1, Inl e)
      | (d1, Inr res) \<Rightarrow>
          if so_wait_for_response opts \<and> sr_response res = None then
            map_option (\<lambda>w. (d1, Inr (case w of None \<Rightarrow> res | Some r \<Rightarrow> res\<lparr>sr_response := Some r\<rparr>)))
              (wait_for_response (env_observe env) (msg_id (sr_message res))
                 (case so_timeout_ms opts of None \<Rightarrow> 60000 | Some t \<Rightarrow> t))
          else Some (d1, Inr res))"

definition get_conversation_history :: "db \<Rightarrow> uuid \<Rightarrow> nat \<Rightarrow> nat \<Rightarrow> message list" where
  "get_conversation_history d cid limit offset = get_conversation_messages d cid limit offset"

text \<open>The store of the invoker's example after Codex answered the request.\<close>
definition example_answered_db :: db where
  "example_answered_db = store_run example_invoke_db
     [(2, Op_Create_Message ''r1'' \<lparr>cm_conversation_id = ''c1'', cm_sender = Codex,
            cm_target = Claude, cm_content = ''because'', cm_message_type = None, cm_priority = None,
            cm_response_to_id = Some ''m1'', cm_metadata = None\<rparr>)]"

definition example_answer :: message where
  "example_answer =
     \<lparr>msg_id = ''r1'', msg_conversation_id = ''c1'', msg_sender = Codex, msg_target = Claude,
      msg_content = ''because'', msg_type = Msg_Message, msg_priority = Prio_Normal, msg_status = Pending,
      msg_response_to_id = Some ''m1'', msg_created_at = 2, msg_delivered_at = None, msg_read_at = None,
      msg_metadata = None\<rparr>"

text \<open>Example inputs: an environment whose MCP client answers \<open>pong\<close>, a request
  from one assistant to the other in a new conversation, the invoker's example store with
  its conversation archived, and a conversation of 21 messages.\<close>
definition example_env :: send_env where
  "example_env =
     \<lparr>env_now = 5, env_conversation_uuid = ''c9'', env_message_uuid = ''m9'', env_response_uuid = ''r9'',
      env_invocation_uuid = ''i9'', env_mcp_send = (\<lambda>_ _ _. Some ''pong''), env_parse_line = (\<lambda>_. None),
      env_parse_structured = (\<lambda>_. None), env_schemas_dir = ''/schemas'',
      env_exec_outcome = Exec_Result (Some 0) [] [] False, env_exec_end = 6,
      env_observe = (\<lambda>_. example_answered_db)\<rparr>"

definition example_opts :: "client_id \<Rightarrow> client_id \<Rightarrow> string \<Rightarrow> send_opts" where
  "example_opts sender target content =
     \<lparr>so_conversation_id = None, so_sender = sender, so_target = target, so_content = content,
      so_message_type = None, so_priority = Some Prio_High, so_wait_for_response = False,
      so_timeout_ms = None, so_use_output_schema = None, so_metadata = None, so_agent = None\<rparr>"

definition example_archived_db :: db where
  "example_archived_db = store_run example_invoke_db [(3, Op_Update_Conversation ''c1'' None (Some Conv_Archived) None)]"

definition example_long_db :: db where
  "example_long_db = store_run (initial_db 0)
     ((0, Op_Create_Conversation ''c1'' None None Claude None) #
      map (\<lambda>n. (n, Op_Create_Message (''k'' @ string_of_nat n)
                   \<lparr>cm_conversation_id = ''c1'', cm_sender = Claude, cm_target = Codex, cm_content = ''x'',
                    cm_message_type = None, cm_priority = None, cm_response_to_id = None, cm_metadata = None\<rparr>))
          [1..<22])"

definition example_newest :: message where
  "example_newest =
     \<lparr>msg_id = ''k21'', msg_conversation_id = ''c1'', msg_sender = Claude, msg_target = Codex,
      msg_content = ''x'', msg_type = Msg_Message, msg_priority = Prio_Normal, msg_status = Pending,
      msg_response_to_id = None, msg_created_at = 21, msg_delivered_at = None, msg_read_at = None,
      msg_metadata = None\<rparr>"

declare wait_loop.simps [code]

section \<open>Lemmas\<close>

lemma get_response_to_message_Some:
  "get_response_to_message d mid = Some r \<Longrightarrow> msg_response_to_id r = Some mid \<and> r \<in> set (db_messages d)"
proof -
  assume h: "get_response_to_message d mid = Some r"
  then obtain rs where "sort_key msg_created_at (filter (\<lambda>m. msg_response_to_id m = Some mid) (db_messages d)) = r # rs"
    by (auto simp: get_response_to_message_def split: list.splits)
  then have "r \<in> set (sort_key msg_created_at (filter (\<lambda>m. msg_response_to_id m = Some mid) (db_messages d)))"
    by simp
  then show ?thesis by simp
qed

lemma next_interval_pos: "0 < iv \<Longrightarrow> 0 < min (iv * 3 div 2) (8000::nat)"
  by simp

lemma next_interval_le: "min (iv * 3 div 2) (8000::nat) \<le> 8000"
  by simp

lemma wait_loop_terminates: "0 < iv \<Longrightarrow> \<exists>r. wait_loop obs mid deadline e iv = Some r"
proof (induction "deadline - e" arbitrary: e iv rule: less_induct)
  case less
  show ?case
  proof (cases "e < deadline")
    case True
    have "\<exists>r. wait_loop obs mid deadline (e + iv) (min (iv * 3 div 2) 8000) = Some r"
      using less.hyps [of "e + iv" "min (iv * 3 div 2) 8000"] less.prems True by simp
    with True show ?thesis
      by (subst wait_loop.simps) (auto split: option.splits)
  next
    case False
    then show ?thesis by (subst wait_loop.simps) simp
  qed
qed

lemma wait_loop_sound:
  assumes ret: "wait_loop obs mid deadline e iv = Some res"
  shows "\<forall>r. res = Some r \<longrightarrow>
           msg_response_to_id r = Some mid \<and> (\<exists>k. e \<le> k \<and> k < deadline \<and> r \<in> set (db_messages (obs k)))"
proof (rule wait_loop.raw_induct
         [where P = "\<lambda>obs mid deadline e iv res. \<forall>r. res = Some r \<longrightarrow>
            msg_response_to_id r = Some mid \<and> (\<exists>k. e \<le> k \<and> k < deadline \<and> r \<in> set (db_messages (obs k)))",
          OF _ ret])
  fix f obs mid and deadline e iv :: nat and res
  assume IH: "\<And>obs mid deadline e iv res. f obs mid deadline e iv = Some res \<Longrightarrow>
                \<forall>r. res = Some r \<longrightarrow> msg_response_to_id r = Some mid \<and>
                  (\<exists>k. e \<le> k \<and> k < deadline \<and> r \<in> set (db_messages (obs k)))"
    and eq: "(if e < deadline then
               (case get_response_to_message (obs e) mid of
                  None \<Rightarrow> f obs mid deadline (e + iv) (min (iv * 3 div 2) 8000)
                | Some r \<Rightarrow> Some (Some r))
              else Some None) = Some res"
  show "\<forall>r. res = Some r \<longrightarrow>
          msg_response_to_id r = Some mid \<and> (\<exists>k. e \<le> k \<and> k < deadline \<and> r \<in> set (db_messages (obs k)))"
  proof (cases "e < deadline")
    case False
    with eq show ?thesis by simp
  next
    case True
    show ?thesis
    proof (cases "get_response_to_message (obs e) mid")
      case (Some r')
      then have "msg_response_to_id r' = Some mid \<and> r' \<in> set (db_messages (obs e))"
        by (rule get_response_to_message_Some)
      with Some True eq show ?thesis by (auto intro!: exI [of _ e])
    next
      case None
      with True eq have "f obs mid deadline (e + iv) (min (iv * 3 div 2) 8000) = Some res" by simp
      from IH [OF this] show ?thesis by (auto intro: le_trans [OF le_add1])
    qed
  qed
qed

text \<open>A response present from time \<open>s\<close> on is found by a loop whose polls are at most
  8000 apart and whose next poll comes before \<open>s + 8000\<close>.\<close>
lemma wait_loop_live:
  assumes "0 < iv" "iv \<le> 8000" "e < s + 8000" "s + 8000 \<le> deadline"
    and present: "\<forall>k \<ge> s. get_response_to_message (obs k) mid \<noteq> None"
  shows "\<exists>r. wait_loop obs mid deadline e iv = Some (Some r)"
  using assms(1-4)
proof (induction "s - e" arbitrary: e iv rule: less_induct)
  case less
  have lt: "e < deadline" using less.prems by simp
  show ?case
  proof (cases "get_response_to_message (obs e) mid")
    case (Some r)
    with lt show ?thesis by (subst wait_loop.simps) simp
  next
    case None
    with present have "e < s" by (meson not_le)
    have "\<exists>r. wait_loop obs mid deadline (e + iv) (min (iv * 3 div 2) 8000) = Some (Some r)"
      using less.hyps [of "e + iv" "min (iv * 3 div 2) 8000"] less.prems \<open>e < s\<close> by simp
    with lt None show ?thesis by (subst wait_loop.simps) simp
  qed
qed

lemma db_wf_resolve_conversation: "db_wf d \<Longrightarrow> db_wf (fst (resolve_conversation env d opts))"
  by (auto simp: resolve_conversation_def Let_def split: option.splits sum.splits
           intro: db_wf_create_conversation)

lemma db_wf_store_response:
  "db_wf d \<Longrightarrow> db_wf (fst (store_response env d opts c m s))"
  by (auto simp: store_response_def split: sum.splits intro: wf_intros
           dest: db_wf_create_message [rotated])

lemma db_wf_exec_tier:
  assumes wf: "db_wf d" shows "db_wf (fst (exec_tier env d opts c m ctx res))"
proof (cases "invoke_codex_exec (env_parse_line env) (env_parse_structured env) (env_schemas_dir env)
             d (env_invocation_uuid env) m ctx
             (case so_use_output_schema opts of None \<Rightarrow> True | Some b \<Rightarrow> b)
             (env_exec_outcome env) (env_now env) (env_exec_end env)")
  case (Inl e)
  with wf show ?thesis by (simp add: exec_tier_def)
next
  case (Inr p)
  then obtain d1 ir where i: "invoke_codex_exec (env_parse_line env) (env_parse_structured env) (env_schemas_dir env)
             d (env_invocation_uuid env) m ctx
             (case so_use_output_schema opts of None \<Rightarrow> True | Some b \<Rightarrow> b)
             (env_exec_outcome env) (env_now env) (env_exec_end env) = Inr (d1, ir)"
    by (cases p) auto
  have w1: "db_wf d1" using wf i by (rule db_wf_invoke_codex_exec)
  have w2: "db_wf d2" if "store_response env d1 opts c m s = (d2, x)" for s d2 x
    using db_wf_store_response [OF w1, of env opts c m s] that by simp
  show ?thesis
    using w1 by (auto simp: exec_tier_def i Let_def split: prod.splits sum.splits dest: w2)
qed

lemma db_wf_codex_tiers:
  assumes wf: "db_wf d" shows "db_wf (fst (codex_tiers disp env d opts c m res))"
proof -
  have w: "db_wf d1" if "store_response env d opts c m s = (d1, x)" for s d1 x
    using db_wf_store_response [OF wf, of env opts c m s] that by simp
  have e: "db_wf (fst (exec_tier env d opts c m ctx r))" for ctx r
    using wf by (rule db_wf_exec_tier)
  show ?thesis
    using e by (auto simp: codex_tiers_def Let_def split: option.splits prod.splits sum.splits dest: w)
qed

lemma db_wf_route_message:
  assumes wf: "db_wf d" shows "db_wf (fst (route_message disp env d opts c m))"
  using wf db_wf_codex_tiers [OF wf]
  by (auto simp: route_message_def Let_def split: sum.splits intro: wf_intros
           dest: db_wf_enqueue_message [rotated])

lemma db_wf_send_core: "db_wf d \<Longrightarrow> db_wf (fst (send_message_core disp env d opts))"
  using db_wf_resolve_conversation [of d env opts]
  by (auto simp: send_message_core_def split: prod.splits sum.splits
           intro: db_wf_route_message dest: db_wf_create_message [rotated])

text \<open>\<open>sendMessage\<close> writes only in its core; the wait reads.\<close>
lemma send_message_store:
  "send_message disp env d opts = Some (d', r) \<Longrightarrow> d' = fst (send_message_core disp env d opts)"
  by (auto simp: send_message_def split: prod.splits sum.splits if_splits)

lemma send_message_terminates: "\<exists>r. send_message disp env d opts = Some r"
  using wait_loop_terminates [of 800 "env_observe env"]
  by (auto simp: send_message_def wait_for_response_def split: prod.splits sum.splits)

lemma resolve_conversation_new:
  assumes "\<not> js_truthy (so_conversation_id opts)"
    and "env_conversation_uuid env \<notin> conv_id ` set (db_conversations d)"
  shows "resolve_conversation env d opts =
         (d\<lparr>db_conversations := db_conversations d @ [new_conversation env opts]\<rparr>,
          Inr (new_conversation env opts))"
  using assms
  by (auto simp: resolve_conversation_def create_conversation_def new_conversation_def js_truthy_def
           Let_def split: option.splits)

lemma resolve_conversation_existing:
  assumes "so_conversation_id opts = Some cid" "cid \<noteq> []" "get_conversation d cid = Some c"
  shows "resolve_conversation env d opts = (d, Inr c)"
  using assms by (simp add: resolve_conversation_def)

lemma get_conversation_SomeD:
  "get_conversation d cid = Some c \<Longrightarrow> conv_id c = cid \<and> c \<in> set (db_conversations d)"
  by (auto simp: get_conversation_def find_Some_iff)

lemma create_message_fresh:
  assumes "mid \<notin> msg_id ` set (db_messages d)" "cm_conversation_id i \<in> conv_id ` set (db_conversations d)"
    and "set_option (cm_response_to_id i) \<subseteq> msg_id ` set (db_messages d)"
  shows "create_message d mid i now =
         Inr (d\<lparr>db_messages := db_messages d @ [message_of_input mid i now],
                db_conversations := map (\<lambda>c. if conv_id c = cm_conversation_id i
                                               then c\<lparr>conv_updated_at := now\<rparr> else c) (db_conversations d)\<rparr>,
              message_of_input mid i now)"
  using assms by (auto simp: create_message_def Let_def split: option.splits)

lemma get_message_snoc_found:
  "db_messages d' = db_messages d @ [m] \<Longrightarrow> get_message d mid = Some x \<Longrightarrow> get_message d' mid = Some x"
  by (simp add: get_message_def find_append_found)

lemma update_message_status_other_tables [simp]:
  "db_queue (update_message_status d mid st now) = db_queue d"
  "db_invocations (update_message_status d mid st now) = db_invocations d"
  "db_conversations (update_message_status d mid st now) = db_conversations d"
  "db_clients (update_message_status d mid st now) = db_clients d"
  by (simp_all add: update_message_status_def)

lemma msg_id_message_of_input [simp]: "msg_id (message_of_input mid i now) = mid"
  by (simp add: message_of_input_def)

lemma get_message_update_status:
  "get_message (update_message_status d mid st now) mid' =
   map_option (\<lambda>m. if msg_id m = mid then set_message_status st now m else m) (get_message d mid')"
  unfolding get_message_def update_message_status_def
  by (simp add: find_key_cond_update set_message_status_def)

lemma get_message_snoc_fresh:
  "db_messages d' = db_messages d @ [m] \<Longrightarrow> msg_id m \<notin> msg_id ` set (db_messages d) \<Longrightarrow>
   get_message d' (msg_id m) = Some m"
proof -
  assume eq: "db_messages d' = db_messages d @ [m]" and "msg_id m \<notin> msg_id ` set (db_messages d)"
  then have "\<forall>x \<in> set (db_messages d). \<not> msg_id x = msg_id m" by (metis image_eqI)
  with eq show ?thesis by (simp add: get_message_def find_append_skip)
qed

text \<open>The request stored, whichever way the conversation was found: the routing then
  works on a store that has the new message appended and nothing else changed but the
  conversation rows.\<close>
lemma send_core_route:
  assumes r: "resolve_conversation env d opts = (d1, Inr c)" and c: "conv_id c \<in> conv_id ` set (db_conversations d1)"
    and fm: "env_message_uuid env \<notin> msg_id ` set (db_messages d1)"
  shows "\<exists>d2. send_message_core disp env d opts =
               route_message disp env d2 opts c (message_of_input (env_message_uuid env) (request_input opts c) (env_now env)) \<and>
             db_messages d2 = db_messages d1 @ [message_of_input (env_message_uuid env) (request_input opts c) (env_now env)] \<and>
             db_queue d2 = db_queue d1 \<and> db_invocations d2 = db_invocations d1 \<and> db_clients d2 = db_clients d1 \<and>
             map conv_id (db_conversations d2) = map conv_id (db_conversations d1)"
proof -
  let ?m = "message_of_input (env_message_uuid env) (request_input opts c) (env_now env)"
  let ?d2 = "d1\<lparr>db_messages := db_messages d1 @ [?m],
                db_conversations := map (\<lambda>x. if conv_id x = conv_id c then x\<lparr>conv_updated_at := env_now env\<rparr> else x)
                                        (db_conversations d1)\<rparr>"
  have "send_message_core disp env d opts = route_message disp env ?d2 opts c ?m"
    using r c fm by (simp add: send_message_core_def create_message_fresh request_input_def)
  then show ?thesis by (intro exI [of _ ?d2]) simp
qed

lemma resolve_new_facts:
  assumes "\<not> js_truthy (so_conversation_id opts)"
    and "env_conversation_uuid env \<notin> conv_id ` set (db_conversations d)"
  shows "resolve_conversation env d opts = (d\<lparr>db_conversations := db_conversations d @ [new_conversation env opts]\<rparr>,
                                            Inr (new_conversation env opts)) \<and>
         conv_id (new_conversation env opts) \<in>
           conv_id ` set (db_conversations (d\<lparr>db_conversations := db_conversations d @ [new_conversation env opts]\<rparr>))"
  using resolve_conversation_new [OF assms] by simp

section \<open>Sending\<close>

section \<open>Waiting for a response\<close>

text \<open>C15. \<open>waitForResponse\<close> always returns: the interval starts at 100 ms and never
  drops, so the elapsed time reaches the timeout.\<close>
theorem wait_for_response_terminates: "\<exists>r. wait_for_response obs mid timeout_ms = Some r"
  unfolding wait_for_response_def by (rule wait_loop_terminates) simp

text \<open>C16. A response that \<open>waitForResponse\<close> returns answers the awaited message and
  was in the store at one of its polls before the timeout.\<close>
theorem wait_for_response_sound:
  assumes "wait_for_response obs mid timeout_ms = Some (Some r)"
  shows "msg_response_to_id r = Some mid \<and> (\<exists>k < 8 * timeout_ms. r \<in> set (db_messages (obs k)))"
  using wait_loop_sound [OF assms [unfolded wait_for_response_def]] by blast

theorem wait_for_response_sound_witness:
  "wait_for_response (\<lambda>_. example_answered_db) ''m1'' 1000 = Some (Some example_answer) \<and>
   msg_response_to_id example_answer = Some ''m1'' \<and>
   (\<exists>k < 8 * (1000::nat). example_answer \<in> set (db_messages ((\<lambda>_::nat. example_answered_db) k)))"
proof -
  have h: "wait_for_response (\<lambda>_. example_answered_db) ''m1'' 1000 = Some (Some example_answer)"
    by code_simp
  show ?thesis using wait_for_response_sound [OF h] h by blast
qed

text \<open>C17. A response that is in the store from some moment on, at least one second
  (the longest poll interval) before the timeout, is found: the polls are never more than
  a second apart.\<close>
theorem wait_for_response_live:
  assumes "\<forall>k \<ge> s. get_response_to_message (obs k) mid \<noteq> None" "s + 8000 \<le> 8 * timeout_ms"
  shows "\<exists>r. wait_for_response obs mid timeout_ms = Some (Some r)"
  unfolding wait_for_response_def using assms by (intro wait_loop_live) simp_all

theorem wait_for_response_live_witness:
  "4000 + 8000 \<le> 8 * (1500::nat) \<and>
   (\<exists>r. wait_for_response (\<lambda>k::nat. if k < 4000 then example_invoke_db else example_answered_db) ''m1'' 1500
          = Some (Some r))"
proof -
  have a: "get_response_to_message example_answered_db ''m1'' \<noteq> None" by code_simp
  then have h: "\<forall>k \<ge> 4000. get_response_to_message
        ((\<lambda>k::nat. if k < 4000 then example_invoke_db else example_answered_db) k) ''m1'' \<noteq> None"
    by simp
  show ?thesis using wait_for_response_live [OF h] by simp
qed

section \<open>Routing\<close>

text \<open>C5. Sending to a target the registry has online, in a new conversation, stores
  the message and marks it delivered, with no queue row and no invocation; the result
  names the new conversation, created by the sender, and carries no response.\<close>
theorem send_online_delivered:
  assumes on: "target_online disp (so_target opts)"
    and new: "\<not> js_truthy (so_conversation_id opts)"
    and fc: "env_conversation_uuid env \<notin> conv_id ` set (db_conversations d)"
    and fm: "env_message_uuid env \<notin> msg_id ` set (db_messages d)"
  shows "\<exists>d' res. send_message_core disp env d opts = (d', Inr res) \<and>
     sr_conversation res = new_conversation env opts \<and>
     conv_created_by (sr_conversation res) = so_sender opts \<and> sr_response res = None \<and>
     map_option msg_status (get_message d' (env_message_uuid env)) = Some Delivered \<and>
     db_queue d' = db_queue d \<and> db_invocations d' = db_invocations d"
proof -
  from resolve_new_facts [OF new fc] have r: "resolve_conversation env d opts =
      (d\<lparr>db_conversations := db_conversations d @ [new_conversation env opts]\<rparr>, Inr (new_conversation env opts))"
    and c: "conv_id (new_conversation env opts) \<in>
      conv_id ` set (db_conversations (d\<lparr>db_conversations := db_conversations d @ [new_conversation env opts]\<rparr>))"
    by simp_all
  let ?m = "message_of_input (env_message_uuid env) (request_input opts (new_conversation env opts)) (env_now env)"
  from send_core_route [OF r c] fm obtain d2 where
    core: "send_message_core disp env d opts = route_message disp env d2 opts (new_conversation env opts) ?m"
    and msgs: "db_messages d2 = db_messages d @ [?m]" and q: "db_queue d2 = db_queue d"
    and i: "db_invocations d2 = db_invocations d"
    by auto
  have g: "get_message d2 (env_message_uuid env) = Some ?m"
    using get_message_snoc_fresh [OF msgs] fm by simp
  show ?thesis
    using core on g q i
    by (simp add: route_message_def get_message_update_status set_message_status_def new_conversation_def)
qed

text \<open>C6. Sending to Claude while the registry does not have it online, in a new
  conversation, stores the message as pending and appends one queue row for it: target
  Claude, the priority of the message as a number (urgent 2, high 1, normal 0), no
  attempts yet, five allowed. No invocation is recorded.\<close>
theorem send_offline_claude_enqueued:
  assumes wf: "db_wf d" and off: "\<not> target_online disp Claude" and t: "so_target opts = Claude"
    and new: "\<not> js_truthy (so_conversation_id opts)"
    and fc: "env_conversation_uuid env \<notin> conv_id ` set (db_conversations d)"
    and fm: "env_message_uuid env \<notin> msg_id ` set (db_messages d)"
  shows "\<exists>d' res row. send_message_core disp env d opts = (d', Inr res) \<and> sr_response res = None \<and>
     map_option msg_status (get_message d' (env_message_uuid env)) = Some Pending \<and>
     db_queue d' = db_queue d @ [row] \<and> q_message_id row = env_message_uuid env \<and> q_target row = Claude \<and>
     q_priority row = queue_priority (so_priority opts) \<and> q_attempts row = 0 \<and> q_max_attempts row = 5 \<and>
     db_invocations d' = db_invocations d"
proof -
  from resolve_new_facts [OF new fc] have r: "resolve_conversation env d opts =
      (d\<lparr>db_conversations := db_conversations d @ [new_conversation env opts]\<rparr>, Inr (new_conversation env opts))"
    and c: "conv_id (new_conversation env opts) \<in>
      conv_id ` set (db_conversations (d\<lparr>db_conversations := db_conversations d @ [new_conversation env opts]\<rparr>))"
    by simp_all
  let ?m = "message_of_input (env_message_uuid env) (request_input opts (new_conversation env opts)) (env_now env)"
  from send_core_route [OF r c] fm obtain d2 where
    core: "send_message_core disp env d opts = route_message disp env d2 opts (new_conversation env opts) ?m"
    and msgs: "db_messages d2 = db_messages d @ [?m]" and q: "db_queue d2 = db_queue d"
    and i: "db_invocations d2 = db_invocations d"
    by auto
  have g: "get_message d2 (env_message_uuid env) = Some ?m"
    using get_message_snoc_fresh [OF msgs] fm by simp
  have notq: "env_message_uuid env \<notin> q_message_id ` set (db_queue d2)"
    using wf fm q by (force simp: db_wf_def list_all_iff)
  have inm: "env_message_uuid env \<in> msg_id ` set (db_messages d2)"
    using msgs by simp
  have st: "msg_status ?m = Pending" by (simp add: message_of_input_def)
  show ?thesis
    using core off t g notq inm q i st
    by (simp add: route_message_def enqueue_message_def get_message_def Let_def)
qed

text \<open>The other way a send fails: a conversation id that is given (non-empty) but
  not in the store throws \<open>Conversation not found\<close> before anything is written.\<close>
theorem send_conversation_not_found:
  assumes "so_conversation_id opts = Some cid" "cid \<noteq> []" "get_conversation d cid = None"
  shows "send_message_core disp env d opts = (d, Inl (Conversation_Not_Found cid))"
  using assms by (simp add: send_message_core_def resolve_conversation_def)

text \<open>C31. The dispatcher does not look at the status of a conversation it is given: a
  message to an online target is stored and delivered in any existing conversation,
  completed and archived ones included.\<close>
theorem send_into_any_conversation:
  assumes on: "target_online disp (so_target opts)"
    and given: "so_conversation_id opts = Some cid" "cid \<noteq> []" "get_conversation d cid = Some c"
    and fm: "env_message_uuid env \<notin> msg_id ` set (db_messages d)"
  shows "\<exists>d' res m. send_message_core disp env d opts = (d', Inr res) \<and> sr_conversation res = c \<and>
     get_message d' (env_message_uuid env) = Some m \<and> msg_conversation_id m = cid \<and> msg_status m = Delivered"
proof -
  have r: "resolve_conversation env d opts = (d, Inr c)"
    using given by (rule resolve_conversation_existing)
  have cc: "conv_id c = cid" "conv_id c \<in> conv_id ` set (db_conversations d)"
    using get_conversation_SomeD [OF given(3)] by auto
  let ?m = "message_of_input (env_message_uuid env) (request_input opts c) (env_now env)"
  from send_core_route [OF r cc(2)] fm obtain d2 where
    core: "send_message_core disp env d opts = route_message disp env d2 opts c ?m"
    and msgs: "db_messages d2 = db_messages d @ [?m]"
    by auto
  have g: "get_message d2 (env_message_uuid env) = Some ?m"
    using get_message_snoc_fresh [OF msgs] fm by simp
  show ?thesis
    using core on g cc
    by (simp add: route_message_def get_message_update_status set_message_status_def
                  message_of_input_def request_input_def)
qed

text \<open>Storing a reply under a fresh id, for a request stored in an existing conversation:
  the reply reads back, the request is still there, and the queue and the invocations
  are untouched.\<close>
lemma store_response_fresh:
  assumes fr: "env_response_uuid env \<notin> msg_id ` set (db_messages d)"
    and c: "conv_id c \<in> conv_id ` set (db_conversations d)"
    and gm: "get_message d (msg_id m) = Some m"
    and r: "r = message_of_input (env_response_uuid env)
             \<lparr>cm_conversation_id = conv_id c, cm_sender = so_target opts, cm_target = so_sender opts,
              cm_content = content, cm_message_type = Some (get_response_type (so_message_type opts)),
              cm_priority = None, cm_response_to_id = Some (msg_id m), cm_metadata = None\<rparr> (env_now env)"
  shows "\<exists>d3. store_response env d opts c m content =
           (update_message_status d3 (msg_id m) Responded (env_now env), Inr r) \<and>
           get_message d3 (env_response_uuid env) = Some r \<and> get_message d3 (msg_id m) = Some m \<and>
           db_queue d3 = db_queue d \<and> db_invocations d3 = db_invocations d"
proof -
  have mi: "msg_id m \<in> msg_id ` set (db_messages d)" using gm by (auto dest: get_message_Some)
  let ?d3 = "d\<lparr>db_messages := db_messages d @ [r],
               db_conversations := map (\<lambda>x. if conv_id x = conv_id c then x\<lparr>conv_updated_at := env_now env\<rparr> else x)
                                       (db_conversations d)\<rparr>"
  have "store_response env d opts c m content =
          (update_message_status ?d3 (msg_id m) Responded (env_now env), Inr r)"
    using create_message_fresh [OF fr _ _, of _ "env_now env"] c mi
    by (simp add: store_response_def r)
  moreover have "get_message ?d3 (env_response_uuid env) = Some r"
    using get_message_snoc_fresh [of ?d3 d r] fr by (simp add: r message_of_input_def)
  moreover have "get_message ?d3 (msg_id m) = Some m"
    using get_message_snoc_found [of ?d3 d r, OF _ gm] by simp
  ultimately show ?thesis by auto
qed

text \<open>C7. Sending to Codex while the registry does not have it online, in a new
  conversation, with the persona left to \<open>selectAgent\<close>: when the Codex MCP server
  answers with a non-empty reply, the reply is stored as a message from Codex back to the
  sender, answering the request, with the response type of the request; the request is
  marked responded; the result reports the selected persona and the MCP invocation and
  carries the response. No queue row and no invocation row are written.\<close>
theorem send_offline_codex_mcp_reply:
  assumes en: "disp_codex_mcp_enabled disp" and off: "\<not> target_online disp Codex"
    and t: "so_target opts = Codex" and na: "so_agent opts = None"
    and new: "\<not> js_truthy (so_conversation_id opts)"
    and fc: "env_conversation_uuid env \<notin> conv_id ` set (db_conversations d)"
    and fm: "env_message_uuid env \<notin> msg_id ` set (db_messages d)"
    and fr: "env_response_uuid env \<notin> msg_id ` set (db_messages d)" "env_response_uuid env \<noteq> env_message_uuid env"
    and reply: "\<forall>p. env_mcp_send env p (env_message_uuid env) (select_agent (so_content opts)) = Some reply"
      "reply \<noteq> []"
  shows "\<exists>d' res r. send_message_core disp env d opts = (d', Inr res) \<and>
     sr_selected_agent res = Some (persona_name (select_agent (so_content opts))) \<and>
     sr_invoked_via_mcp res = Some True \<and> sr_response res = Some r \<and>
     msg_response_to_id r = Some (env_message_uuid env) \<and> msg_content r = reply \<and>
     msg_sender r = Codex \<and> msg_target r = so_sender opts \<and>
     msg_type r = get_response_type (so_message_type opts) \<and>
     get_message d' (env_response_uuid env) = Some r \<and>
     map_option msg_status (get_message d' (env_message_uuid env)) = Some Responded \<and>
     db_queue d' = db_queue d \<and> db_invocations d' = db_invocations d"
proof -
  let ?c = "new_conversation env opts"
  from resolve_new_facts [OF new fc] have r: "resolve_conversation env d opts =
      (d\<lparr>db_conversations := db_conversations d @ [?c]\<rparr>, Inr ?c)"
    and c: "conv_id ?c \<in> conv_id ` set (db_conversations (d\<lparr>db_conversations := db_conversations d @ [?c]\<rparr>))"
    by simp_all
  let ?m = "message_of_input (env_message_uuid env) (request_input opts ?c) (env_now env)"
  from send_core_route [OF r c] fm obtain d2 where
    core: "send_message_core disp env d opts = route_message disp env d2 opts ?c ?m"
    and msgs: "db_messages d2 = db_messages d @ [?m]" and q: "db_queue d2 = db_queue d"
    and i: "db_invocations d2 = db_invocations d"
    and cs: "map conv_id (db_conversations d2) = map conv_id (db_conversations d @ [?c])"
    by auto
  have c2: "conv_id ?c \<in> conv_id ` set (db_conversations d2)"
    using arg_cong [OF cs, of set] by (simp add: image_iff)
  have gm: "get_message d2 (env_message_uuid env) = Some ?m"
    using get_message_snoc_fresh [OF msgs] fm by simp
  let ?r = "message_of_input (env_response_uuid env)
             \<lparr>cm_conversation_id = conv_id ?c, cm_sender = so_target opts, cm_target = so_sender opts,
              cm_content = reply, cm_message_type = Some (get_response_type (so_message_type opts)),
              cm_priority = None, cm_response_to_id = Some (msg_id ?m), cm_metadata = None\<rparr> (env_now env)"
  have fr2: "env_response_uuid env \<notin> msg_id ` set (db_messages d2)"
    using fr msgs by (auto simp: message_of_input_def)
  have gm': "get_message d2 (msg_id ?m) = Some ?m" using gm by (simp add: message_of_input_def)
  obtain d3 where sr: "store_response env d2 opts ?c ?m reply =
                         (update_message_status d3 (env_message_uuid env) Responded (env_now env), Inr ?r)"
    and g3r: "get_message d3 (env_response_uuid env) = Some ?r"
    and g3m: "get_message d3 (env_message_uuid env) = Some ?m"
    and q3: "db_queue d3 = db_queue d2" and i3: "db_invocations d3 = db_invocations d2"
    using store_response_fresh [OF fr2 c2 gm' refl, of opts reply] by (auto simp: message_of_input_def)
  have tr: "try_codex_mcp_server disp (env_mcp_send env) (so_content opts) ctx (env_message_uuid env)
              (select_agent (so_content opts)) = Some reply" for ctx
    using en reply by (simp add: try_codex_mcp_server_def Let_def)
  show ?thesis
    using core off t na sr tr g3r g3m fr q i q3 i3
    by (simp add: route_message_def codex_tiers_def Let_def get_message_update_status
                  set_message_status_def message_of_input_def)
qed

section \<open>The conversation context\<close>

lemma length_filter_imp:
  "(\<And>x. P x \<Longrightarrow> Q x) \<Longrightarrow> length (filter P xs) \<le> length (filter Q xs)"
  by (induction xs) auto

lemma sorted_take_key_bound:
  assumes srt: "sorted (map f xs)" and dst: "distinct xs" and mem: "m \<in> set (take j xs)"
  shows "length (filter (\<lambda>x. f x < f m) xs) < j"
proof -
  from mem obtain k where k: "k < length xs" "k < j" "xs ! k = m"
    by (auto simp: in_set_conv_nth)
  have sub: "{x \<in> set xs. f x < f m} \<subseteq> set (take k xs)"
  proof
    fix x assume x: "x \<in> {x \<in> set xs. f x < f m}"
    then obtain i where i: "i < length xs" "xs ! i = x" by (auto simp: in_set_conv_nth)
    have "i < k"
    proof (rule ccontr)
      assume "\<not> i < k"
      then have "f (xs ! k) \<le> f (xs ! i)"
        using srt i(1) by (auto simp: sorted_iff_nth_mono)
      then have "f m \<le> f x" using i k by simp
      moreover have "f x < f m" using x by simp
      ultimately show False by simp
    qed
    with i show "x \<in> set (take k xs)" by (auto simp: in_set_conv_nth)
  qed
  have "length (filter (\<lambda>x. f x < f m) xs) = card {x \<in> set xs. f x < f m}"
    using dst by (simp add: distinct_length_filter Int_commute Collect_conj_eq)
  also have "\<dots> \<le> card (set (take k xs))" using sub by (rule card_mono [OF finite_set])
  also have "\<dots> \<le> k" using card_length [of "take k xs"] k by simp
  finally show ?thesis using k by simp
qed

text \<open>C32. The context the Codex tiers receive is built from the oldest twenty messages of
  the conversation, not the latest: when a message has twenty earlier messages in its
  conversation, the context is the rendering of twenty messages of that conversation that
  are all strictly older than it, so neither it nor anything newer (in particular the
  request just stored) is part of it.\<close>
theorem context_omits_newest:
  assumes wf: "db_wf d" and m: "m \<in> set (db_messages d)" "msg_conversation_id m = cid"
    and older: "20 \<le> length (filter (\<lambda>x. msg_conversation_id x = cid \<and> msg_created_at x < msg_created_at m)
                                    (db_messages d))"
  shows "\<exists>ms :: message list. build_conversation_context d cid =
                js_join (nl @ nl) (map (\<lambda>x. ''['' @ client_name (msg_sender x) @ '']: '' @ msg_content x) ms) \<and>
              length ms = 20 \<and>
              (\<forall>x \<in> set ms. msg_conversation_id x = cid \<and> msg_created_at x < msg_created_at m)"
proof -
  let ?xs = "sort_key msg_created_at (filter (\<lambda>x. msg_conversation_id x = cid) (db_messages d))"
  let ?ms = "get_conversation_messages d cid 20 0"
  have ms: "?ms = take 20 ?xs" by (simp add: get_conversation_messages_def)
  have dst: "distinct ?xs" using wf by (simp add: db_wf_def distinct_map)
  have srt: "sorted (map msg_created_at ?xs)" by simp
  have cnt: "length (filter (\<lambda>x. msg_created_at x < t) ?xs) =
             length (filter (\<lambda>x. msg_conversation_id x = cid \<and> msg_created_at x < t) (db_messages d))" for t
    by (simp add: filter_sort filter_filter conj_commute)
  have len: "length ?ms = 20"
  proof -
    have "length (filter (\<lambda>x. msg_created_at x < msg_created_at m) ?xs) \<le> length ?xs"
      by (rule length_filter_le)
    then have "20 \<le> length ?xs" using older cnt [of "msg_created_at m"] by simp
    then show ?thesis by (simp add: ms)
  qed
  have old: "msg_created_at x < msg_created_at m" if x: "x \<in> set ?ms" for x
  proof (rule ccontr)
    assume nlt: "\<not> msg_created_at x < msg_created_at m"
    have "length (filter (\<lambda>y. msg_created_at y < msg_created_at m) ?xs) \<le>
          length (filter (\<lambda>y. msg_created_at y < msg_created_at x) ?xs)"
      by (rule length_filter_imp) (use nlt in simp)
    also have "\<dots> < 20" using x by (intro sorted_take_key_bound [OF srt dst]) (simp add: ms)
    finally show False using older cnt [of "msg_created_at m"] by simp
  qed
  have conv: "msg_conversation_id x = cid" if "x \<in> set ?ms" for x
    using that by (auto simp: ms dest: in_set_takeD)
  have "?ms \<noteq> []" using len by auto
  then have "build_conversation_context d cid =
               js_join (nl @ nl) (map (\<lambda>x. ''['' @ client_name (msg_sender x) @ '']: '' @ msg_content x) ?ms)"
    by (simp add: build_conversation_context_def Let_def)
  then show ?thesis using len old conv by (intro exI [of _ ?ms] conjI ballI) auto
qed

section \<open>Witnesses\<close>

theorem send_online_delivered_witness:
  "target_online (new_dispatcher (Some (set_online empty_registry Codex ''s2'')) None)
     (so_target (example_opts Claude Codex ''hello'')) \<and>
   \<not> js_truthy (so_conversation_id (example_opts Claude Codex ''hello'')) \<and>
   env_conversation_uuid example_env \<notin> conv_id ` set (db_conversations example_invoke_db) \<and>
   env_message_uuid example_env \<notin> msg_id ` set (db_messages example_invoke_db) \<and>
   (\<exists>d' res. send_message_core (new_dispatcher (Some (set_online empty_registry Codex ''s2'')) None)
        example_env example_invoke_db (example_opts Claude Codex ''hello'') = (d', Inr res) \<and>
     sr_conversation res = new_conversation example_env (example_opts Claude Codex ''hello'') \<and>
     conv_created_by (sr_conversation res) = so_sender (example_opts Claude Codex ''hello'') \<and>
     sr_response res = None \<and>
     map_option msg_status (get_message d' (env_message_uuid example_env)) = Some Delivered \<and>
     db_queue d' = db_queue example_invoke_db \<and> db_invocations d' = db_invocations example_invoke_db)"
proof -
  have on: "target_online (new_dispatcher (Some (set_online empty_registry Codex ''s2'')) None)
     (so_target (example_opts Claude Codex ''hello''))" by code_simp
  have new: "\<not> js_truthy (so_conversation_id (example_opts Claude Codex ''hello''))" by code_simp
  have fc: "env_conversation_uuid example_env \<notin> conv_id ` set (db_conversations example_invoke_db)" by code_simp
  have fm: "env_message_uuid example_env \<notin> msg_id ` set (db_messages example_invoke_db)" by code_simp
  show ?thesis using send_online_delivered [OF on new fc fm] on new fc fm by blast
qed

theorem send_offline_claude_enqueued_witness:
  "db_wf example_invoke_db \<and> \<not> target_online (new_dispatcher None None) Claude \<and>
   so_target (example_opts Codex Claude ''ping'') = Claude \<and>
   \<not> js_truthy (so_conversation_id (example_opts Codex Claude ''ping'')) \<and>
   env_conversation_uuid example_env \<notin> conv_id ` set (db_conversations example_invoke_db) \<and>
   env_message_uuid example_env \<notin> msg_id ` set (db_messages example_invoke_db) \<and>
   (\<exists>d' res row. send_message_core (new_dispatcher None None) example_env example_invoke_db
        (example_opts Codex Claude ''ping'') = (d', Inr res) \<and> sr_response res = None \<and>
     map_option msg_status (get_message d' (env_message_uuid example_env)) = Some Pending \<and>
     db_queue d' = db_queue example_invoke_db @ [row] \<and> q_message_id row = env_message_uuid example_env \<and>
     q_target row = Claude \<and> q_priority row = queue_priority (so_priority (example_opts Codex Claude ''ping'')) \<and>
     q_attempts row = 0 \<and> q_max_attempts row = 5 \<and> db_invocations d' = db_invocations example_invoke_db)"
proof -
  have wf: "db_wf example_invoke_db" by code_simp
  have off: "\<not> target_online (new_dispatcher None None) Claude" by code_simp
  have t: "so_target (example_opts Codex Claude ''ping'') = Claude" by code_simp
  have new: "\<not> js_truthy (so_conversation_id (example_opts Codex Claude ''ping''))" by code_simp
  have fc: "env_conversation_uuid example_env \<notin> conv_id ` set (db_conversations example_invoke_db)" by code_simp
  have fm: "env_message_uuid example_env \<notin> msg_id ` set (db_messages example_invoke_db)" by code_simp
  show ?thesis using send_offline_claude_enqueued [OF wf off t new fc fm] wf off t new fc fm by blast
qed

theorem send_offline_codex_mcp_reply_witness:
  "disp_codex_mcp_enabled (new_dispatcher None None) \<and> \<not> target_online (new_dispatcher None None) Codex \<and>
   so_target (example_opts Claude Codex ''Why is X failing?'') = Codex \<and>
   so_agent (example_opts Claude Codex ''Why is X failing?'') = None \<and>
   \<not> js_truthy (so_conversation_id (example_opts Claude Codex ''Why is X failing?'')) \<and>
   env_conversation_uuid example_env \<notin> conv_id ` set (db_conversations example_invoke_db) \<and>
   env_message_uuid example_env \<notin> msg_id ` set (db_messages example_invoke_db) \<and>
   env_response_uuid example_env \<notin> msg_id ` set (db_messages example_invoke_db) \<and>
   env_response_uuid example_env \<noteq> env_message_uuid example_env \<and>
   (\<forall>p. env_mcp_send example_env p (env_message_uuid example_env)
          (select_agent (so_content (example_opts Claude Codex ''Why is X failing?''))) = Some ''pong'') \<and>
   ''pong'' \<noteq> [] \<and>
   persona_name (select_agent (so_content (example_opts Claude Codex ''Why is X failing?''))) = ''oracle'' \<and>
   (\<exists>d' res r. send_message_core (new_dispatcher None None) example_env example_invoke_db
        (example_opts Claude Codex ''Why is X failing?'') = (d', Inr res) \<and>
     sr_selected_agent res = Some (persona_name (select_agent (so_content (example_opts Claude Codex ''Why is X failing?'')))) \<and>
     sr_invoked_via_mcp res = Some True \<and> sr_response res = Some r \<and>
     msg_response_to_id r = Some (env_message_uuid example_env) \<and> msg_content r = ''pong'' \<and>
     msg_sender r = Codex \<and> msg_target r = so_sender (example_opts Claude Codex ''Why is X failing?'') \<and>
     msg_type r = get_response_type (so_message_type (example_opts Claude Codex ''Why is X failing?'')) \<and>
     get_message d' (env_response_uuid example_env) = Some r \<and>
     map_option msg_status (get_message d' (env_message_uuid example_env)) = Some Responded \<and>
     db_queue d' = db_queue example_invoke_db \<and> db_invocations d' = db_invocations example_invoke_db)"
proof -
  have en: "disp_codex_mcp_enabled (new_dispatcher None None)" by code_simp
  have off: "\<not> target_online (new_dispatcher None None) Codex" by code_simp
  have t: "so_target (example_opts Claude Codex ''Why is X failing?'') = Codex" by code_simp
  have na: "so_agent (example_opts Claude Codex ''Why is X failing?'') = None" by code_simp
  have new: "\<not> js_truthy (so_conversation_id (example_opts Claude Codex ''Why is X failing?''))" by code_simp
  have fc: "env_conversation_uuid example_env \<notin> conv_id ` set (db_conversations example_invoke_db)" by code_simp
  have fm: "env_message_uuid example_env \<notin> msg_id ` set (db_messages example_invoke_db)" by code_simp
  have fr: "env_response_uuid example_env \<notin> msg_id ` set (db_messages example_invoke_db)"
    "env_response_uuid example_env \<noteq> env_message_uuid example_env" by code_simp+
  have rp: "\<forall>p. env_mcp_send example_env p (env_message_uuid example_env)
          (select_agent (so_content (example_opts Claude Codex ''Why is X failing?''))) = Some ''pong''"
    "''pong'' \<noteq> []" by (simp_all add: example_env_def)
  have o: "persona_name (select_agent (so_content (example_opts Claude Codex ''Why is X failing?''))) = ''oracle''"
    by code_simp
  show ?thesis
    using send_offline_codex_mcp_reply [OF en off t na new fc fm fr rp] en off t na new fc fm fr rp o
    by blast
qed

theorem send_conversation_not_found_witness:
  "so_conversation_id ((example_opts Claude Codex ''hi'')\<lparr>so_conversation_id := Some ''zz''\<rparr>) = Some ''zz'' \<and>
   ''zz'' \<noteq> [] \<and> get_conversation example_invoke_db ''zz'' = None \<and>
   send_message_core (new_dispatcher None None) example_env example_invoke_db
     ((example_opts Claude Codex ''hi'')\<lparr>so_conversation_id := Some ''zz''\<rparr>) =
   (example_invoke_db, Inl (Conversation_Not_Found ''zz''))"
proof -
  have a: "so_conversation_id ((example_opts Claude Codex ''hi'')\<lparr>so_conversation_id := Some ''zz''\<rparr>) = Some ''zz''"
    by simp
  have b: "''zz'' \<noteq> []" by simp
  have c: "get_conversation example_invoke_db ''zz'' = None" by code_simp
  show ?thesis using send_conversation_not_found [OF a b c] a b c by simp
qed

theorem send_into_any_conversation_witness:
  "target_online (new_dispatcher (Some (set_online empty_registry Codex ''s2'')) None)
     (so_target ((example_opts Claude Codex ''hi'')\<lparr>so_conversation_id := Some ''c1''\<rparr>)) \<and>
   so_conversation_id ((example_opts Claude Codex ''hi'')\<lparr>so_conversation_id := Some ''c1''\<rparr>) = Some ''c1'' \<and>
   ''c1'' \<noteq> [] \<and>
   map_option conv_status (get_conversation example_archived_db ''c1'') = Some Conv_Archived \<and>
   env_message_uuid example_env \<notin> msg_id ` set (db_messages example_archived_db) \<and>
   (\<exists>c. get_conversation example_archived_db ''c1'' = Some c \<and>
     (\<exists>d' res m. send_message_core (new_dispatcher (Some (set_online empty_registry Codex ''s2'')) None)
         example_env example_archived_db ((example_opts Claude Codex ''hi'')\<lparr>so_conversation_id := Some ''c1''\<rparr>)
         = (d', Inr res) \<and> sr_conversation res = c \<and>
       get_message d' (env_message_uuid example_env) = Some m \<and> msg_conversation_id m = ''c1'' \<and>
       msg_status m = Delivered))"
proof -
  have on: "target_online (new_dispatcher (Some (set_online empty_registry Codex ''s2'')) None)
     (so_target ((example_opts Claude Codex ''hi'')\<lparr>so_conversation_id := Some ''c1''\<rparr>))" by code_simp
  have g: "so_conversation_id ((example_opts Claude Codex ''hi'')\<lparr>so_conversation_id := Some ''c1''\<rparr>) = Some ''c1''"
    "''c1'' \<noteq> []" by simp_all
  have st: "map_option conv_status (get_conversation example_archived_db ''c1'') = Some Conv_Archived" by code_simp
  then obtain c where c: "get_conversation example_archived_db ''c1'' = Some c" by auto
  have fm: "env_message_uuid example_env \<notin> msg_id ` set (db_messages example_archived_db)" by code_simp
  show ?thesis using send_into_any_conversation [OF on g c fm] on g st c fm by blast
qed

theorem context_omits_newest_witness:
  "\<exists>ms :: message list. build_conversation_context example_long_db ''c1'' =
          js_join (nl @ nl) (map (\<lambda>x. ''['' @ client_name (msg_sender x) @ '']: '' @ msg_content x) ms) \<and>
        length ms = 20 \<and>
        (\<forall>x \<in> set ms. msg_conversation_id x = ''c1'' \<and> msg_created_at x < msg_created_at example_newest)"
proof -
  have wf: "db_wf example_long_db" by code_simp
  have m: "example_newest \<in> set (db_messages example_long_db)" by code_simp
  have c: "msg_conversation_id example_newest = ''c1''" by (simp add: example_newest_def)
  have o: "20 \<le> length (filter (\<lambda>x. msg_conversation_id x = ''c1'' \<and> msg_created_at x < msg_created_at example_newest)
                         (db_messages example_long_db))" by code_simp
  show ?thesis by (rule context_omits_newest [OF wf m c o])
qed

end
