(* ===== verification/Memorantado.thy ===== *)
theory Memorantado
  imports Prelude
begin

text \<open>
  The knowledge-graph client (integrations/memorantado.ts, staged in
  src/src/mcp/identity.ts lines 709-875). Each call is the HTTP request it sends: the
  path under \<open>MEMORANTADO_URL\<close>, the query parameters and the JSON body as a record
  of the fields \<open>JSON.stringify\<close> writes. \<open>fetch\<close> itself is the outside world: its
  outcome is an argument (\<open>fetch_outcome\<close>), and how each call settles is a value of
  \<open>settled\<close>. A thrown fetch or a status that is not ok reads as no result, as the
  code's \<open>try\<close>/\<open>catch\<close> makes it; a reply body that does not parse is caught by
  the search but rejects the two writes, which return \<open>res.json()\<close> unawaited.
\<close>

section \<open>Requests\<close>

record entity_body =
  eb_project :: string
  eb_name :: string
  eb_entity_type :: string
  eb_observations :: "string list"

record memory_item_body =
  mb_project :: string
  mb_kind :: string
  mb_title :: "string option"
  mb_content :: string
  mb_tags :: "string list"
  mb_source :: "string option"

datatype memorantado_request =
    Post_Entity entity_body
  | Post_Memory_Item memory_item_body
  | Get_Memory_Items "(string \<times> string) list"
  | Get_Projects

text \<open>The path each request is sent to.\<close>
fun request_path :: "memorantado_request \<Rightarrow> string" where
  "request_path (Post_Entity _) = ''/api/entity''"
| "request_path (Post_Memory_Item _) = ''/api/memory-items''"
| "request_path (Get_Memory_Items _) = ''/api/memory-items''"
| "request_path Get_Projects = ''/api/projects''"

text \<open>\<open>createEntity\<close>: \<open>observations ?? []\<close>.\<close>
definition create_entity ::
  "string \<Rightarrow> string \<Rightarrow> string \<Rightarrow> string list option \<Rightarrow> memorantado_request" where
  "create_entity project name entity_type observations =
     Post_Entity \<lparr>eb_project = project, eb_name = name, eb_entity_type = entity_type,
                  eb_observations = (case observations of None \<Rightarrow> [] | Some obs \<Rightarrow> obs)\<rparr>"

text \<open>\<open>appendMemoryItem\<close>: \<open>tags ?? []\<close>; an absent title or source is left out of
  the body.\<close>
definition append_memory_item ::
  "string \<Rightarrow> string \<Rightarrow> string option \<Rightarrow> string \<Rightarrow> string list option \<Rightarrow> string option
   \<Rightarrow> memorantado_request" where
  "append_memory_item project kind title content tags source =
     Post_Memory_Item \<lparr>mb_project = project, mb_kind = kind, mb_title = title,
                       mb_content = content,
                       mb_tags = (case tags of None \<Rightarrow> [] | Some ts \<Rightarrow> ts), mb_source = source\<rparr>"

text \<open>\<open>searchMemoryItems\<close>: \<open>project\<close> and \<open>q\<close>, then \<open>kind\<close> when it is a
  non-empty string and \<open>limit\<close> when it is a non-zero number (both are tested for
  truthiness).\<close>
definition search_memory_items :: "string \<Rightarrow> string \<Rightarrow> string option \<Rightarrow> nat option \<Rightarrow> memorantado_request" where
  "search_memory_items project query kind limit =
     Get_Memory_Items ([(''project'', project), (''q'', query)] @
       (case kind of Some k \<Rightarrow> if k \<noteq> [] then [(''kind'', k)] else [] | None \<Rightarrow> []) @
       (case limit of Some n \<Rightarrow> if n \<noteq> 0 then [(''limit'', string_of_nat n)] else [] | None \<Rightarrow> []))"

text \<open>What a search returns: \<open>data.items ?? []\<close> of an ok reply, and the empty list
  on any failure.\<close>
definition search_result :: "'a list option option \<Rightarrow> 'a list" where
  "search_result reply = (case reply of Some (Some items) \<Rightarrow> items | _ \<Rightarrow> [])"

definition conversation_source :: "uuid \<Rightarrow> string" where
  "conversation_source cid = ''conversation:'' @ cid"

text \<open>\<open>syncConversationSummary\<close>; \<open>synced_at\<close> is \<open>new Date().toISOString()\<close>.\<close>
definition sync_conversation_summary ::
  "uuid \<Rightarrow> string \<Rightarrow> string \<Rightarrow> string \<Rightarrow> string \<Rightarrow> memorantado_request" where
  "sync_conversation_summary cid title summary project synced_at =
     create_entity project (conversation_source cid) ''conversation''
       (Some [''Title: '' @ title, ''Summary: '' @ summary, ''Synced at: '' @ synced_at])"

definition sync_research_findings :: "uuid \<Rightarrow> string \<Rightarrow> string \<Rightarrow> string \<Rightarrow> memorantado_request" where
  "sync_research_findings cid topic findings project =
     append_memory_item project ''research'' (Some topic) findings
       (Some [''claude-codex-bridge'', ''research'']) (Some (conversation_source cid))"

definition sync_code_review :: "uuid \<Rightarrow> string \<Rightarrow> string \<Rightarrow> string \<Rightarrow> memorantado_request" where
  "sync_code_review cid review_type review project =
     append_memory_item project ''code-review'' (Some (review_type @ '' Review'')) review
       (Some [''claude-codex-bridge'', ''code-review'', review_type]) (Some (conversation_source cid))"

text \<open>\<open>fetchMemorantado\<close>'s headers: the JSON content type and a \<open>Host\<close> header naming
  the loopback address with the port of \<open>MEMORANTADO_URL\<close> (the URL's \<open>port\<close>, the
  empty string when the URL gives none or the scheme's default, which reads as 3789).
  No call passes headers of its own.\<close>
definition memorantado_headers :: "string \<Rightarrow> (string \<times> string) list" where
  "memorantado_headers url_port =
     [(''Content-Type'', ''application/json''),
      (''Host'', ''127.0.0.1:'' @ (if url_port = [] then ''3789'' else url_port))]"

section \<open>Replies\<close>

text \<open>What \<open>fetch\<close> gives a call: a thrown error, or a response with its status and its
  body as \<open>res.json()\<close> reads it (\<open>None\<close> when the body is not JSON).\<close>
datatype 'a fetch_outcome = Fetch_Thrown | Fetch_Response nat "'a option"

text \<open>How an \<open>async\<close> call settles: with a value, or rejected.\<close>
datatype 'a settled = Resolved 'a | Rejected

text \<open>\<open>res.ok\<close>: a status in the range 200-299.\<close>
definition res_ok :: "nat \<Rightarrow> bool" where
  "res_ok status \<longleftrightarrow> 200 \<le> status \<and> status \<le> 299"

text \<open>\<open>createEntity\<close> and \<open>appendMemoryItem\<close> after the request: a thrown fetch and a
  status that is not ok give \<open>null\<close>; an ok reply gives \<open>res.json()\<close>, which is
  returned without \<open>await\<close>, so a body that does not parse rejects the call past its
  \<open>catch\<close>.\<close>
definition post_reply :: "'a fetch_outcome \<Rightarrow> 'a option settled" where
  "post_reply r =
     (case r of
        Fetch_Thrown \<Rightarrow> Resolved None
      | Fetch_Response status body \<Rightarrow>
          if \<not> res_ok status then Resolved None
          else (case body of None \<Rightarrow> Rejected | Some v \<Rightarrow> Resolved (Some v)))"

text \<open>\<open>searchMemoryItems\<close> awaits \<open>res.json()\<close> inside its \<open>try\<close>: every failure,
  an unparsable body included, gives the empty list.\<close>
definition search_reply :: "'a list option fetch_outcome \<Rightarrow> 'a list settled" where
  "search_reply r =
     Resolved (case r of
                 Fetch_Thrown \<Rightarrow> []
               | Fetch_Response status body \<Rightarrow> if res_ok status then search_result body else [])"

text \<open>\<open>isAvailable\<close>: \<open>GET /api/projects\<close> answered with an ok status.\<close>
definition is_available :: "'a fetch_outcome \<Rightarrow> bool" where
  "is_available r = (case r of Fetch_Thrown \<Rightarrow> False | Fetch_Response status _ \<Rightarrow> res_ok status)"

definition is_rejected :: "'a settled \<Rightarrow> bool" where
  "is_rejected r = (case r of Rejected \<Rightarrow> True | Resolved _ \<Rightarrow> False)"

section \<open>Lemmas\<close>

text \<open>The search never rejects; the writes reject exactly on an ok reply whose body is not
  JSON.\<close>
lemma memorantado_rejects:
  "\<not> is_rejected (search_reply r) \<and>
   (is_rejected (post_reply r') \<longleftrightarrow> (\<exists>status. r' = Fetch_Response status None \<and> res_ok status))"
  by (auto simp: search_reply_def post_reply_def is_rejected_def
           split: fetch_outcome.splits option.splits)

end
