(* ===== verification/Tool_Server.thy ===== *)
theory Tool_Server
  imports Dispatcher Shared_Context Memorantado
begin

text \<open>
  The MCP tool server (server.ts, staged in src/src/mcp/identity.ts lines 24-708,
  \<open>createMcpServer\<close>). The server holds the identity of its session
  (\<open>currentClientId\<close>) and a dispatcher; each tool is a handler from the store and its
  input to the new store and the tool's result. A result is the JSON value the handler
  passes to \<open>JSON.stringify\<close> (pretty-printing is not modelled), an \<open>isError\<close>
  envelope with a fixed message, an error thrown inside the handler's \<open>try\<close> (its
  \<open>String(err)\<close> is the envelope's message), or an input the zod schema rejects
  before the handler runs. Timestamps in results are the clock readings of the store.
  The knowledge-graph syncs a handler awaits are the requests it sends
  (theory \<open>Memorantado\<close>); \<open>settle_tool\<close> adds how they settle, a write that
  rejects turning the answer into the \<open>catch\<close>'s error. A call that waits for a reply is
  \<open>None\<close> exactly when the wait diverges.
\<close>

section \<open>Results\<close>

datatype tool_result =
    Tool_Ok json
  | Tool_Error string
  | Tool_Thrown dispatch_error
  | Tool_Invalid_Params

definition opt_str :: "string option \<Rightarrow> json" where
  "opt_str s = (case s of None \<Rightarrow> J_Null | Some x \<Rightarrow> J_Str x)"

definition opt_time :: "timestamp option \<Rightarrow> json" where
  "opt_time t = (case t of None \<Rightarrow> J_Null | Some x \<Rightarrow> J_Num (int x))"

definition time_json :: "timestamp \<Rightarrow> json" where
  "time_json t = J_Num (int t)"

text \<open>The literals the schema's \<open>CHECK\<close> clauses and the zod enums use.\<close>
fun status_literal :: "message_status \<Rightarrow> string" where
  "status_literal Pending = ''pending''"
| "status_literal Delivered = ''delivered''"
| "status_literal Read = ''read''"
| "status_literal Responded = ''responded''"

fun conv_status_literal :: "conversation_status \<Rightarrow> string" where
  "conv_status_literal Conv_Active = ''active''"
| "conv_status_literal Conv_Pending = ''pending''"
| "conv_status_literal Conv_Completed = ''completed''"
| "conv_status_literal Conv_Archived = ''archived''"

fun message_type_literal :: "message_type \<Rightarrow> string" where
  "message_type_literal Msg_Message = ''message''"
| "message_type_literal Research_Request = ''research_request''"
| "message_type_literal Research_Response = ''research_response''"
| "message_type_literal Review_Request = ''review_request''"
| "message_type_literal Review_Response = ''review_response''"
| "message_type_literal Context_Share = ''context_share''"
| "message_type_literal Msg_System = ''system''"

fun context_type_literal :: "context_type \<Rightarrow> string" where
  "context_type_literal Ctx_File = ''file''"
| "context_type_literal Ctx_Snippet = ''snippet''"
| "context_type_literal Ctx_Entity = ''entity''"
| "context_type_literal Ctx_Memory_Item = ''memory_item''"
| "context_type_literal Ctx_Url = ''url''"

section \<open>The server and its inputs\<close>

record mcp_server =
  srv_client :: "client_id option"
  srv_dispatcher :: dispatcher

text \<open>\<open>createMcpServer\<close>: the session's identity if known, and the dispatcher built
  from the same options; \<open>setClientId\<close> is the one mutator.\<close>
definition create_mcp_server ::
  "client_id option \<Rightarrow> client_registry option \<Rightarrow> bool option \<Rightarrow> mcp_server" where
  "create_mcp_server c reg enabled = \<lparr>srv_client = c, srv_dispatcher = new_dispatcher reg enabled\<rparr>"

definition set_client_id :: "client_id option \<Rightarrow> mcp_server \<Rightarrow> mcp_server" where
  "set_client_id c srv = srv\<lparr>srv_client := c\<rparr>"

datatype research_depth = Shallow | Medium | Deep

datatype review_type = Review_Code | Review_Architecture | Review_Security | Review_Performance
  | Review_General

fun depth_literal :: "research_depth \<Rightarrow> string" where
  "depth_literal Shallow = ''shallow''"
| "depth_literal Medium = ''medium''"
| "depth_literal Deep = ''deep''"

fun review_type_literal :: "review_type \<Rightarrow> string" where
  "review_type_literal Review_Code = ''code''"
| "review_type_literal Review_Architecture = ''architecture''"
| "review_type_literal Review_Security = ''security''"
| "review_type_literal Review_Performance = ''performance''"
| "review_type_literal Review_General = ''general''"

datatype list_status = List_Active | List_Completed | List_All

record send_message_input =
  smi_conversation_id :: "uuid option"
  smi_target :: client_id
  smi_content :: string
  smi_priority :: "message_priority option"
  smi_wait_for_response :: "bool option"
  smi_timeout_ms :: "nat option"
  smi_agent :: "agent_name option"

record research_input =
  rsi_target :: client_id
  rsi_topic :: string
  rsi_context :: "string option"
  rsi_depth :: "research_depth option"
  rsi_conversation_id :: "uuid option"
  rsi_sync :: "bool option"

record review_input =
  rvi_target :: client_id
  rvi_content :: string
  rvi_review_type :: review_type
  rvi_context :: "string option"
  rvi_conversation_id :: "uuid option"
  rvi_sync :: "bool option"

record share_input =
  shi_conversation_id :: "uuid option"
  shi_context_type :: context_type
  shi_content :: string
  shi_description :: "string option"

text \<open>The tool calls, one constructor per \<open>server.tool(...)\<close> registration, with the
  arguments a client passes (an omitted argument with a zod default is \<open>None\<close>).\<close>
datatype tool_call =
    Who_Am_I
  | Send_Message send_message_input
  | Get_Response uuid "nat option"
  | Get_History uuid "nat option" "nat option"
  | Create_Conversation "string option" "string option"
  | List_Conversations "list_status option" "nat option" "nat option"
  | Close_Conversation uuid "string option" "bool option"
  | Get_Conversation uuid
  | Delegate_Research research_input
  | Request_Review review_input
  | Share_Context share_input
  | Get_Shared_Context uuid
  | List_Shared_Context "uuid option" "context_type option" "nat option" "nat option"
  | Mark_Message_Read uuid

text \<open>What a call sees of the outside world besides the store: the dispatcher's
  environment (its clock and \<open>randomUUID()\<close> results), the id
  \<open>createSharedContext\<close> draws and the ISO date a summary sync stamps.\<close>
record tool_env =
  te_send :: send_env
  te_context_uuid :: uuid
  te_iso_now :: string

section \<open>Input validation (the zod schemas)\<close>

text \<open>\<open>z.number().int().positive().max(hi)\<close> on an optional argument.\<close>
definition positive_upto :: "nat \<Rightarrow> nat option \<Rightarrow> bool" where
  "positive_upto hi x = (case x of None \<Rightarrow> True | Some n \<Rightarrow> 0 < n \<and> n \<le> hi)"

text \<open>The checks of each tool's schema that the model can state: \<open>min(1)\<close> strings,
  bounded numbers. The \<open>uuid()\<close> format of ids is not checked (ids are abstract).\<close>
fun params_ok :: "tool_call \<Rightarrow> bool" where
  "params_ok (Send_Message i) \<longleftrightarrow> smi_content i \<noteq> [] \<and> positive_upto 300000 (smi_timeout_ms i)"
| "params_ok (Get_Response _ t) \<longleftrightarrow> positive_upto 300000 t"
| "params_ok (Get_History _ l _) \<longleftrightarrow> positive_upto 500 l"
| "params_ok (List_Conversations _ l _) \<longleftrightarrow> positive_upto 100 l"
| "params_ok (Delegate_Research i) \<longleftrightarrow> rsi_topic i \<noteq> []"
| "params_ok (Request_Review i) \<longleftrightarrow> rvi_content i \<noteq> []"
| "params_ok (Share_Context i) \<longleftrightarrow> shi_content i \<noteq> []"
| "params_ok (List_Shared_Context _ _ l _) \<longleftrightarrow> positive_upto 100 l"
| "params_ok _ \<longleftrightarrow> True"

section \<open>Identity and messaging tools\<close>

definition who_am_i :: "client_id option \<Rightarrow> json" where
  "who_am_i c =
     J_Obj [(''client_id'', J_Str (case c of None \<Rightarrow> ''unknown'' | Some x \<Rightarrow> client_name x)),
            (''description'', J_Str (case c of Some Claude \<Rightarrow> ''Claude Code CLI''
                                     | Some Codex \<Rightarrow> ''OpenAI Codex CLI''
                                     | None \<Rightarrow> ''Unknown client''))]"

definition send_opts_of :: "client_id \<Rightarrow> send_message_input \<Rightarrow> send_opts" where
  "send_opts_of sender i =
     \<lparr>so_conversation_id = smi_conversation_id i, so_sender = sender, so_target = smi_target i,
      so_content = smi_content i, so_message_type = None,
      so_priority = Some (with_default Prio_Normal (smi_priority i)),
      so_wait_for_response = with_default True (smi_wait_for_response i),
      so_timeout_ms = Some (with_default 60000 (smi_timeout_ms i)),
      so_use_output_schema = None, so_metadata = None, so_agent = smi_agent i\<rparr>"

definition send_result_json :: "send_result \<Rightarrow> json" where
  "send_result_json r =
     J_Obj [(''conversation_id'', J_Str (conv_id (sr_conversation r))),
            (''message_id'', J_Str (msg_id (sr_message r))),
            (''status'', J_Str (status_literal (msg_status (sr_message r)))),
            (''invoked'', J_Bool (with_default False (sr_invoked r))),
            (''invocation_error'', opt_str (sr_invocation_error r)),
            (''selected_agent'', opt_str (sr_selected_agent r)),
            (''response'', (case sr_response r of None \<Rightarrow> J_Null
               | Some m \<Rightarrow> J_Obj [(''id'', J_Str (msg_id m)), (''content'', J_Str (msg_content m)),
                                  (''created_at'', time_json (msg_created_at m))]))]"

text \<open>The handler of \<open>send_message\<close>: identity required, no message to oneself, then
  \<open>dispatcher.sendMessage\<close>; what it throws becomes the error envelope.\<close>
definition tool_send_message ::
  "mcp_server \<Rightarrow> send_env \<Rightarrow> db \<Rightarrow> send_message_input \<Rightarrow> (db \<times> tool_result) option" where
  "tool_send_message srv env d i =
     (case srv_client srv of
        None \<Rightarrow> Some (d, Tool_Error ''Unknown client'')
      | Some sender \<Rightarrow>
          if smi_target i = sender then Some (d, Tool_Error ''Cannot send message to self'')
          else map_option (\<lambda>(d', r). (d', case r of Inl e \<Rightarrow> Tool_Thrown e
                                               | Inr res \<Rightarrow> Tool_Ok (send_result_json res)))
                 (send_message (srv_dispatcher srv) env d (send_opts_of sender i)))"

definition tool_get_response :: "send_env \<Rightarrow> uuid \<Rightarrow> nat option \<Rightarrow> tool_result option" where
  "tool_get_response env mid timeout =
     map_option (\<lambda>w. case w of
         None \<Rightarrow> Tool_Ok (J_Obj [(''response'', J_Null), (''timeout'', J_Bool True)])
       | Some r \<Rightarrow> Tool_Ok (J_Obj [(''response'', J_Obj [
           (''id'', J_Str (msg_id r)), (''sender'', J_Str (client_name (msg_sender r))),
           (''content'', J_Str (msg_content r)),
           (''message_type'', J_Str (message_type_literal (msg_type r))),
           (''created_at'', time_json (msg_created_at r))])]))
       (wait_for_response (env_observe env) mid (with_default 30000 timeout))"

definition history_message_json :: "message \<Rightarrow> json" where
  "history_message_json m =
     J_Obj [(''id'', J_Str (msg_id m)), (''sender'', J_Str (client_name (msg_sender m))),
            (''target'', J_Str (client_name (msg_target m))), (''content'', J_Str (msg_content m)),
            (''message_type'', J_Str (message_type_literal (msg_type m))),
            (''status'', J_Str (status_literal (msg_status m))),
            (''created_at'', time_json (msg_created_at m))]"

definition tool_get_history :: "db \<Rightarrow> uuid \<Rightarrow> nat option \<Rightarrow> nat option \<Rightarrow> tool_result" where
  "tool_get_history d cid limit offset =
     (let ms = get_conversation_messages d cid (with_default 50 limit) (with_default 0 offset)
      in Tool_Ok (J_Obj [(''conversation_id'', J_Str cid),
                         (''messages'', J_Arr (map history_message_json ms)),
                         (''count'', J_Num (int (length ms)))]))"

text \<open>\<open>mark_message_read\<close>: identity required; the message must exist and the caller
  must be its target; then \<open>updateMessageStatus(..., "read")\<close>, whatever the
  message's status was.\<close>
definition tool_mark_message_read ::
  "client_id option \<Rightarrow> timestamp \<Rightarrow> db \<Rightarrow> uuid \<Rightarrow> db \<times> tool_result" where
  "tool_mark_message_read c now d mid =
     (case c of
        None \<Rightarrow> (d, Tool_Error ''Unknown client'')
      | Some cl \<Rightarrow>
          (case get_message d mid of
             None \<Rightarrow> (d, Tool_Error ''Message not found'')
           | Some m \<Rightarrow>
               if msg_target m \<noteq> cl
               then (d, Tool_Error ''Cannot mark message as read: not the target'')
               else (update_message_status d mid Read now,
                     Tool_Ok (J_Obj [(''message_id'', J_Str mid), (''status'', J_Str ''read'')]))))"


section \<open>Conversation tools\<close>

definition tool_create_conversation ::
  "client_id option \<Rightarrow> send_env \<Rightarrow> db \<Rightarrow> string option \<Rightarrow> string option \<Rightarrow> db \<times> tool_result" where
  "tool_create_conversation c env d title project =
     (case c of
        None \<Rightarrow> (d, Tool_Error ''Unknown client'')
      | Some cl \<Rightarrow>
          (case create_conversation d (env_conversation_uuid env) title project cl None (env_now env) of
             Inl e \<Rightarrow> (d, Tool_Thrown (Store_Error e))
           | Inr (d', cv) \<Rightarrow>
               (d', Tool_Ok (J_Obj [(''id'', J_Str (conv_id cv)), (''title'', opt_str (conv_title cv)),
                                    (''project'', opt_str (conv_project cv)),
                                    (''status'', J_Str (conv_status_literal (conv_status cv))),
                                    (''created_at'', time_json (conv_created_at cv))]))))"

definition list_status_filter :: "list_status \<Rightarrow> conversation_status option" where
  "list_status_filter st =
     (case st of List_Active \<Rightarrow> Some Conv_Active | List_Completed \<Rightarrow> Some Conv_Completed
      | List_All \<Rightarrow> None)"

definition tool_list_conversations ::
  "db \<Rightarrow> list_status option \<Rightarrow> nat option \<Rightarrow> nat option \<Rightarrow> tool_result" where
  "tool_list_conversations d st limit offset =
     (let cs = list_conversations d (list_status_filter (with_default List_Active st)) None
                 (with_default 20 limit) (with_default 0 offset)
      in Tool_Ok (J_Obj [(''conversations'', J_Arr (map (\<lambda>cv. J_Obj [
                            (''id'', J_Str (conv_id cv)), (''title'', opt_str (conv_title cv)),
                            (''project'', opt_str (conv_project cv)),
                            (''status'', J_Str (conv_status_literal (conv_status cv))),
                            (''created_by'', J_Str (client_name (conv_created_by cv))),
                            (''created_at'', time_json (conv_created_at cv)),
                            (''updated_at'', time_json (conv_updated_at cv))]) cs)),
                         (''count'', J_Num (int (length cs)))]))"

text \<open>\<open>close_conversation\<close>: the summary is synced when \<open>sync_to_memorantado\<close>
  (default true) holds and the summary is a non-empty string.\<close>
definition tool_close_conversation ::
  "tool_env \<Rightarrow> db \<Rightarrow> uuid \<Rightarrow> string option \<Rightarrow> bool option
   \<Rightarrow> db \<times> tool_result \<times> memorantado_request list" where
  "tool_close_conversation te d cid summary sync =
     (case close_conversation d cid summary (env_now (te_send te)) of
        (d', None) \<Rightarrow> (d', Tool_Error ''Conversation not found'', [])
      | (d', Some cv) \<Rightarrow>
          (let synced = with_default True sync \<and> js_truthy summary
           in (d', Tool_Ok (J_Obj [(''id'', J_Str (conv_id cv)),
                                   (''status'', J_Str (conv_status_literal (conv_status cv))),
                                   (''summary'', opt_str (conv_summary cv)),
                                   (''closed_at'', opt_time (conv_closed_at cv)),
                                   (''synced_to_memorantado'', J_Bool synced)]),
               if synced
               then [sync_conversation_summary (conv_id cv)
                       (with_default ''Untitled conversation'' (conv_title cv))
                       (with_default [] summary) (with_default ''tulayngmamamo'' (conv_project cv))
                       (te_iso_now te)]
               else [])))"

definition tool_get_conversation :: "db \<Rightarrow> uuid \<Rightarrow> tool_result" where
  "tool_get_conversation d cid =
     (case get_conversation d cid of
        None \<Rightarrow> Tool_Error ''Conversation not found''
      | Some cv \<Rightarrow> Tool_Ok (J_Obj [(''id'', J_Str (conv_id cv)), (''title'', opt_str (conv_title cv)),
          (''project'', opt_str (conv_project cv)),
          (''status'', J_Str (conv_status_literal (conv_status cv))),
          (''created_by'', J_Str (client_name (conv_created_by cv))),
          (''created_at'', time_json (conv_created_at cv)),
          (''updated_at'', time_json (conv_updated_at cv)),
          (''closed_at'', opt_time (conv_closed_at cv)), (''summary'', opt_str (conv_summary cv))]))"

section \<open>Delegation tools\<close>

definition additional_context :: "string option \<Rightarrow> string" where
  "additional_context ctx =
     (if js_truthy ctx then nl @ nl @ ''Additional context:'' @ nl @ with_default [] ctx else [])"

fun depth_tail :: "research_depth \<Rightarrow> string" where
  "depth_tail Shallow = nl @ nl @ ''Provide a brief overview and key points.''"
| "depth_tail Deep = nl @ nl @ ''Provide an in-depth analysis with examples, code snippets if relevant, pros/cons, and recommendations.''"
| "depth_tail Medium = nl @ nl @ ''Provide a comprehensive analysis with key findings and practical insights.''"

definition research_prompt :: "string \<Rightarrow> string option \<Rightarrow> research_depth \<Rightarrow> string" where
  "research_prompt topic ctx depth =
     ''Please research the following topic thoroughly:'' @ nl @ nl @ topic @ additional_context ctx @
     depth_tail depth"

text \<open>\<open>// Timeout based on depth: shallow=2min, medium=5min, deep=10min\<close>.\<close>
fun research_timeout :: "research_depth \<Rightarrow> nat" where
  "research_timeout Shallow = 120000"
| "research_timeout Deep = 600000"
| "research_timeout Medium = 300000"

text \<open>The message's \<open>metadata\<close> column: \<open>JSON.stringify\<close> of the object literal.\<close>
definition research_metadata :: "string \<Rightarrow> research_depth \<Rightarrow> string" where
  "research_metadata topic depth =
     ''{'' @ json_key ''topic'' @ json_quote topic @ '','' @ json_key ''depth'' @
     json_quote (depth_literal depth) @ ''}''"

definition research_opts :: "client_id \<Rightarrow> research_input \<Rightarrow> send_opts" where
  "research_opts sender i =
     (let depth = with_default Medium (rsi_depth i)
      in \<lparr>so_conversation_id = rsi_conversation_id i, so_sender = sender, so_target = rsi_target i,
          so_content = research_prompt (rsi_topic i) (rsi_context i) depth,
          so_message_type = Some Research_Request, so_priority = Some Prio_Normal,
          so_wait_for_response = True, so_timeout_ms = Some (research_timeout depth),
          so_use_output_schema = Some True, so_metadata = Some (research_metadata (rsi_topic i) depth),
          so_agent = None\<rparr>)"

text \<open>The reply of a delegation: the response when one came (with the sync flag) and
  \<open>completed\<close>, else \<open>null\<close> and \<open>pending\<close>.\<close>
definition reply_json :: "string \<Rightarrow> bool \<Rightarrow> send_result \<Rightarrow> (string \<times> json) list" where
  "reply_json key sync res =
     [(key, case sr_response res of None \<Rightarrow> J_Null
            | Some r \<Rightarrow> J_Obj [(''id'', J_Str (msg_id r)), (''content'', J_Str (msg_content r)),
                               (''synced_to_memorantado'', J_Bool sync)]),
      (''status'', J_Str (if sr_response res = None then ''pending'' else ''completed''))]"

definition research_reply ::
  "research_input \<Rightarrow> dispatch_error + send_result \<Rightarrow> tool_result \<times> memorantado_request list" where
  "research_reply i r =
     (case r of
        Inl e \<Rightarrow> (Tool_Thrown e, [])
      | Inr res \<Rightarrow>
          (let sync = with_default True (rsi_sync i); cv = sr_conversation res
           in (Tool_Ok (J_Obj ([(''conversation_id'', J_Str (conv_id cv)),
                                (''message_id'', J_Str (msg_id (sr_message res))),
                                (''topic'', J_Str (rsi_topic i)),
                                (''depth'', J_Str (depth_literal (with_default Medium (rsi_depth i))))]
                               @ reply_json ''findings'' sync res)),
               case sr_response res of
                 Some rm \<Rightarrow> if sync then [sync_research_findings (conv_id cv) (rsi_topic i)
                                          (msg_content rm) (with_default ''tulayngmamamo'' (conv_project cv))]
                           else []
               | None \<Rightarrow> [])))"

text \<open>\<open>delegate_research\<close>: identity required, no delegation to oneself, the research
  prompt sent with the depth's timeout and a forced output schema, and the findings
  synced when asked and a response came.\<close>
definition tool_delegate_research ::
  "mcp_server \<Rightarrow> send_env \<Rightarrow> db \<Rightarrow> research_input
   \<Rightarrow> (db \<times> tool_result \<times> memorantado_request list) option" where
  "tool_delegate_research srv env d i =
     (case srv_client srv of
        None \<Rightarrow> Some (d, Tool_Error ''Unknown client'', [])
      | Some sender \<Rightarrow>
          if rsi_target i = sender then Some (d, Tool_Error ''Cannot delegate research to self'', [])
          else map_option (\<lambda>(d', r). (d', research_reply i r))
                 (send_message (srv_dispatcher srv) env d (research_opts sender i)))"

fun review_focus :: "review_type \<Rightarrow> string" where
  "review_focus Review_Security = nl @ nl @ ''Focus on: potential vulnerabilities, injection risks, authentication/authorization issues, data exposure.''"
| "review_focus Review_Performance = nl @ nl @ ''Focus on: time complexity, space complexity, potential bottlenecks, optimization opportunities.''"
| "review_focus Review_Architecture = nl @ nl @ ''Focus on: design patterns, modularity, coupling, cohesion, scalability concerns.''"
| "review_focus Review_Code = nl @ nl @ ''Focus on: code quality, readability, maintainability, best practices, potential bugs.''"
| "review_focus Review_General = nl @ nl @ ''Provide a general review covering quality, correctness, and potential improvements.''"

definition review_prompt :: "review_type \<Rightarrow> string \<Rightarrow> string option \<Rightarrow> string" where
  "review_prompt ty content ctx =
     ''Please review the following '' @ (if ty = Review_Code then ''code'' else ''content'') @
     '' from a '' @ review_type_literal ty @ '' perspective:'' @ nl @ nl @ fence @ nl @ content @ nl @
     fence @ additional_context ctx @ review_focus ty"

definition review_opts :: "client_id \<Rightarrow> review_input \<Rightarrow> send_opts" where
  "review_opts sender i =
     \<lparr>so_conversation_id = rvi_conversation_id i, so_sender = sender, so_target = rvi_target i,
      so_content = review_prompt (rvi_review_type i) (rvi_content i) (rvi_context i),
      so_message_type = Some Review_Request, so_priority = Some Prio_Normal,
      so_wait_for_response = True, so_timeout_ms = Some 120000, so_use_output_schema = None,
      so_metadata = Some (''{'' @ json_key ''review_type'' @ json_quote (review_type_literal (rvi_review_type i)) @ ''}''),
      so_agent = None\<rparr>"

definition review_reply ::
  "review_input \<Rightarrow> dispatch_error + send_result \<Rightarrow> tool_result \<times> memorantado_request list" where
  "review_reply i r =
     (case r of
        Inl e \<Rightarrow> (Tool_Thrown e, [])
      | Inr res \<Rightarrow>
          (let sync = with_default True (rvi_sync i); cv = sr_conversation res
           in (Tool_Ok (J_Obj ([(''conversation_id'', J_Str (conv_id cv)),
                                (''message_id'', J_Str (msg_id (sr_message res))),
                                (''review_type'', J_Str (review_type_literal (rvi_review_type i)))]
                               @ reply_json ''review'' sync res)),
               case sr_response res of
                 Some rm \<Rightarrow> if sync then [sync_code_review (conv_id cv)
                                          (review_type_literal (rvi_review_type i)) (msg_content rm)
                                          (with_default ''tulayngmamamo'' (conv_project cv))]
                           else []
               | None \<Rightarrow> [])))"

definition tool_request_review ::
  "mcp_server \<Rightarrow> send_env \<Rightarrow> db \<Rightarrow> review_input
   \<Rightarrow> (db \<times> tool_result \<times> memorantado_request list) option" where
  "tool_request_review srv env d i =
     (case srv_client srv of
        None \<Rightarrow> Some (d, Tool_Error ''Unknown client'', [])
      | Some sender \<Rightarrow>
          if rvi_target i = sender then Some (d, Tool_Error ''Cannot request review from self'', [])
          else map_option (\<lambda>(d', r). (d', review_reply i r))
                 (send_message (srv_dispatcher srv) env d (review_opts sender i)))"

section \<open>Shared context tools\<close>

definition tool_share_context ::
  "client_id option \<Rightarrow> tool_env \<Rightarrow> db \<Rightarrow> share_input \<Rightarrow> db \<times> tool_result" where
  "tool_share_context c te d i =
     (case c of
        None \<Rightarrow> (d, Tool_Error ''Unknown client'')
      | Some cl \<Rightarrow>
          (case create_shared_context d (te_context_uuid te)
                  \<lparr>csi_conversation_id = shi_conversation_id i, csi_context_type = shi_context_type i,
                   csi_content = shi_content i, csi_description = shi_description i,
                   csi_shared_by = cl\<rparr> (env_now (te_send te)) of
             Inl e \<Rightarrow> (d, Tool_Thrown (Store_Error e))
           | Inr (d', sc) \<Rightarrow>
               (d', Tool_Ok (J_Obj [(''id'', J_Str (sc_id sc)),
                                    (''context_type'', J_Str (context_type_literal (sc_context_type sc))),
                                    (''conversation_id'', opt_str (sc_conversation_id sc)),
                                    (''shared_by'', J_Str (client_name (sc_shared_by sc))),
                                    (''description'', opt_str (sc_description sc))]))))"

definition tool_get_shared_context :: "db \<Rightarrow> uuid \<Rightarrow> tool_result" where
  "tool_get_shared_context d sid =
     (case get_shared_context d sid of
        None \<Rightarrow> Tool_Error ''Shared context not found''
      | Some sc \<Rightarrow> Tool_Ok (J_Obj [(''id'', J_Str (sc_id sc)),
          (''conversation_id'', opt_str (sc_conversation_id sc)),
          (''context_type'', J_Str (context_type_literal (sc_context_type sc))),
          (''content'', J_Str (sc_content sc)), (''description'', opt_str (sc_description sc)),
          (''shared_by'', J_Str (client_name (sc_shared_by sc))),
          (''memorantado_id'', case sc_memorantado_id sc of None \<Rightarrow> J_Null | Some n \<Rightarrow> J_Num n),
          (''created_at'', time_json (sc_created_at sc))]))"

text \<open>\<open>list_shared_context\<close>: by conversation when one is named, else by type when
  one is named, else all; a type given together with a conversation is not applied.\<close>
definition shared_context_query ::
  "db \<Rightarrow> uuid option \<Rightarrow> context_type option \<Rightarrow> nat option \<Rightarrow> nat option \<Rightarrow> shared_context list" where
  "shared_context_query d cid ty limit offset =
     (let l = Some (with_default 50 limit); k = Some (with_default 0 offset)
      in if js_truthy cid then list_shared_context_by_conversation d (with_default [] cid) l k
         else case ty of Some t \<Rightarrow> list_shared_context_by_type d t l k
                       | None \<Rightarrow> list_all_shared_context d l k)"

definition tool_list_shared_context ::
  "db \<Rightarrow> uuid option \<Rightarrow> context_type option \<Rightarrow> nat option \<Rightarrow> nat option \<Rightarrow> tool_result" where
  "tool_list_shared_context d cid ty limit offset =
     (let cs = shared_context_query d cid ty limit offset
      in Tool_Ok (J_Obj [(''contexts'', J_Arr (map (\<lambda>sc. J_Obj [
                            (''id'', J_Str (sc_id sc)), (''conversation_id'', opt_str (sc_conversation_id sc)),
                            (''context_type'', J_Str (context_type_literal (sc_context_type sc))),
                            (''description'', opt_str (sc_description sc)),
                            (''shared_by'', J_Str (client_name (sc_shared_by sc))),
                            (''created_at'', time_json (sc_created_at sc))]) cs)),
                         (''count'', J_Num (int (length cs)))]))"

section \<open>Dispatching a tool call\<close>

text \<open>One \<open>tools/call\<close>: the schema check, then the tool's handler. The result is
  the new store, the tool's result and the knowledge-graph requests it sent; \<open>None\<close>
  when a wait for a reply diverges.\<close>
definition call_tool ::
  "mcp_server \<Rightarrow> tool_env \<Rightarrow> db \<Rightarrow> tool_call \<Rightarrow> (db \<times> tool_result \<times> memorantado_request list) option" where
  "call_tool srv te d call =
     (if \<not> params_ok call then Some (d, Tool_Invalid_Params, [])
      else case call of
        Who_Am_I \<Rightarrow> Some (d, Tool_Ok (who_am_i (srv_client srv)), [])
      | Send_Message i \<Rightarrow>
          map_option (\<lambda>(d', r). (d', r, [])) (tool_send_message srv (te_send te) d i)
      | Get_Response mid t \<Rightarrow> map_option (\<lambda>r. (d, r, [])) (tool_get_response (te_send te) mid t)
      | Get_History cid l k \<Rightarrow> Some (d, tool_get_history d cid l k, [])
      | Create_Conversation t p \<Rightarrow>
          (case tool_create_conversation (srv_client srv) (te_send te) d t p of (d', r) \<Rightarrow> Some (d', r, []))
      | List_Conversations st l k \<Rightarrow> Some (d, tool_list_conversations d st l k, [])
      | Close_Conversation cid s sy \<Rightarrow> Some (tool_close_conversation te d cid s sy)
      | Get_Conversation cid \<Rightarrow> Some (d, tool_get_conversation d cid, [])
      | Delegate_Research i \<Rightarrow> tool_delegate_research srv (te_send te) d i
      | Request_Review i \<Rightarrow> tool_request_review srv (te_send te) d i
      | Share_Context i \<Rightarrow>
          (case tool_share_context (srv_client srv) te d i of (d', r) \<Rightarrow> Some (d', r, []))
      | Get_Shared_Context sid \<Rightarrow> Some (d, tool_get_shared_context d sid, [])
      | List_Shared_Context cid ty l k \<Rightarrow> Some (d, tool_list_shared_context d cid ty l k, [])
      | Mark_Message_Read mid \<Rightarrow>
          (case tool_mark_message_read (srv_client srv) (env_now (te_send te)) d mid of
             (d', r) \<Rightarrow> Some (d', r, [])))"

text \<open>A tool's answer once the knowledge-graph writes it awaits have settled (each write's
  reply is given by \<open>net\<close>). A write that rejects escapes to the handler's \<open>catch\<close>,
  whose answer is \<open>{error: String(err)}\<close>; the store keeps what the tool wrote before.\<close>
definition settle_tool ::
  "(memorantado_request \<Rightarrow> json fetch_outcome) \<Rightarrow> string
   \<Rightarrow> db \<times> tool_result \<times> memorantado_request list \<Rightarrow> db \<times> tool_result" where
  "settle_tool net err x =
     (case x of (d', r, reqs) \<Rightarrow>
        (d', if list_ex (\<lambda>q. is_rejected (post_reply (net q))) reqs then Tool_Error err else r))"

section \<open>Examples\<close>

definition example_tool_env :: tool_env where
  "example_tool_env = \<lparr>te_send = example_env, te_context_uuid = ''s1'', te_iso_now = ''2026-01-01T00:00:00.000Z''\<rparr>"

text \<open>The invoker's example store after Codex has answered the request \<open>m1\<close>, which
  is marked responded.\<close>
definition example_read_db :: db where
  "example_read_db = store_run example_invoke_db [(2, Op_Update_Message_Status ''m1'' Responded)]"

section \<open>Lemmas\<close>

lemma db_wf_send_message:
  "db_wf d \<Longrightarrow> send_message disp env d opts = Some (d', r) \<Longrightarrow> db_wf d'"
  by (auto dest!: send_message_store intro: db_wf_send_core)

text \<open>The handlers that reach \<open>sendMessage\<close> leave the store as it did, or as it
  was when they refuse.\<close>
lemma tool_send_message_store:
  "tool_send_message srv env d i = Some (d', r) \<Longrightarrow>
   d' = d \<or> (\<exists>opts x. send_message (srv_dispatcher srv) env d opts = Some (d', x))"
  by (auto simp: tool_send_message_def split: option.splits if_splits)

lemma tool_delegate_research_store:
  "tool_delegate_research srv env d i = Some (d', r, q) \<Longrightarrow>
   d' = d \<or> (\<exists>opts x. send_message (srv_dispatcher srv) env d opts = Some (d', x))"
  by (auto simp: tool_delegate_research_def split: option.splits if_splits)

lemma tool_request_review_store:
  "tool_request_review srv env d i = Some (d', r, q) \<Longrightarrow>
   d' = d \<or> (\<exists>opts x. send_message (srv_dispatcher srv) env d opts = Some (d', x))"
  by (auto simp: tool_request_review_def split: option.splits if_splits)

lemma db_wf_tool_create_conversation:
  "db_wf d \<Longrightarrow> db_wf (fst (tool_create_conversation c env d t p))"
  by (auto simp: tool_create_conversation_def split: option.splits sum.splits
           intro: db_wf_create_conversation)

lemma db_wf_tool_close_conversation:
  "db_wf d \<Longrightarrow> db_wf (fst (tool_close_conversation te d cid s sy))"
proof -
  have "fst (tool_close_conversation te d cid s sy) = fst (close_conversation d cid s (env_now (te_send te)))"
    by (simp add: tool_close_conversation_def Let_def split: prod.splits option.splits)
  then show "db_wf d \<Longrightarrow> ?thesis"
    by (simp add: close_conversation_def db_wf_update_conversation)
qed

lemma db_wf_tool_share_context: "db_wf d \<Longrightarrow> db_wf (fst (tool_share_context c te d i))"
  by (auto simp: tool_share_context_def split: option.splits sum.splits
           intro: db_wf_create_shared_context)

lemma db_wf_tool_mark_message_read:
  "db_wf d \<Longrightarrow> db_wf (fst (tool_mark_message_read c now d mid))"
  by (auto simp: tool_mark_message_read_def split: option.splits
           intro: db_wf_update_message_status)

lemma tool_get_response_returns: "tool_get_response env mid t \<noteq> None"
  using wait_loop_terminates [of 800 "env_observe env" mid]
  by (auto simp: tool_get_response_def wait_for_response_def)

lemma tool_send_message_returns: "tool_send_message srv env d i \<noteq> None"
proof -
  have "send_message (srv_dispatcher srv) env d opts \<noteq> None" for opts
    using send_message_terminates [of "srv_dispatcher srv" env d opts] by auto
  then show ?thesis by (simp add: tool_send_message_def split: option.splits)
qed

lemma tool_delegate_research_returns: "tool_delegate_research srv env d i \<noteq> None"
proof -
  have "send_message (srv_dispatcher srv) env d opts \<noteq> None" for opts
    using send_message_terminates [of "srv_dispatcher srv" env d opts] by auto
  then show ?thesis by (simp add: tool_delegate_research_def split: option.splits) (metis surj_pair)
qed

lemma tool_request_review_returns: "tool_request_review srv env d i \<noteq> None"
proof -
  have "send_message (srv_dispatcher srv) env d opts \<noteq> None" for opts
    using send_message_terminates [of "srv_dispatcher srv" env d opts] by auto
  then show ?thesis by (simp add: tool_request_review_def split: option.splits) (metis surj_pair)
qed

text \<open>Every tool call keeps the store well formed, and every tool call returns.\<close>
lemma db_wf_call_tool:
  assumes "db_wf d" and "call_tool srv te d call = Some (d', r, q)"
  shows "db_wf d'"
proof (cases call)
  case (Send_Message i)
  with assms show ?thesis
    by (auto simp: call_tool_def split: if_splits dest!: tool_send_message_store
             intro: db_wf_send_message)
next
  case (Delegate_Research i)
  with assms show ?thesis
    by (auto simp: call_tool_def split: if_splits dest!: tool_delegate_research_store
             intro: db_wf_send_message)
next
  case (Request_Review i)
  with assms show ?thesis
    by (auto simp: call_tool_def split: if_splits dest!: tool_request_review_store
             intro: db_wf_send_message)
next
  case (Create_Conversation t p)
  with assms db_wf_tool_create_conversation [of d "srv_client srv" "te_send te" t p] show ?thesis
    by (auto simp: call_tool_def split: if_splits prod.splits)
next
  case (Close_Conversation cid s sy)
  with assms db_wf_tool_close_conversation [of d te cid s sy] show ?thesis
    by (auto simp: call_tool_def split: if_splits)
next
  case (Share_Context i)
  with assms db_wf_tool_share_context [of d "srv_client srv" te i] show ?thesis
    by (auto simp: call_tool_def split: if_splits prod.splits)
next
  case (Mark_Message_Read mid)
  with assms db_wf_tool_mark_message_read [of d "srv_client srv" "env_now (te_send te)" mid] show ?thesis
    by (auto simp: call_tool_def split: if_splits prod.splits)
qed (use assms in \<open>auto simp: call_tool_def split: if_splits\<close>)

lemma call_tool_total: "call_tool srv te d call \<noteq> None"
  by (cases call)
     (simp_all add: call_tool_def tool_send_message_returns tool_get_response_returns
                    tool_delegate_research_returns tool_request_review_returns split: prod.splits
               del: not_None_eq)

section \<open>Properties of the tool server\<close>

text \<open>C18. A session whose client is unknown changes the store through one tool only,
  \<open>close_conversation\<close>, which never asks who is calling; every tool that writes as
  a participant (\<open>send_message\<close>, \<open>create_conversation\<close>, \<open>delegate_research\<close>,
  \<open>request_review\<close>, \<open>share_context\<close>, \<open>mark_message_read\<close>) refuses first.\<close>
theorem unidentified_only_close_writes:
  assumes "srv_client srv = None" and "call_tool srv te d call = Some (d', r, q)" and "d' \<noteq> d"
  shows "\<exists>cid s sy. call = Close_Conversation cid s sy"
  using assms
  by (cases call)
     (auto simp: call_tool_def tool_send_message_def tool_create_conversation_def
                 tool_delegate_research_def tool_request_review_def tool_share_context_def
                 tool_mark_message_read_def split: if_splits)

text \<open>C19. \<open>mark_message_read\<close> either finds the message, the caller is its target, the
  message is marked read at the call's time and the tool answers \<open>status: read\<close>; or
  the tool answers with an error and the store is unchanged.\<close>
theorem mark_message_read_target_only:
  assumes "tool_mark_message_read c now d mid = (d', r)"
  shows "(\<exists>m. get_message d mid = Some m \<and> c = Some (msg_target m) \<and>
              d' = update_message_status d mid Read now \<and>
              r = Tool_Ok (J_Obj [(''message_id'', J_Str mid), (''status'', J_Str ''read'')])) \<or>
         (d' = d \<and> (\<exists>e. r = Tool_Error e))"
  using assms by (auto simp: tool_mark_message_read_def split: option.splits if_splits)

text \<open>C33. Marking read does not look at the status: a message already answered
  (\<open>responded\<close>) goes back to \<open>read\<close> and its \<open>read_at\<close> is stamped again, against
  the monotone \<open>pending \<rightarrow> delivered \<rightarrow> read \<rightarrow> responded\<close> order and the
  set-once \<open>read_at\<close> the specification states.\<close>
theorem mark_message_read_reopens_responded:
  assumes "get_message d mid = Some m" and "msg_status m = Responded" and "msg_target m = c"
  shows "get_message (fst (tool_mark_message_read (Some c) now d mid)) mid =
         Some (m\<lparr>msg_status := Read, msg_read_at := Some now\<rparr>)"
  using assms get_message_Some [OF assms(1)]
  by (simp add: tool_mark_message_read_def get_message_update_status set_message_status_def)

text \<open>C21. \<open>close_conversation\<close> with a summary to sync closes the conversation first; when
  the knowledge graph then answers with an ok status and a body that is not JSON, the
  unawaited \<open>res.json()\<close> of \<open>createEntity\<close> rejects through
  \<open>syncConversationSummary\<close>, and the tool answers with an error although the
  conversation is closed in the store.\<close>
theorem close_conversation_sync_error:
  assumes closed: "close_conversation d cid (Some s) (env_now (te_send te)) = (d', Some cv)"
    and "s \<noteq> []" and "sync \<noteq> Some False" and "res_ok status"
  shows "settle_tool (\<lambda>_. Fetch_Response status None) err (tool_close_conversation te d cid (Some s) sync)
           = (d', Tool_Error err) \<and>
         conv_id cv = cid \<and> conv_status cv = Conv_Completed"
proof -
  have "with_default True sync" using assms(3) by (cases sync) (auto simp: with_default_def)
  then have "settle_tool (\<lambda>_. Fetch_Response status None) err (tool_close_conversation te d cid (Some s) sync)
               = (d', Tool_Error err)"
    using closed assms(2,4)
    by (simp add: settle_tool_def tool_close_conversation_def Let_def post_reply_def is_rejected_def js_truthy_def)
  then show ?thesis using close_conversation_Some [OF closed] by simp
qed

section \<open>Witnesses\<close>

theorem unidentified_only_close_writes_witness:
  "\<exists>d' r q. call_tool (create_mcp_server None None None) example_tool_env example_invoke_db
              (Close_Conversation ''c1'' None None) = Some (d', r, q) \<and> d' \<noteq> example_invoke_db \<and>
            (\<exists>cid s sy. Close_Conversation ''c1'' None None = Close_Conversation cid s sy)"
proof -
  define res where "res = call_tool (create_mcp_server None None None) example_tool_env
                            example_invoke_db (Close_Conversation ''c1'' None None)"
  have some: "res \<noteq> None" and st: "map conv_status (db_conversations (fst (the res))) = [Conv_Completed]"
    unfolding res_def by code_simp+
  have orig: "map conv_status (db_conversations example_invoke_db) = [Conv_Active]" by code_simp
  obtain d' r q where r: "res = Some (d', r, q)" using some by (metis option.exhaust prod_cases3)
  have ne: "d' \<noteq> example_invoke_db" using st orig r by auto
  show ?thesis
    using unidentified_only_close_writes [of "create_mcp_server None None None" example_tool_env
            example_invoke_db _ d' r q] r ne
    unfolding res_def by (auto simp: create_mcp_server_def)
qed

theorem mark_message_read_target_only_witness:
  "(\<exists>m. get_message example_read_db ''m1'' = Some m \<and> Some Codex = Some (msg_target m) \<and>
        fst (tool_mark_message_read (Some Codex) 7 example_read_db ''m1'') =
          update_message_status example_read_db ''m1'' Read 7 \<and>
        snd (tool_mark_message_read (Some Codex) 7 example_read_db ''m1'') =
          Tool_Ok (J_Obj [(''message_id'', J_Str ''m1''), (''status'', J_Str ''read'')])) \<or>
   (fst (tool_mark_message_read (Some Codex) 7 example_read_db ''m1'') = example_read_db \<and>
    (\<exists>e. snd (tool_mark_message_read (Some Codex) 7 example_read_db ''m1'') = Tool_Error e))"
  by (rule mark_message_read_target_only) simp

theorem mark_message_read_reopens_responded_witness:
  "get_message (fst (tool_mark_message_read (Some Codex) 7 example_read_db ''m1'')) ''m1'' =
   Some (example_request\<lparr>msg_status := Read, msg_read_at := Some 7\<rparr>)"
proof -
  have "get_message example_read_db ''m1'' = Some (example_request\<lparr>msg_status := Responded\<rparr>)"
    by code_simp
  from mark_message_read_reopens_responded [OF this] show ?thesis
    by (simp add: example_request_def)
qed

theorem close_conversation_sync_error_witness:
  "\<exists>d' (cv :: conversation). settle_tool (\<lambda>_. Fetch_Response 200 None) ''SyntaxError''
             (tool_close_conversation example_tool_env example_invoke_db ''c1'' (Some ''done'') None)
           = (d', Tool_Error ''SyntaxError'') \<and> conv_id cv = ''c1'' \<and> conv_status cv = Conv_Completed"
proof -
  let ?now = "env_now (te_send example_tool_env)"
  have "snd (close_conversation example_invoke_db ''c1'' (Some ''done'') ?now) \<noteq> None" by code_simp
  then obtain d' cv where c: "close_conversation example_invoke_db ''c1'' (Some ''done'') ?now = (d', Some cv)"
    by (metis not_None_eq prod.collapse)
  have "settle_tool (\<lambda>_. Fetch_Response 200 None) ''SyntaxError''
          (tool_close_conversation example_tool_env example_invoke_db ''c1'' (Some ''done'') None)
          = (d', Tool_Error ''SyntaxError'') \<and> conv_id cv = ''c1'' \<and> conv_status cv = Conv_Completed"
    by (rule close_conversation_sync_error [OF c]) (simp_all add: res_ok_def)
  then show ?thesis by blast
qed

end
