(* ===== verification/Queue_Processor.thy ===== *)
theory Queue_Processor
  imports Queue_Store
begin

text \<open>
  The background queue processor (\<open>QueueProcessor\<close>, src/unnamed/part_001, staged as
  src/router/queueProcessor.ts). It drains the message queue of a target that is online
  according to the store's \<open>clients.status\<close> (the code calls \<open>isClientOnline(db, t)\<close>,
  not the in-memory registry), retries with exponential backoff, and sweeps exhausted
  rows. \<open>start()\<close> and \<open>stop()\<close> act on the runtime's table of intervals, modelled as
  a list of live intervals with fresh handles; the processor holds the two handles. A
  tick of either interval is a call of the corresponding function. The theory ends with
  the proof that starts and stops in any order leave at most one poll interval and that
  a stop clears them all.
\<close>

datatype delivery_result = Result_Delivered | Result_Retry | Result_Removed

text \<open>\<open>scheduleRetry\<close>: \<open>min(30 * 2^attempts, 3600)\<close> seconds.\<close>
definition backoff_delay :: "nat \<Rightarrow> nat" where
  "backoff_delay attempts = min (30 * 2 ^ attempts) 3600"

definition schedule_retry :: "db \<Rightarrow> queued_message \<Rightarrow> timestamp \<Rightarrow> db" where
  "schedule_retry d item now = increment_attempts d (q_id item) (backoff_delay (q_attempts item)) now"

definition attempt_delivery ::
  "db \<Rightarrow> client_id \<Rightarrow> queued_message \<Rightarrow> timestamp \<Rightarrow> db \<times> delivery_result" where
  "attempt_delivery d t item now =
     (case get_message d (q_message_id item) of
        None \<Rightarrow> (fst (remove_from_queue d (q_message_id item)), Result_Removed)
      | Some m \<Rightarrow>
          (if \<not> is_client_online d t then (schedule_retry d item now, Result_Retry)
           else (fst (remove_from_queue (update_message_status d (msg_id m) Delivered now)
                                        (q_message_id item)), Result_Delivered)))"

text \<open>The loop over the dequeued rows, counting deliveries and retries for the log line.\<close>
fun deliver_items ::
  "db \<Rightarrow> client_id \<Rightarrow> queued_message list \<Rightarrow> timestamp \<Rightarrow> db \<times> nat \<times> nat" where
  "deliver_items d t [] now = (d, 0, 0)"
| "deliver_items d t (item # items) now =
     (let (d1, r) = attempt_delivery d t item now;
          (d2, delivered, retried) = deliver_items d1 t items now
      in (d2, (if r = Result_Delivered then Suc delivered else delivered),
              (if r = Result_Retry then Suc retried else retried)))"

definition process_queue_for_target :: "db \<Rightarrow> client_id \<Rightarrow> timestamp \<Rightarrow> db" where
  "process_queue_for_target d t now =
     (if \<not> is_client_online d t then d
      else (let queued = dequeue_messages d t 10 now
            in if queued = [] then d else fst (deliver_items d t queued now)))"

definition process_queue :: "db \<Rightarrow> timestamp \<Rightarrow> db" where
  "process_queue d now = fold (\<lambda>t d. process_queue_for_target d t now) all_clients d"

definition cleanup_tick :: "db \<Rightarrow> db" where
  "cleanup_tick d = fst (clear_exhausted_messages d)"

definition on_client_online :: "db \<Rightarrow> client_id \<Rightarrow> timestamp \<Rightarrow> db" where
  "on_client_online d c now = process_queue_for_target d c now"

text \<open>The number of rows of a target that are ready at a clock reading (what
  \<open>dequeueMessages\<close> selects before its limit).\<close>
definition ready_count :: "db \<Rightarrow> client_id \<Rightarrow> timestamp \<Rightarrow> nat" where
  "ready_count d t now = length (filter (ready_entry t now) (db_queue d))"

text \<open>The runtime's table of intervals (\<open>setInterval\<close>, \<open>clearInterval\<close>): each live
  interval has a handle, the callback it runs and its period in ms. Handles are fresh;
  a \<open>Timeout\<close> object is always truthy, so a set handle reads as \<open>Some\<close>.\<close>
datatype interval_callback = Poll_Tick | Cleanup_Tick

record node_timers =
  tm_live :: "(nat \<times> interval_callback \<times> nat) list"
  tm_next :: nat

definition no_timers :: node_timers where
  "no_timers = \<lparr>tm_live = [], tm_next = 1\<rparr>"

definition set_interval :: "interval_callback \<Rightarrow> nat \<Rightarrow> node_timers \<Rightarrow> nat \<times> node_timers" where
  "set_interval cb ms tm =
     (tm_next tm, tm\<lparr>tm_live := tm_live tm @ [(tm_next tm, cb, ms)], tm_next := Suc (tm_next tm)\<rparr>)"

definition clear_interval :: "nat \<Rightarrow> node_timers \<Rightarrow> node_timers" where
  "clear_interval h tm = tm\<lparr>tm_live := filter (\<lambda>t. fst t \<noteq> h) (tm_live tm)\<rparr>"

record queue_processor =
  qp_interval_id :: "nat option"
  qp_cleanup_interval_id :: "nat option"
  qp_poll_interval_ms :: nat

definition new_queue_processor :: "nat option \<Rightarrow> queue_processor" where
  "new_queue_processor poll =
     \<lparr>qp_interval_id = None, qp_cleanup_interval_id = None,
      qp_poll_interval_ms = (case poll of None \<Rightarrow> 5000 | Some p \<Rightarrow> p)\<rparr>"

text \<open>\<open>start()\<close>: nothing when the poll interval is already set; otherwise the poll
  interval and the five-minute cleanup interval.\<close>
definition qp_start :: "queue_processor \<times> node_timers \<Rightarrow> queue_processor \<times> node_timers" where
  "qp_start s =
     (case s of (p, tm) \<Rightarrow>
        if qp_interval_id p \<noteq> None then (p, tm)
        else
          (case set_interval Poll_Tick (qp_poll_interval_ms p) tm of
             (i, tm1) \<Rightarrow>
               (case set_interval Cleanup_Tick (5 * 60 * 1000) tm1 of
                  (j, tm2) \<Rightarrow> (p\<lparr>qp_interval_id := Some i, qp_cleanup_interval_id := Some j\<rparr>, tm2))))"

text \<open>\<open>stop()\<close>: each interval that is set is cleared and its handle reset.\<close>
definition qp_stop :: "queue_processor \<times> node_timers \<Rightarrow> queue_processor \<times> node_timers" where
  "qp_stop s =
     (case s of (p, tm) \<Rightarrow>
        let tm1 = (case qp_interval_id p of None \<Rightarrow> tm | Some i \<Rightarrow> clear_interval i tm);
            tm2 = (case qp_cleanup_interval_id p of None \<Rightarrow> tm1 | Some j \<Rightarrow> clear_interval j tm1)
        in (p\<lparr>qp_interval_id := None, qp_cleanup_interval_id := None\<rparr>, tm2))"

text \<open>The calls the process makes on the processor: \<open>start()\<close> when the HTTP server
  starts, \<open>stop()\<close> in its \<open>onClose\<close> hook.\<close>
datatype qp_call = Call_Start | Call_Stop

fun qp_apply :: "qp_call \<Rightarrow> queue_processor \<times> node_timers \<Rightarrow> queue_processor \<times> node_timers" where
  "qp_apply Call_Start s = qp_start s"
| "qp_apply Call_Stop s = qp_stop s"

definition qp_run :: "qp_call list \<Rightarrow> queue_processor \<times> node_timers \<Rightarrow> queue_processor \<times> node_timers" where
  "qp_run cs s = fold qp_apply cs s"

text \<open>The processor owns exactly the intervals its handles name: none when stopped, one
  poll and one cleanup interval when started.\<close>
definition qp_timers_inv :: "queue_processor \<times> node_timers \<Rightarrow> bool" where
  "qp_timers_inv s =
     (case s of (p, tm) \<Rightarrow>
        (case (qp_interval_id p, qp_cleanup_interval_id p) of
           (None, None) \<Rightarrow> tm_live tm = []
         | (Some i, Some j) \<Rightarrow>
             i \<noteq> j \<and> tm_live tm = [(i, Poll_Tick, qp_poll_interval_ms p), (j, Cleanup_Tick, 300000)]
         | _ \<Rightarrow> False))"


text \<open>A store in which Codex has sent Claude a message while Claude was offline (so it
  was queued), after which Claude came online.\<close>
definition example_queue_db :: db where
  "example_queue_db = store_run (initial_db 0)
     [(0, Op_Create_Conversation ''c1'' None None Codex None),
      (1, Op_Create_Message ''m1'' \<lparr>cm_conversation_id = ''c1'', cm_sender = Codex,
            cm_target = Claude, cm_content = ''hi'', cm_message_type = None, cm_priority = None,
            cm_response_to_id = None, cm_metadata = None\<rparr>),
      (1, Op_Enqueue ''m1'' Claude None (Some 5)),
      (2, Op_Update_Client_Status Claude Online (Some ''s1''))]"

text \<open>A message queued for offline Claude with a single delivery attempt allowed.\<close>
definition example_single_try_db :: db where
  "example_single_try_db = store_run (initial_db 0)
     [(0, Op_Create_Conversation ''c1'' None None Codex None),
      (1, Op_Create_Message ''m1'' \<lparr>cm_conversation_id = ''c1'', cm_sender = Codex,
            cm_target = Claude, cm_content = ''hi'', cm_message_type = None, cm_priority = None,
            cm_response_to_id = None, cm_metadata = None\<rparr>),
      (1, Op_Enqueue ''m1'' Claude None (Some 1))]"

definition example_single_try_row :: queued_message where
  "example_single_try_row = \<lparr>q_id = 1, q_message_id = ''m1'', q_target = Claude, q_priority = 0,
     q_attempts = 0, q_max_attempts = 1, q_next_attempt = 1, q_created_at = 1\<rparr>"

section \<open>Lemmas\<close>

lemma get_message_exists:
  "mid \<in> msg_id ` set (db_messages d) \<Longrightarrow> \<exists>m. get_message d mid = Some m"
  by (cases "get_message d mid") (auto simp: get_message_def find_None_iff)

lemma set_message_status_idem:
  "set_message_status st now (set_message_status st now m) = set_message_status st now m"
  by (simp add: set_message_status_def)

lemma is_client_online_deliver [simp]:
  "is_client_online (fst (remove_from_queue (update_message_status d mid st now) x)) t = is_client_online d t"
  by (simp add: is_client_online_def remove_from_queue_def update_message_status_def)

lemma msg_ids_deliver [simp]:
  "msg_id ` set (db_messages (fst (remove_from_queue (update_message_status d mid st now) x))) =
   msg_id ` set (db_messages d)"
  by (simp add: remove_from_queue_def update_message_status_def del: set_map)
     (rule image_key_cond_update, simp add: set_message_status_def)

lemma fst_deliver_items_Cons:
  "fst (deliver_items d t (item # items) now) =
   fst (deliver_items (fst (attempt_delivery d t item now)) t items now)"
  by (simp add: split_def Let_def)

text \<open>With the target online and every row's message present, the loop marks the rows'
  messages delivered and deletes the rows.\<close>
lemma deliver_items_online:
  assumes "is_client_online d t"
    and "list_all (\<lambda>e. q_message_id e \<in> msg_id ` set (db_messages d)) items"
  shows "fst (deliver_items d t items now) =
     d\<lparr>db_queue := filter (\<lambda>x. q_message_id x \<notin> q_message_id ` set items) (db_queue d),
       db_messages := map (\<lambda>m. if msg_id m \<in> q_message_id ` set items
                               then set_message_status Delivered now m else m) (db_messages d)\<rparr>"
  using assms
proof (induction items arbitrary: d)
  case Nil
  then show ?case by simp
next
  case (Cons item items)
  from Cons.prems(2) have "q_message_id item \<in> msg_id ` set (db_messages d)" by simp
  then obtain m where m: "get_message d (q_message_id item) = Some m"
    using get_message_exists by blast
  then have mid: "msg_id m = q_message_id item" by (simp add: get_message_Some)
  let ?d1 = "fst (remove_from_queue (update_message_status d (q_message_id item) Delivered now)
                                    (q_message_id item))"
  have step: "attempt_delivery d t item now = (?d1, Result_Delivered)"
    using Cons.prems(1) m mid by (simp add: attempt_delivery_def)
  have IH: "fst (deliver_items ?d1 t items now) =
     ?d1\<lparr>db_queue := filter (\<lambda>x. q_message_id x \<notin> q_message_id ` set items) (db_queue ?d1),
         db_messages := map (\<lambda>m. if msg_id m \<in> q_message_id ` set items
                                 then set_message_status Delivered now m else m) (db_messages ?d1)\<rparr>"
    using Cons.prems by (intro Cons.IH) simp_all
  have "fst (deliver_items d t (item # items) now) = fst (deliver_items ?d1 t items now)"
    by (simp only: fst_deliver_items_Cons step fst_conv)
  also have "\<dots> = ?d1\<lparr>db_queue := filter (\<lambda>x. q_message_id x \<notin> q_message_id ` set items) (db_queue ?d1),
         db_messages := map (\<lambda>m. if msg_id m \<in> q_message_id ` set items
                                 then set_message_status Delivered now m else m) (db_messages ?d1)\<rparr>"
    by (rule IH)
  also have "\<dots> = d\<lparr>db_queue := filter (\<lambda>x. q_message_id x \<notin> q_message_id ` set (item # items)) (db_queue d),
       db_messages := map (\<lambda>m. if msg_id m \<in> q_message_id ` set (item # items)
                               then set_message_status Delivered now m else m) (db_messages d)\<rparr>"
    by (simp add: remove_from_queue_def update_message_status_def set_message_status_idem)
  finally show ?case .
qed


lemma set_dequeue_messages:
  "set (dequeue_messages d t lim now) \<subseteq> {e \<in> set (db_queue d). ready_entry t now e}"
  by (auto simp: dequeue_messages_def dest: in_set_takeD)

lemma schedule_retry_lookup:
  assumes "db_wf d" "e \<in> set (db_queue d)"
  shows "get_queued_message (schedule_retry d e now) (q_message_id e) =
         Some (e\<lparr>q_attempts := Suc (q_attempts e),
                  q_next_attempt := now + 1000 * backoff_delay (q_attempts e)\<rparr>)"
proof -
  from assms have "find (\<lambda>y. q_message_id y = q_message_id e) (db_queue d) = Some e"
    by (intro find_key_distinct) (simp_all add: db_wf_def)
  then show ?thesis
    unfolding schedule_retry_def increment_attempts_def get_queued_message_def
    by (simp add: find_key_cond_update)
qed

lemma queue_row_of_lookup:
  assumes "db_wf d" "x \<in> set (db_queue d)" "get_queued_message d (q_message_id x) = Some y"
  shows "x = y"
proof -
  from assms(3) have "y \<in> set (db_queue d)" "q_message_id y = q_message_id x"
    by (auto simp: get_queued_message_def find_Some_iff)
  with assms(1,2) show ?thesis
    by (intro distinct_key_eq [where k = q_message_id and xs = "db_queue d"]) (simp_all add: db_wf_def)
qed

section \<open>Draining a target\<close>

text \<open>The processor's writes keep the store well formed.\<close>
lemma db_wf_attempt_delivery [wf_intros]:
  "db_wf d \<Longrightarrow> db_wf (fst (attempt_delivery d t item now))"
  by (auto simp: attempt_delivery_def schedule_retry_def split: option.splits intro: wf_intros)

lemma db_wf_deliver_items [wf_intros]: "db_wf d \<Longrightarrow> db_wf (fst (deliver_items d t items now))"
proof (induction items arbitrary: d)
  case (Cons item items)
  show ?case unfolding fst_deliver_items_Cons
    by (rule Cons.IH) (rule db_wf_attempt_delivery [OF Cons.prems])
qed simp

lemma db_wf_process_queue_for_target [wf_intros]:
  "db_wf d \<Longrightarrow> db_wf (process_queue_for_target d t now)"
  by (simp add: process_queue_for_target_def Let_def db_wf_deliver_items)

lemma db_wf_process_queue [wf_intros]: "db_wf d \<Longrightarrow> db_wf (process_queue d now)"
proof -
  have "db_wf d \<Longrightarrow> db_wf (fold (\<lambda>t d. process_queue_for_target d t now) ts d)" for ts
    by (induction ts arbitrary: d) (simp_all add: db_wf_process_queue_for_target)
  then show "db_wf d \<Longrightarrow> ?thesis" by (simp add: process_queue_def)
qed

lemma db_wf_cleanup_tick [wf_intros]: "db_wf d \<Longrightarrow> db_wf (cleanup_tick d)"
  by (simp add: cleanup_tick_def db_wf_clear_exhausted)

lemma process_queue_for_target_eq:
  assumes "db_wf d"
  shows "process_queue_for_target d t now =
    (if is_client_online d t then
       d\<lparr>db_queue := filter (\<lambda>x. q_message_id x \<notin> q_message_id ` set (dequeue_messages d t 10 now))
                             (db_queue d),
         db_messages := map (\<lambda>m. if msg_id m \<in> q_message_id ` set (dequeue_messages d t 10 now)
                                 then set_message_status Delivered now m else m) (db_messages d)\<rparr>
     else d)"
proof (cases "is_client_online d t")
  case True
  have "list_all (\<lambda>e. q_message_id e \<in> msg_id ` set (db_messages d)) (db_queue d)"
    using assms by (simp add: db_wf_def)
  then have "list_all (\<lambda>e. q_message_id e \<in> msg_id ` set (db_messages d)) (dequeue_messages d t 10 now)"
    using set_dequeue_messages by (fastforce simp: list_all_iff)
  with True show ?thesis
    by (auto simp: process_queue_for_target_def Let_def deliver_items_online)
next
  case False
  then show ?thesis by (simp add: process_queue_for_target_def)
qed

lemma msg_id_set_message_status [simp]: "msg_id (set_message_status st now m) = msg_id m"
  by (simp add: set_message_status_def)

text \<open>A drain of an online target delivers every row \<open>dequeueMessages\<close> hands it: the
  row leaves the queue and its message reads back as delivered.\<close>
lemma process_queue_for_target_delivers:
  assumes wf: "db_wf d" and on: "is_client_online d t" and e: "e \<in> set (dequeue_messages d t 10 now)"
  shows "q_message_id e \<notin> q_message_id ` set (db_queue (process_queue_for_target d t now)) \<and>
         (\<exists>m. get_message (process_queue_for_target d t now) (q_message_id e) = Some m \<and>
              msg_status m = Delivered)"
proof -
  let ?ids = "q_message_id ` set (dequeue_messages d t 10 now)"
  let ?f = "\<lambda>m. if msg_id m \<in> ?ids then set_message_status Delivered now m else m"
  have eq: "process_queue_for_target d t now =
              d\<lparr>db_queue := filter (\<lambda>x. q_message_id x \<notin> ?ids) (db_queue d),
                db_messages := map ?f (db_messages d)\<rparr>"
    using process_queue_for_target_eq [OF wf] on by simp
  have "e \<in> set (db_queue d)" using e set_dequeue_messages by blast
  then have "q_message_id e \<in> msg_id ` set (db_messages d)"
    using wf by (auto simp: db_wf_def list_all_iff)
  then obtain m where m: "get_message d (q_message_id e) = Some m"
    using get_message_exists by blast
  have mid: "msg_id m = q_message_id e" using m by (simp add: get_message_Some)
  have in_ids: "q_message_id e \<in> ?ids" using e by blast
  have "get_message (process_queue_for_target d t now) (q_message_id e) = Some (?f m)"
    using m by (auto simp: eq get_message_def find_map_conv o_def)
  moreover have "msg_status (?f m) = Delivered"
    using mid in_ids by (simp add: set_message_status_def)
  moreover have "q_message_id e \<notin> q_message_id ` set (db_queue (process_queue_for_target d t now))"
    using in_ids by (auto simp: eq)
  ultimately show ?thesis by blast
qed

lemma dequeue_props:
  "length (dequeue_messages d t n now) = min n (ready_count d t now) \<and>
   (distinct (db_queue d) \<longrightarrow> distinct (dequeue_messages d t n now))"
  by (simp add: dequeue_messages_def ready_count_def distinct_take)

lemma ready_count_drain:
  assumes wf: "db_wf d"
  shows "ready_count (process_queue_for_target d t now) t now =
           (if is_client_online d t then ready_count d t now - min 10 (ready_count d t now)
            else ready_count d t now)"
proof (cases "is_client_online d t")
  case True
  let ?ys = "dequeue_messages d t 10 now"
  have dk: "distinct (map q_message_id (db_queue d))" using wf by (simp add: db_wf_def)
  then have "distinct (db_queue d)" by (simp add: distinct_map)
  then have dy: "distinct ?ys" using dequeue_props by blast
  have ys: "set ?ys \<subseteq> {x \<in> set (db_queue d). ready_entry t now x}" by (rule set_dequeue_messages)
  show ?thesis
    using True length_filter_remove_keys [OF dk ys dy] dequeue_props [of d t 10 now]
    by (simp add: process_queue_for_target_eq [OF wf] ready_count_def)
next
  case False
  then show ?thesis by (simp add: process_queue_for_target_def)
qed

lemma is_client_online_drain [simp]:
  "db_wf d \<Longrightarrow> is_client_online (process_queue_for_target d t now) c = is_client_online d c"
  by (simp add: process_queue_for_target_eq is_client_online_def)

lemma drains_wf_online:
  assumes "db_wf d" and "is_client_online d t"
  shows "db_wf (((\<lambda>d. process_queue_for_target d t now) ^^ k) d) \<and>
         is_client_online (((\<lambda>d. process_queue_for_target d t now) ^^ k) d) t"
  using assms by (induction k) (simp_all add: db_wf_process_queue_for_target)

text \<open>C8. One drain of a target (\<open>processQueueForTarget\<close>): when the store says the
  target is offline nothing changes; otherwise the messages of the (at most ten) ready rows
  that \<open>dequeueMessages\<close> returns are marked delivered, stamped with the time, and exactly
  those rows leave the queue.\<close>
theorem process_queue_for_target_effect:
  assumes "db_wf d"
  shows "process_queue_for_target d t now =
    (if is_client_online d t then
       d\<lparr>db_queue := filter (\<lambda>x. q_message_id x \<notin> q_message_id ` set (dequeue_messages d t 10 now))
                             (db_queue d),
         db_messages := map (\<lambda>m. if msg_id m \<in> q_message_id ` set (dequeue_messages d t 10 now)
                                 then set_message_status Delivered now m else m) (db_messages d)\<rparr>
     else d)"
  using assms by (rule process_queue_for_target_eq)

text \<open>C9. Draining an online target repeatedly empties its ready rows: each
  \<open>processQueueForTarget\<close> delivers \<open>min(10, ready)\<close> of the rows ready at the clock
  reading, so after \<open>k\<close> drains \<open>10 * k\<close> fewer remain and \<open>\<lceil>n / 10\<rceil>\<close> drains leave
  none (the limit of ten delays delivery but loses nothing).\<close>
theorem repeated_drains_empty_ready:
  assumes "db_wf d" and "is_client_online d t"
  shows "ready_count (((\<lambda>d. process_queue_for_target d t now) ^^ k) d) t now = ready_count d t now - 10 * k"
proof (induction k)
  case 0
  then show ?case by simp
next
  case (Suc k)
  note dk = drains_wf_online [OF assms, where now = now and k = k]
  show ?case using Suc.IH ready_count_drain [OF conjunct1 [OF dk], of t now] dk by simp
qed


theorem process_queue_for_target_effect_witness:
  "db_wf example_queue_db \<and>
   db_queue (process_queue_for_target example_queue_db Claude 5) = [] \<and>
   map (\<lambda>m. (msg_status m, msg_delivered_at m))
       (db_messages (process_queue_for_target example_queue_db Claude 5)) = [(Delivered, Some 5)]"
proof -
  have wf: "db_wf example_queue_db" by code_simp
  show ?thesis
    unfolding process_queue_for_target_effect [OF wf, of Claude 5] by code_simp
qed

section \<open>Retries and exhaustion\<close>

text \<open>C13. The retry delay of \<open>scheduleRetry\<close> is \<open>min(30 * 2^attempts, 3600)\<close>
  seconds: never under 30 seconds, never over an hour, doubling from 30 seconds and
  capped from the seventh retry on.\<close>
theorem backoff_delay_schedule:
  "30 \<le> backoff_delay n \<and> backoff_delay n \<le> 3600 \<and> backoff_delay (n + 7) = 3600 \<and>
   map backoff_delay [0..<8] = [30, 60, 120, 240, 480, 960, 1920, 3600]"
proof -
  have "(128::nat) \<le> 2 ^ (n + 7)"
    using power_increasing [of 7 "n + 7" "2::nat"] by simp
  then have "3600 \<le> 30 * (2::nat) ^ (n + 7)" by linarith
  moreover have "(1::nat) \<le> 2 ^ n" by simp
  ultimately show ?thesis
    by (simp add: backoff_delay_def upt_rec)
qed

text \<open>C10. \<open>scheduleRetry\<close> on a queued row counts one more attempt and moves its next
  attempt to the backoff delay after now, and leaves every other row of the queue as it
  was.\<close>
theorem schedule_retry_row:
  assumes "db_wf d" "e \<in> set (db_queue d)"
  shows "get_queued_message (schedule_retry d e now) (q_message_id e) =
           Some (e\<lparr>q_attempts := Suc (q_attempts e),
                    q_next_attempt := now + 1000 * backoff_delay (q_attempts e)\<rparr>) \<and>
         (\<forall>x \<in> set (db_queue d). x \<noteq> e \<longrightarrow> x \<in> set (db_queue (schedule_retry d e now)))"
proof -
  have "q_id x \<noteq> q_id e" if "x \<in> set (db_queue d)" "x \<noteq> e" for x
    using assms that distinct_key_eq [where k = q_id and xs = "db_queue d"]
    by (auto simp: db_wf_def)
  then have "\<forall>x \<in> set (db_queue d). x \<noteq> e \<longrightarrow> x \<in> set (db_queue (schedule_retry d e now))"
    by (force simp: schedule_retry_def increment_attempts_def)
  with schedule_retry_lookup [OF assms] show ?thesis by simp
qed

theorem schedule_retry_row_witness:
  "db_wf example_queue_db \<and>
   \<lparr>q_id = 1, q_message_id = ''m1'', q_target = Claude, q_priority = 0,
       q_attempts = 0, q_max_attempts = 5, q_next_attempt = 1, q_created_at = 1\<rparr> \<in> set (db_queue example_queue_db) \<and>
   get_queued_message (schedule_retry example_queue_db \<lparr>q_id = 1, q_message_id = ''m1'', q_target = Claude, q_priority = 0,
       q_attempts = 0, q_max_attempts = 5, q_next_attempt = 1, q_created_at = 1\<rparr> 10) ''m1'' =
     Some (\<lparr>q_id = 1, q_message_id = ''m1'', q_target = Claude, q_priority = 0,
       q_attempts = 0, q_max_attempts = 5, q_next_attempt = 1, q_created_at = 1\<rparr>\<lparr>q_attempts := 1, q_next_attempt := 30010\<rparr>)"
proof -
  have wf: "db_wf example_queue_db" by code_simp
  have e: "\<lparr>q_id = 1, q_message_id = ''m1'', q_target = Claude, q_priority = 0,
       q_attempts = 0, q_max_attempts = 5, q_next_attempt = 1, q_created_at = 1\<rparr> \<in> set (db_queue example_queue_db)" by code_simp
  show ?thesis
    using schedule_retry_row [OF wf e, of 10] wf e by (simp add: backoff_delay_def)
qed

text \<open>C11. A row whose retry uses up its last attempt is never handed out again by
  \<open>dequeueMessages\<close>, for any target, limit and time, and the next cleanup tick
  (\<open>clearExhaustedMessages\<close>) removes it.\<close>
theorem retry_exhausts_row:
  assumes "db_wf d" "e \<in> set (db_queue d)" "q_max_attempts e \<le> Suc (q_attempts e)"
  shows "(\<forall>t lim now'. q_message_id e \<notin> q_message_id ` set (dequeue_messages (schedule_retry d e now) t lim now')) \<and>
         q_message_id e \<notin> q_message_id ` set (db_queue (cleanup_tick (schedule_retry d e now)))"
proof -
  let ?d' = "schedule_retry d e now"
  have wf': "db_wf ?d'" using assms(1) by (simp add: schedule_retry_def db_wf_increment_attempts)
  have ex: "exhausted x" if "x \<in> set (db_queue ?d')" "q_message_id x = q_message_id e" for x
  proof -
    from that have "x = e\<lparr>q_attempts := Suc (q_attempts e),
                         q_next_attempt := now + 1000 * backoff_delay (q_attempts e)\<rparr>"
      using queue_row_of_lookup [OF wf'] schedule_retry_lookup [OF assms(1,2)] by metis
    with assms(3) show ?thesis by (simp add: exhausted_def)
  qed
  have "\<not> ready_entry t now' x" if "exhausted x" for t now' x
    using that by (simp add: exhausted_def ready_entry_def)
  then show ?thesis
    using ex set_dequeue_messages [of ?d']
    by (fastforce simp: cleanup_tick_def clear_exhausted_messages_def)
qed

theorem retry_exhausts_row_witness:
  "db_wf example_single_try_db \<and> example_single_try_row \<in> set (db_queue example_single_try_db) \<and>
   q_max_attempts example_single_try_row \<le> Suc (q_attempts example_single_try_row) \<and>
   (\<forall>t lim now'. q_message_id example_single_try_row \<notin> q_message_id ` set (dequeue_messages
        (schedule_retry example_single_try_db example_single_try_row 7) t lim now')) \<and>
   q_message_id example_single_try_row \<notin>
     q_message_id ` set (db_queue (cleanup_tick (schedule_retry example_single_try_db example_single_try_row 7)))"
proof -
  have wf: "db_wf example_single_try_db" by code_simp
  have e: "example_single_try_row \<in> set (db_queue example_single_try_db)" by code_simp
  have m: "q_max_attempts example_single_try_row \<le> Suc (q_attempts example_single_try_row)"
    by (simp add: example_single_try_row_def)
  from retry_exhausts_row [OF wf e m, of 7] wf e m show ?thesis by blast
qed

section \<open>Timers\<close>

lemma qp_timers_inv_start: "qp_timers_inv s \<Longrightarrow> qp_timers_inv (qp_start s)"
  by (auto simp: qp_timers_inv_def qp_start_def set_interval_def split: option.splits prod.splits)

lemma qp_stop_no_timers: "qp_timers_inv s \<Longrightarrow> tm_live (snd (qp_stop s)) = []"
  by (auto simp: qp_timers_inv_def qp_stop_def clear_interval_def split: option.splits prod.splits)

lemma qp_timers_inv_stop: "qp_timers_inv s \<Longrightarrow> qp_timers_inv (qp_stop s)"
  using qp_stop_no_timers [of s]
  by (auto simp: qp_timers_inv_def qp_stop_def Let_def split: option.splits prod.splits)

lemma qp_timers_inv_run: "qp_timers_inv s \<Longrightarrow> qp_timers_inv (qp_run cs s)"
proof (induction cs arbitrary: s)
  case Nil
  then show ?case by (simp add: qp_run_def)
next
  case (Cons c cs)
  have "qp_timers_inv (qp_apply c s)"
    using Cons.prems by (cases c) (simp_all add: qp_timers_inv_start qp_timers_inv_stop)
  then show ?case using Cons.IH by (simp add: qp_run_def)
qed

lemma qp_timers_inv_new: "qp_timers_inv (new_queue_processor poll, no_timers)"
  by (simp add: qp_timers_inv_def new_queue_processor_def no_timers_def)

lemma qp_timers_inv_poll: "qp_timers_inv s \<Longrightarrow> length (filter (\<lambda>t. fst (snd t) = Poll_Tick) (tm_live (snd s))) \<le> 1"
  by (auto simp: qp_timers_inv_def split: option.splits prod.splits)

text \<open>C12. Starting and stopping the processor in any order never leaves two poll intervals
  running (the guard of \<open>start()\<close> keeps a second call from leaking one), and after
  \<open>stop()\<close> no interval of the processor is left in the runtime.\<close>
theorem queue_processor_timers:
  "length (filter (\<lambda>t. fst (snd t) = Poll_Tick)
            (tm_live (snd (qp_run cs (new_queue_processor poll, no_timers))))) \<le> 1 \<and>
   tm_live (snd (qp_run (cs @ [Call_Stop]) (new_queue_processor poll, no_timers))) = []"
proof -
  have inv: "qp_timers_inv (qp_run cs (new_queue_processor poll, no_timers))"
    by (rule qp_timers_inv_run [OF qp_timers_inv_new])
  have "qp_run (cs @ [Call_Stop]) (new_queue_processor poll, no_timers) =
        qp_stop (qp_run cs (new_queue_processor poll, no_timers))"
    by (simp add: qp_run_def)
  then show ?thesis using qp_timers_inv_poll [OF inv] qp_stop_no_timers [OF inv] by simp
qed

theorem repeated_drains_empty_ready_witness:
  "ready_count (((\<lambda>d. process_queue_for_target d Claude 5) ^^ 1) example_queue_db) Claude 5 =
     ready_count example_queue_db Claude 5 - 10 * 1 \<and> ready_count example_queue_db Claude 5 = 1"
proof -
  have wf: "db_wf example_queue_db" by code_simp
  have on: "is_client_online example_queue_db Claude" by code_simp
  have r: "ready_count example_queue_db Claude 5 = 1" by code_simp
  from repeated_drains_empty_ready [OF wf on, where now = 5 and k = 1] r show ?thesis by simp
qed

end
