(* ===== verification/Identity.thy ===== *)
theory Identity
  imports Prelude
begin

text \<open>
  Client identification of a new session (\<open>identifyClient\<close> and \<open>getOtherClient\<close>,
  src/src/mcp/identity.ts lines 1-23): the \<open>x-client-id\<close> header, then the
  \<open>user-agent\<close>, then the \<open>client\<close> query parameter.
\<close>

definition client_of_literal :: "string option \<Rightarrow> client_id option" where
  "client_of_literal v =
     (if v = Some ''claude'' then Some Claude else if v = Some ''codex'' then Some Codex else None)"

definition identify_client :: "http_request \<Rightarrow> client_id option" where
  "identify_client req =
     (case client_of_literal (req_client_header req) of
        Some c \<Rightarrow> Some c
      | None \<Rightarrow>
          (let ua = (case req_user_agent req of None \<Rightarrow> [] | Some u \<Rightarrow> u) in
           if js_includes ua ''claude-code'' \<or> js_includes ua ''Claude'' then Some Claude
           else if js_includes ua ''codex'' \<or> js_includes ua ''Codex'' then Some Codex
           else client_of_literal (req_query_client req)))"

definition get_other_client :: "client_id \<Rightarrow> client_id" where
  "get_other_client c = (if c = Claude then Codex else Claude)"

lemma client_of_literal_Some:
  "client_of_literal v = Some c \<longleftrightarrow> v = Some (client_name c)"
  by (cases c) (auto simp: client_of_literal_def)


section \<open>Identification order\<close>

text \<open>C29. Identification takes the \<open>x-client-id\<close> header when it is exactly
  \<open>claude\<close> or \<open>codex\<close>; otherwise the user agent (\<open>claude-code\<close> or \<open>Claude\<close>
  for claude, checked first, then \<open>codex\<close> or \<open>Codex\<close>); otherwise the \<open>client\<close> query
  parameter, again only as an exact literal (spec property 8).\<close>
theorem identify_client_order:
  "identify_client req = Some c \<longleftrightarrow>
     req_client_header req = Some (client_name c) \<or>
     (client_of_literal (req_client_header req) = None \<and>
      (let ua = (case req_user_agent req of None \<Rightarrow> [] | Some u \<Rightarrow> u);
           claude_ua = (sublist ''claude-code'' ua \<or> sublist ''Claude'' ua);
           codex_ua = (sublist ''codex'' ua \<or> sublist ''Codex'' ua)
       in (c = Claude \<and> claude_ua) \<or> (c = Codex \<and> \<not> claude_ua \<and> codex_ua) \<or>
          (\<not> claude_ua \<and> \<not> codex_ua \<and> req_query_client req = Some (client_name c))))"
  by (cases c)
     (auto simp: identify_client_def client_of_literal_def Let_def split: option.splits if_splits)

theorem identify_client_order_witness:
  "identify_client \<lparr>req_ip = None, req_host = None, req_origin = None,
                    req_client_header = Some ''codex'', req_user_agent = Some ''claude-code/1.0'',
                    req_query_client = Some ''claude'', req_session_id = None,
                    req_last_event_id = None, req_url = ''/mcp''\<rparr> = Some Codex"
  using identify_client_order [of "\<lparr>req_ip = None, req_host = None, req_origin = None,
                    req_client_header = Some ''codex'', req_user_agent = Some ''claude-code/1.0'',
                    req_query_client = Some ''claude'', req_session_id = None,
                    req_last_event_id = None, req_url = ''/mcp''\<rparr>" Codex]
  by simp

end
