(* ===== verification/Codex_Mcp_Client.thy ===== *)
theory Codex_Mcp_Client
  imports Agents
begin

text \<open>
  The persistent Codex peer (\<open>CodexMcpClient\<close>, src/src/router/codexMcpClient.ts): a
  client of \<open>codex mcp-server\<close> over stdio that remembers, per message id, the Codex
  conversation a reply belongs to. Its state is whether it is connected, the map
  \<open>conversationIds\<close> (an association list, message id to conversation id) and its
  options. The child process and the MCP SDK are the outside world of a call: the tool
  names \<open>listTools\<close> reports (\<open>None\<close> when spawning, connecting or listing throws),
  the result of each tool call (\<open>None\<close> when it throws) and \<open>JSON.parse\<close> (\<open>None\<close>
  when it throws). A \<open>CallToolResult\<close> is the JSON value the SDK hands back; a field
  the code reads as text but which holds another JSON value is read through
  \<open>String(...)\<close>.
\<close>

section \<open>State and options\<close>

text \<open>The base instructions sent with a new conversation: the persona's prompt, the
  built-in \<open>DEFAULT_BASE_INSTRUCTIONS\<close>, or an override from the options.\<close>
datatype base_instructions = Persona_Instructions persona_prompt | Default_Instructions
  | Custom_Instructions string

record codex_mcp_client_opts =
  cmo_codex_path :: "string option"
  cmo_cwd :: "string option"
  cmo_sandbox :: "string option"
  cmo_approval_policy :: "string option"
  cmo_base_instructions :: "string option"

record codex_mcp_client =
  cmc_connected :: bool
  cmc_conversation_ids :: "(string \<times> string) list"
  cmc_codex_path :: string
  cmc_cwd :: string
  cmc_sandbox :: string
  cmc_approval_policy :: string
  cmc_base_instructions :: base_instructions

text \<open>The constructor: each option or its default; \<open>cwd\<close> defaults to the process's
  working directory, an argument.\<close>
definition new_codex_mcp_client :: "string \<Rightarrow> codex_mcp_client_opts \<Rightarrow> codex_mcp_client" where
  "new_codex_mcp_client process_cwd opts =
     \<lparr>cmc_connected = False, cmc_conversation_ids = [],
      cmc_codex_path = (case cmo_codex_path opts of None \<Rightarrow> ''codex'' | Some p \<Rightarrow> p),
      cmc_cwd = (case cmo_cwd opts of None \<Rightarrow> process_cwd | Some c \<Rightarrow> c),
      cmc_sandbox = (case cmo_sandbox opts of None \<Rightarrow> ''workspace-read'' | Some s \<Rightarrow> s),
      cmc_approval_policy = (case cmo_approval_policy opts of None \<Rightarrow> ''never'' | Some a \<Rightarrow> a),
      cmc_base_instructions = (case cmo_base_instructions opts of None \<Rightarrow> Default_Instructions
                               | Some b \<Rightarrow> Custom_Instructions b)\<rparr>"

text \<open>The two tool calls the client makes.\<close>
datatype codex_call =
    Call_Codex string string string base_instructions
  | Call_Codex_Reply string string

record codex_env =
  cxe_list_tools :: "string list option"
  cxe_call_tool :: "codex_call \<Rightarrow> json option"
  cxe_parse :: "string \<Rightarrow> json option"

section \<open>Connection\<close>

definition disconnect :: "codex_mcp_client \<Rightarrow> codex_mcp_client" where
  "disconnect c = c\<lparr>cmc_connected := False\<rparr>"

text \<open>\<open>connect\<close>: nothing to do when connected; else spawn \<open>codex mcp-server\<close>,
  connect and check that a tool named \<open>codex\<close> is offered; any failure disconnects.\<close>
definition connect :: "codex_env \<Rightarrow> codex_mcp_client \<Rightarrow> codex_mcp_client \<times> bool" where
  "connect env c =
     (if cmc_connected c then (c, True)
      else case cxe_list_tools env of
             Some names \<Rightarrow> if ''codex'' \<in> set names then (c\<lparr>cmc_connected := True\<rparr>, True)
                           else (disconnect c, False)
           | None \<Rightarrow> (disconnect c, False))"

section \<open>Reading a tool result\<close>

text \<open>The test of the first loop of \<open>extractResponse\<close>: an object whose \<open>type\<close> is
  \<open>"text"\<close> and that has a \<open>text\<close> member.\<close>
definition text_item :: "json \<Rightarrow> string option" where
  "text_item item =
     (case (js_get item ''type'', js_get item ''text'') of
        (Some (J_Str ty), Some t) \<Rightarrow> if ty = ''text'' then Some (js_String t) else None
      | _ \<Rightarrow> None)"

definition content_items :: "json \<Rightarrow> json list option" where
  "content_items r = (case js_get r ''content'' of Some (J_Arr items) \<Rightarrow> Some items | _ \<Rightarrow> None)"

text \<open>The legacy \<open>toolResult\<close> member: a string, or an object with a \<open>response\<close>.\<close>
definition legacy_result :: "json \<Rightarrow> string option" where
  "legacy_result r =
     (case js_get r ''toolResult'' of
        Some v \<Rightarrow>
          if \<not> js_truthy_json v then None
          else (case v of
                  J_Str s \<Rightarrow> Some s
                | J_Obj _ \<Rightarrow> map_option js_String (js_get v ''response'')
                | J_Arr _ \<Rightarrow> map_option js_String (js_get v ''response'')
                | _ \<Rightarrow> None)
      | None \<Rightarrow> None)"

text \<open>The last resort: the first item's \<open>text\<close>, parsed; its \<open>response\<close> when
  truthy, the text itself when it does not parse (or parses to \<open>null\<close>, whose
  \<open>.response\<close> throws), and nothing otherwise. The code returns \<open>parsed.response\<close>
  itself, typed \<open>string\<close> but unchecked; the model's result is a string, so a truthy
  non-string \<open>response\<close> is read through \<open>String(...)\<close> here. A string
  \<open>response\<close>, the case the server produces, is returned unchanged.\<close>
definition parsed_first_text :: "(string \<Rightarrow> json option) \<Rightarrow> json list \<Rightarrow> string option" where
  "parsed_first_text parse items =
     (case items of
        [] \<Rightarrow> None
      | item # _ \<Rightarrow>
          (case js_get item ''text'' of
             Some t \<Rightarrow>
               if \<not> js_truthy_json t then None
               else (case parse (js_String t) of
                       None \<Rightarrow> Some (js_String t)
                     | Some J_Null \<Rightarrow> Some (js_String t)
                     | Some p \<Rightarrow> (case js_get p ''response'' of
                                    Some v \<Rightarrow> if js_truthy_json v then Some (js_String v) else None
                                  | None \<Rightarrow> None))
           | None \<Rightarrow> None))"

text \<open>\<open>extractResponse\<close>.\<close>
definition extract_response :: "(string \<Rightarrow> json option) \<Rightarrow> json \<Rightarrow> string option" where
  "extract_response parse r =
     (case r of
        J_Obj _ \<Rightarrow>
          (case (case content_items r of Some items \<Rightarrow> first_some text_item items | None \<Rightarrow> None) of
             Some t \<Rightarrow> Some t
           | None \<Rightarrow>
               (case legacy_result r of
                  Some t \<Rightarrow> Some t
                | None \<Rightarrow> (case content_items r of
                             Some items \<Rightarrow> parsed_first_text parse items
                           | None \<Rightarrow> None)))
      | _ \<Rightarrow> None)"

text \<open>The loop of \<open>extractConversationId\<close>: a text item whose text parses to a value
  with a truthy \<open>conversationId\<close>; items that do not parse, or parse to \<open>null\<close>,
  are skipped.\<close>
definition item_conversation_id :: "(string \<Rightarrow> json option) \<Rightarrow> json \<Rightarrow> string option" where
  "item_conversation_id parse item =
     (case (js_get item ''type'', js_get item ''text'') of
        (Some (J_Str ty), Some t) \<Rightarrow>
          if ty = ''text'' \<and> js_truthy_json t then
            (case parse (js_String t) of
               Some p \<Rightarrow> (case js_get p ''conversationId'' of
                            Some v \<Rightarrow> if js_truthy_json v then Some (js_String v) else None
                          | None \<Rightarrow> None)
             | None \<Rightarrow> None)
          else None
      | _ \<Rightarrow> None)"

definition extract_conversation_id :: "(string \<Rightarrow> json option) \<Rightarrow> json \<Rightarrow> string option" where
  "extract_conversation_id parse r =
     (case r of
        J_Obj _ \<Rightarrow>
          (case (case content_items r of Some items \<Rightarrow> first_some (item_conversation_id parse) items
                 | None \<Rightarrow> None) of
             Some cid \<Rightarrow> Some cid
           | None \<Rightarrow>
               (case js_get r ''_meta'' of
                  Some (J_Obj m) \<Rightarrow>
                    (case map_of m ''conversationId'' of
                       Some v \<Rightarrow> if js_truthy_json v then Some (js_String v) else None
                     | None \<Rightarrow> None)
                | _ \<Rightarrow> None))
      | _ \<Rightarrow> None)"

section \<open>Sending a message\<close>

text \<open>The call \<open>sendMessage\<close> makes: \<open>codex-reply\<close> when a conversation is remembered
  for the (non-empty) message id, else \<open>codex\<close> with the persona's instructions and
  sandbox, or the client's.\<close>
definition codex_call_for ::
  "codex_mcp_client \<Rightarrow> string \<Rightarrow> string option \<Rightarrow> agent_persona option \<Rightarrow> codex_call" where
  "codex_call_for c prompt mid persona =
     (let new_call =
          Call_Codex prompt (cmc_approval_policy c)
            (case persona of Some p \<Rightarrow> (case persona_sandbox p of Some s \<Rightarrow> s | None \<Rightarrow> cmc_sandbox c)
             | None \<Rightarrow> cmc_sandbox c)
            (case persona of Some p \<Rightarrow> Persona_Instructions (persona_base_instructions p)
             | None \<Rightarrow> cmc_base_instructions c)
      in case (if js_truthy mid then map_of (cmc_conversation_ids c) (with_default [] mid) else None) of
        Some conv \<Rightarrow> if conv \<noteq> [] then Call_Codex_Reply conv prompt else new_call
      | None \<Rightarrow> new_call)"

text \<open>\<open>sendMessage\<close>: connect on demand; make the call; remember a returned
  conversation id under the message id; on a thrown call, disconnect so that the next
  call reconnects. The answer is the response (empty when none was found) and the
  conversation id.\<close>
definition codex_send_message ::
  "codex_env \<Rightarrow> codex_mcp_client \<Rightarrow> string \<Rightarrow> string option \<Rightarrow> agent_persona option
   \<Rightarrow> codex_mcp_client \<times> (string \<times> string option) option" where
  "codex_send_message env c0 prompt mid persona =
     (let (c, ok) = connect env c0
      in if \<not> ok then (c, None)
         else (case cxe_call_tool env (codex_call_for c prompt mid persona) of
                 None \<Rightarrow> (disconnect c, None)
               | Some r \<Rightarrow>
                   (let resp = extract_response (cxe_parse env) r;
                        cid = extract_conversation_id (cxe_parse env) r;
                        c' = (if js_truthy mid \<and> js_truthy cid
                              then c\<lparr>cmc_conversation_ids := AList.update (with_default [] mid)
                                        (with_default [] cid) (cmc_conversation_ids c)\<rparr>
                              else c)
                    in (c', Some (case resp of None \<Rightarrow> [] | Some t \<Rightarrow> t, cid)))))"

definition set_conversation_id :: "codex_mcp_client \<Rightarrow> string \<Rightarrow> string \<Rightarrow> codex_mcp_client" where
  "set_conversation_id c mid cid = c\<lparr>cmc_conversation_ids := AList.update mid cid (cmc_conversation_ids c)\<rparr>"

definition get_conversation_id :: "codex_mcp_client \<Rightarrow> string \<Rightarrow> string option" where
  "get_conversation_id c mid = map_of (cmc_conversation_ids c) mid"

text \<open>What the dispatcher's first tier receives (\<open>sendMessage(prompt, messageId,
  persona)\<close>): the response, or nothing.\<close>
definition mcp_send_response ::
  "codex_env \<Rightarrow> codex_mcp_client \<Rightarrow> string \<Rightarrow> string \<Rightarrow> agent_persona \<Rightarrow> string option" where
  "mcp_send_response env c prompt mid persona =
     map_option fst (snd (codex_send_message env c prompt (Some mid) (Some persona)))"

section \<open>Examples\<close>

definition example_codex_client :: codex_mcp_client where
  "example_codex_client = new_codex_mcp_client ''/work'' \<lparr>cmo_codex_path = None, cmo_cwd = None,
     cmo_sandbox = None, cmo_approval_policy = None, cmo_base_instructions = None\<rparr>"

text \<open>A reply whose text item is the JSON object \<open>{"response":"hi","conversationId":"k1"}\<close>,
  the parse of that text, and a server that always gives that reply.\<close>
definition example_reply_text :: string where
  "example_reply_text = ''{response:hi,conversationId:k1}''"

definition example_parsed_reply :: json where
  "example_parsed_reply = J_Obj [(''response'', J_Str ''hi''), (''conversationId'', J_Str ''k1'')]"

definition example_reply :: json where
  "example_reply = J_Obj [(''content'', J_Arr [J_Obj [(''type'', J_Str ''text''),
                                                  (''text'', J_Str example_reply_text)]])]"

definition example_codex_env :: codex_env where
  "example_codex_env = \<lparr>cxe_list_tools = Some [''codex'', ''codex-reply''],
     cxe_call_tool = (\<lambda>_. Some example_reply),
     cxe_parse = (\<lambda>t. if t = example_reply_text then Some example_parsed_reply else None)\<rparr>"

section \<open>Lemmas\<close>

lemma connect_keeps_memory:
  "cmc_conversation_ids (fst (connect env c)) = cmc_conversation_ids c"
  by (simp add: connect_def disconnect_def split: option.splits)

lemma codex_send_message_Some:
  assumes "codex_send_message env c prompt mid persona = (c', Some (resp, cid))"
  shows "\<exists>r. cxe_call_tool env (codex_call_for (fst (connect env c)) prompt mid persona) = Some r \<and>
             cid = extract_conversation_id (cxe_parse env) r \<and>
             c' = (if js_truthy mid \<and> js_truthy cid
                   then (fst (connect env c))\<lparr>cmc_conversation_ids := AList.update (with_default [] mid)
                          (with_default [] cid) (cmc_conversation_ids (fst (connect env c)))\<rparr>
                   else fst (connect env c))"
  using assms
  by (auto simp: codex_send_message_def Let_def split: prod.splits if_splits option.splits)

section \<open>Properties\<close>

text \<open>C34. \<open>extractResponse\<close> returns the first text item of a reply verbatim: a reply
  whose text is a JSON object with a \<open>response\<close> member is not unwrapped, although
  the specification says the \<open>response\<close> field is returned when the text parses as
  JSON. The unwrapping code after the loop is reached only when no item is a text item.\<close>
theorem extract_response_text_verbatim:
  assumes "parse t = Some (J_Obj ((''response'', J_Str a) # kvs))"
  shows "extract_response parse (J_Obj [(''content'', J_Arr [J_Obj [(''type'', J_Str ''text''),
                                                             (''text'', J_Str t)]])]) = Some t"
  by (simp add: extract_response_def content_items_def text_item_def)

text \<open>C35. The client remembers the Codex conversation of a message: after a send with
  a non-empty message id whose reply names a conversation, the next send with the same
  message id continues that conversation with \<open>codex-reply\<close>.\<close>
theorem codex_conversation_continues:
  assumes "codex_send_message env c prompt (Some mid) persona = (c', Some (resp, Some cid))"
    and "mid \<noteq> []" and "cid \<noteq> []"
  shows "codex_call_for c' prompt' (Some mid) persona' = Call_Codex_Reply cid prompt'"
proof -
  from codex_send_message_Some [OF assms(1)] assms(2,3)
  have "cmc_conversation_ids c' = AList.update mid cid (cmc_conversation_ids (fst (connect env c)))"
    by (auto simp: js_truthy_def with_default_def)
  with assms(2,3) show ?thesis
    by (simp add: codex_call_for_def js_truthy_def with_default_def update_conv')
qed

text \<open>A send that fails (no connection, or a thrown tool call) leaves the client
  disconnected, so that the next send reconnects, and keeps its conversation memory.\<close>
lemma codex_send_failure_disconnects:
  assumes "codex_send_message env c prompt mid persona = (c', None)"
  shows "\<not> cmc_connected c' \<and> cmc_conversation_ids c' = cmc_conversation_ids c"
  using assms connect_keeps_memory [of env c]
  by (auto simp: codex_send_message_def connect_def disconnect_def Let_def
           split: prod.splits if_splits option.splits)

text \<open>A send with a persona (the dispatcher always passes one) starts a conversation
  with the persona's instructions and, unless the persona names one, the client's
  sandbox: a configured \<open>baseInstructions\<close> override is never sent.\<close>
lemma codex_call_persona_instructions:
  assumes "codex_call_for c prompt mid (Some p) = Call_Codex prompt' ap sb bi"
  shows "bi = Persona_Instructions (persona_base_instructions p)"
  using assms by (auto simp: codex_call_for_def Let_def split: option.splits if_splits)

section \<open>Witnesses\<close>

theorem extract_response_text_verbatim_witness:
  "extract_response (cxe_parse example_codex_env) example_reply = Some example_reply_text"
proof -
  have "cxe_parse example_codex_env example_reply_text =
          Some (J_Obj [(''response'', J_Str ''hi''), (''conversationId'', J_Str ''k1'')])"
    by (simp add: example_codex_env_def example_parsed_reply_def)
  from extract_response_text_verbatim [of "cxe_parse example_codex_env" example_reply_text "''hi''"
          "[(''conversationId'', J_Str ''k1'')]", OF this]
  show ?thesis by (simp add: example_reply_def)
qed

theorem codex_conversation_continues_witness:
  "codex_call_for (fst (codex_send_message example_codex_env example_codex_client ''p'' (Some ''m1'')
       (Some oracle_persona))) ''q'' (Some ''m1'') None = Call_Codex_Reply ''k1'' ''q''"
proof -
  have r: "codex_send_message example_codex_env example_codex_client ''p'' (Some ''m1'') (Some oracle_persona) =
           (fst (codex_send_message example_codex_env example_codex_client ''p'' (Some ''m1'')
              (Some oracle_persona)), Some (example_reply_text, Some ''k1''))"
    by code_simp
  from codex_conversation_continues [OF r] show ?thesis by simp
qed

end
