(* ===== verification/Transport.thy ===== *)
theory Transport
  imports Tool_Server Queue_Processor Identity Codex_Mcp_Client
begin

text \<open>
  The HTTP routes of the bridge (\<open>registerMcpRoutes\<close>, src/src/mcp/http.ts) and the
  process they run in (\<open>runHttpMode\<close>, src/unnamed/part_006). The process state is
  the session map (a JavaScript \<open>Map\<close> in insertion order, as an association list
  from session id to the identified client), the shared \<open>ClientRegistry\<close> and the
  store. The streamable-HTTP transport of the MCP SDK is the outside world: a valid
  \<open>initialize\<close> request makes it call \<open>onsessioninitialized\<close> with a fresh
  session id, a request on a known session reaches the session's MCP server (a tool call
  is \<open>call_tool\<close>), and a closed transport calls \<open>onclose\<close>. Every server built for a
  session is given the same registry object, so a tool call reads the registry as it is
  at the call. The queue processor started by \<open>runHttpMode\<close> and the runtime's
  intervals are part of the state: a queue poll or a cleanup sweep is a step taken while
  its interval is live, and shutdown stops the processor. The processor's
  \<open>onClientOnline\<close> drain runs at the callback that triggers it.
\<close>

section \<open>State and routes\<close>

record session_info =
  si_client :: "client_id option"

record transport_state =
  ts_sessions :: "(string \<times> session_info) list"
  ts_registry :: client_registry
  ts_db :: db
  ts_processor :: "queue_processor \<times> node_timers"

text \<open>The process after \<open>openDb\<close>, \<open>migrate\<close>, \<open>new QueueProcessor(db).start()\<close>
  and \<open>registerMcpRoutes\<close>.\<close>
definition initial_transport :: "timestamp \<Rightarrow> transport_state" where
  "initial_transport now =
     \<lparr>ts_sessions = [], ts_registry = empty_registry, ts_db = initial_db now,
      ts_processor = qp_start (new_queue_processor None, no_timers)\<rparr>"

text \<open>The body of a \<open>POST /mcp\<close> as the routes and the SDK read it.\<close>
datatype mcp_body = Body_Initialize | Body_Tool_Call tool_call tool_env | Body_Other

datatype route_reply =
    Reply_Bad_Request string
  | Reply_Handled
  | Reply_Initialized string
  | Reply_Tool tool_result "memorantado_request list"

text \<open>\<open>onsessioninitialized\<close>: record the session, then for an identified client the
  registry, the \<open>clients\<close> row and the queue drain.\<close>
definition on_session_initialized ::
  "transport_state \<Rightarrow> string \<Rightarrow> client_id option \<Rightarrow> timestamp \<Rightarrow> transport_state" where
  "on_session_initialized st sid c now =
     (let st1 = st\<lparr>ts_sessions := AList.update sid \<lparr>si_client = c\<rparr> (ts_sessions st)\<rparr>
      in case c of
           None \<Rightarrow> st1
         | Some cl \<Rightarrow>
             st1\<lparr>ts_registry := set_online (ts_registry st1) cl sid,
                 ts_db := on_client_online (update_client_status (ts_db st1) cl Online (Some sid) now)
                            cl now\<rparr>)"

text \<open>\<open>transport.onclose\<close>: a transport that never got a session id does nothing; else
  the session's client goes offline in the registry and the store, and the session
  is forgotten.\<close>
definition on_transport_close :: "transport_state \<Rightarrow> string option \<Rightarrow> transport_state" where
  "on_transport_close st sid =
     (case sid of
        None \<Rightarrow> st
      | Some s \<Rightarrow>
          (let st1 = (case map_of (ts_sessions st) s of
                        Some info \<Rightarrow>
                          (case si_client info of
                             Some c \<Rightarrow> st\<lparr>ts_registry := set_offline (ts_registry st) c,
                                          ts_db := set_client_offline (ts_db st) c\<rparr>
                           | None \<Rightarrow> st)
                      | None \<Rightarrow> st)
           in st1\<lparr>ts_sessions := AList.delete s (ts_sessions st1)\<rparr>))"

text \<open>The server a session's requests reach: \<open>createMcpServer\<close> with the session's
  client and the shared registry.\<close>
definition session_server :: "transport_state \<Rightarrow> bool option \<Rightarrow> session_info \<Rightarrow> mcp_server" where
  "session_server st enabled info = create_mcp_server (si_client info) (Some (ts_registry st)) enabled"

text \<open>\<open>POST /mcp\<close>: a request naming a session goes to that session or is refused;
  without a session id only an \<open>initialize\<close> request is accepted, and it opens a
  session under the id the transport generates. \<open>None\<close> when a tool call's wait
  diverges.\<close>
definition post_mcp ::
  "transport_state \<Rightarrow> bool option \<Rightarrow> http_request \<Rightarrow> mcp_body \<Rightarrow> string \<Rightarrow> timestamp
   \<Rightarrow> (transport_state \<times> route_reply) option" where
  "post_mcp st enabled req body fresh now =
     (if js_truthy (req_session_id req) then
        (case map_of (ts_sessions st) (with_default [] (req_session_id req)) of
           None \<Rightarrow> Some (st, Reply_Bad_Request ''Bad Request: Unknown mcp-session-id'')
         | Some info \<Rightarrow>
             (case body of
                Body_Tool_Call call te \<Rightarrow>
                  map_option (\<lambda>(d', r, q). (st\<lparr>ts_db := d'\<rparr>, Reply_Tool r q))
                    (call_tool (session_server st enabled info) te (ts_db st) call)
              | _ \<Rightarrow> Some (st, Reply_Handled)))
      else if body \<noteq> Body_Initialize then
        Some (st, Reply_Bad_Request ''Bad Request: missing mcp-session-id and not an initialize request'')
      else Some (on_session_initialized st fresh (identify_client req) now, Reply_Initialized fresh))"

text \<open>\<open>GET /mcp\<close> and \<open>DELETE /mcp\<close>: the session id must name a live session.\<close>
definition session_route :: "transport_state \<Rightarrow> http_request \<Rightarrow> route_reply" where
  "session_route st req =
     (if js_truthy (req_session_id req) \<and>
         map_of (ts_sessions st) (with_default [] (req_session_id req)) \<noteq> None
      then Reply_Handled else Reply_Bad_Request ''Invalid or missing mcp-session-id'')"

text \<open>\<open>GET /status\<close>: the sessions in insertion order with their clients.\<close>
definition status_route :: "transport_state \<Rightarrow> (string \<times> client_id option) list \<times> nat" where
  "status_route st = (map (\<lambda>(sid, info). (sid, si_client info)) (ts_sessions st), length (ts_sessions st))"

text \<open>\<open>GET /health\<close> (\<open>runHttpMode\<close>): always \<open>status: ok\<close>, with the knowledge
  graph's availability as \<open>isAvailable\<close> reports it.\<close>
definition health_route :: "json fetch_outcome \<Rightarrow> json" where
  "health_route r =
     J_Obj [(''status'', J_Str ''ok''),
            (''memorantado'', J_Str (if is_available r then ''available'' else ''unavailable''))]"

text \<open>The \<open>onClose\<close> hook: every identified session's client offline, then the map
  and the registry cleared.\<close>
definition close_all :: "transport_state \<Rightarrow> transport_state" where
  "close_all st =
     (let st1 = fold (\<lambda>(sid, info) st. case si_client info of
                          None \<Rightarrow> st
                        | Some c \<Rightarrow> st\<lparr>ts_registry := set_offline (ts_registry st) c,
                                     ts_db := set_client_offline (ts_db st) c\<rparr>)
                     (ts_sessions st) st
      in st1\<lparr>ts_sessions := [], ts_registry := clear_registry (ts_registry st1)\<rparr>)"

text \<open>Shutdown (\<open>app.close()\<close>) runs the two \<open>onClose\<close> hooks: the routes' hook
  (\<open>close_all\<close>, src/src/mcp/http.ts) and \<open>runHttpMode\<close>'s, which calls
  \<open>queueProcessor.stop()\<close>. They touch disjoint parts of the state.\<close>
definition shutdown :: "transport_state \<Rightarrow> transport_state" where
  "shutdown st = (close_all st)\<lparr>ts_processor := qp_stop (ts_processor st)\<rparr>"

section \<open>Process configuration (\<open>src/main.ts\<close>)\<close>

text \<open>The settings read from the environment and the command line. The port is kept
  as the text \<open>Number(...)\<close> is applied to.\<close>
record process_config =
  pc_port :: string
  pc_stdio_mode :: bool
  pc_codex_mcp_enabled :: bool
  pc_codex_path :: string
  pc_codex_sandbox :: string
  pc_codex_approval_policy :: string
  pc_codex_base_instructions :: "string option"

definition process_config_of :: "(string \<Rightarrow> string option) \<Rightarrow> string list \<Rightarrow> process_config" where
  "process_config_of env argv =
     \<lparr>pc_port = with_default ''3790'' (env ''TULAYNGMAMAMO_PORT''),
      pc_stdio_mode = (''--stdio'' \<in> set argv),
      pc_codex_mcp_enabled = (env ''TULAYNGMAMAMO_CODEX_MCP_ENABLED'' \<noteq> Some ''false''),
      pc_codex_path = with_default ''codex'' (env ''TULAYNGMAMAMO_CODEX_PATH''),
      pc_codex_sandbox = with_default ''workspace-read'' (env ''TULAYNGMAMAMO_CODEX_SANDBOX''),
      pc_codex_approval_policy = with_default ''never'' (env ''TULAYNGMAMAMO_CODEX_APPROVAL_POLICY''),
      pc_codex_base_instructions = env ''TULAYNGMAMAMO_CODEX_BASE_INSTRUCTIONS''\<rparr>"

text \<open>\<open>path.join\<close> of a directory and a plain file name, for a directory in the
  normalised form \<open>os.homedir()\<close> returns: one separator between them.\<close>
definition path_join :: "string \<Rightarrow> string \<Rightarrow> string" where
  "path_join a b = (if a = [] then b else if last a = CHR ''/'' then a @ b else a @ ''/'' @ b)"

text \<open>\<open>resolveDbPath\<close> (src/src/db/db.ts): \<open>TULAYNGMAMAMO_DB\<close> when it is set and
  non-empty; otherwise \<open>~/.tulayngmamamo/tulayngmamamo.sqlite\<close>, after creating its
  directory (the second component, \<open>mkdirSync(dir, {recursive: true, mode: 0o700})\<close>).\<close>
definition resolve_db_path :: "(string \<Rightarrow> string option) \<Rightarrow> string \<Rightarrow> string \<times> string option" where
  "resolve_db_path env home =
     (if js_truthy (env ''TULAYNGMAMAMO_DB'') then (with_default [] (env ''TULAYNGMAMAMO_DB''), None)
      else (let dir = path_join home ''.tulayngmamamo''
            in (path_join dir ''tulayngmamamo.sqlite'', Some dir)))"

text \<open>The options both modes pass for the persistent Codex peer.\<close>
definition codex_client_opts_of :: "process_config \<Rightarrow> codex_mcp_client_opts" where
  "codex_client_opts_of cfg =
     \<lparr>cmo_codex_path = Some (pc_codex_path cfg), cmo_cwd = None,
      cmo_sandbox = Some (pc_codex_sandbox cfg), cmo_approval_policy = Some (pc_codex_approval_policy cfg),
      cmo_base_instructions = pc_codex_base_instructions cfg\<rparr>"

text \<open>\<open>runStdioMode\<close>: one server, identified as Claude, with no registry.\<close>
definition stdio_server :: "process_config \<Rightarrow> mcp_server" where
  "stdio_server cfg = create_mcp_server (Some Claude) None (Some (pc_codex_mcp_enabled cfg))"

section \<open>The process as a transition system\<close>

text \<open>One step of the running process: a \<open>POST /mcp\<close> (a fresh session id is one no
  live session has), a transport closing, a tick of the queue processor's poll interval
  or of its cleanup interval (each only while that interval is live), and \<open>shutdown\<close>.
  Requests may still follow a shutdown in the model (Fastify refuses them): an
  over-approximation under which the invariants hold a fortiori.\<close>
inductive transport_step :: "bool option \<Rightarrow> transport_state \<Rightarrow> transport_state \<Rightarrow> bool" where
  post: "fresh \<notin> fst ` set (ts_sessions st) \<Longrightarrow>
         post_mcp st enabled req body fresh now = Some (st', reply) \<Longrightarrow> transport_step enabled st st'"
| close: "transport_step enabled st (on_transport_close st sid)"
| poll: "(h, Poll_Tick, ms) \<in> set (tm_live (snd (ts_processor st))) \<Longrightarrow>
         transport_step enabled st (st\<lparr>ts_db := process_queue (ts_db st) now\<rparr>)"
| sweep: "(h, Cleanup_Tick, ms) \<in> set (tm_live (snd (ts_processor st))) \<Longrightarrow>
          transport_step enabled st (st\<lparr>ts_db := cleanup_tick (ts_db st)\<rparr>)"
| shutdown: "transport_step enabled st (shutdown st)"

inductive transport_reachable :: "bool option \<Rightarrow> transport_state \<Rightarrow> bool" where
  start: "transport_reachable enabled (initial_transport now)"
| step: "transport_reachable enabled st \<Longrightarrow> transport_step enabled st st' \<Longrightarrow>
         transport_reachable enabled st'"

inductive_cases transport_step_cases: "transport_step enabled st st'"

section \<open>Invariant of the running process\<close>

text \<open>The registry names only live sessions of the client it files them under.\<close>
definition registry_sound :: "transport_state \<Rightarrow> bool" where
  "registry_sound st \<longleftrightarrow>
     list_all (\<lambda>(c, sid). map_of (ts_sessions st) sid = Some \<lparr>si_client = Some c\<rparr>)
              (active_sessions (ts_registry st))"

definition transport_inv :: "transport_state \<Rightarrow> bool" where
  "transport_inv st \<longleftrightarrow> registry_sound st \<and> db_wf (ts_db st)"

section \<open>Examples\<close>

definition example_claude_init :: http_request where
  "example_claude_init =
     \<lparr>req_ip = Some ''127.0.0.1'', req_host = Some ''127.0.0.1:3790'', req_origin = None,
      req_client_header = Some ''claude'', req_user_agent = None, req_query_client = None,
      req_session_id = None, req_last_event_id = None, req_url = ''/mcp''\<rparr>"

text \<open>Claude connects twice (a reconnect opens \<open>S2\<close> before the transport of
  \<open>S1\<close> is closed), then the old transport closes.\<close>
definition example_reconnect_states :: "transport_state list" where
  "example_reconnect_states =
     (let st1 = on_session_initialized (initial_transport 0) ''S1'' (Some Claude) 1;
          st2 = on_session_initialized st1 ''S2'' (Some Claude) 2
      in [st1, st2, on_transport_close st2 (Some ''S1'')])"

text \<open>The process with a message queued for Claude while Claude is offline.\<close>
definition example_offline_state :: transport_state where
  "example_offline_state = (initial_transport 0)\<lparr>ts_db := example_single_try_db\<rparr>"

section \<open>Lemmas\<close>

lemma set_alist_delete: "set (AList.delete k al) = {p \<in> set al. fst p \<noteq> k}"
  by (auto simp: AList.delete_eq)

lemma registry_sound_db [simp]: "registry_sound (st\<lparr>ts_db := d\<rparr>) = registry_sound st"
  by (simp add: registry_sound_def)

lemma registry_sound_initialized:
  assumes inv: "registry_sound st" and fresh: "sid \<notin> fst ` set (ts_sessions st)"
  shows "registry_sound (on_session_initialized st sid c now)"
proof -
  have "map_of (ts_sessions st) sid = None" using fresh by (simp add: map_of_eq_None_iff)
  then have keep: "map_of (ts_sessions st) s = Some x \<Longrightarrow> s \<noteq> sid" for s x by auto
  have old: "list_all (\<lambda>(c', s). map_of (AList.update sid \<lparr>si_client = c\<rparr> (ts_sessions st)) s =
                                 Some \<lparr>si_client = Some c'\<rparr>) (active_sessions (ts_registry st))"
    using inv keep by (fastforce simp: registry_sound_def list_all_iff update_conv')
  show ?thesis
  proof (cases c)
    case None
    with old show ?thesis by (simp add: on_session_initialized_def registry_sound_def)
  next
    case (Some cl)
    with old show ?thesis
      by (simp add: on_session_initialized_def registry_sound_def set_online_def Let_def
                    list_all_update update_conv')
  qed
qed

lemma registry_sound_close:
  assumes inv: "registry_sound st"
  shows "registry_sound (on_transport_close st sid)"
proof (cases sid)
  case (Some s)
  show ?thesis
  proof (cases "map_of (ts_sessions st) s")
    case None
    with inv show ?thesis
      by (auto simp: on_transport_close_def \<open>sid = Some s\<close> registry_sound_def list_all_iff
                     delete_conv')
  next
    case (Some info)
    note found = this
    show ?thesis
    proof (cases "si_client info")
      case None
      have "(c', s) \<notin> set (active_sessions (ts_registry st))" for c'
        using inv found None by (force simp: registry_sound_def list_all_iff)
      with found None inv show ?thesis
        by (auto simp: on_transport_close_def \<open>sid = Some s\<close> registry_sound_def list_all_iff
                       delete_conv')
    next
      case (Some c)
      have kept: "map_of (AList.delete s (ts_sessions st)) b = Some \<lparr>si_client = Some a\<rparr>"
        if "(a, b) \<in> set (active_sessions (ts_registry st))" and "a \<noteq> c" for a b
      proof -
        from inv that(1) have m: "map_of (ts_sessions st) b = Some \<lparr>si_client = Some a\<rparr>"
          by (auto simp: registry_sound_def list_all_iff)
        with found Some that(2) have "b \<noteq> s" by auto
        with m show ?thesis by (simp add: delete_conv')
      qed
      with found Some show ?thesis
        by (auto simp: on_transport_close_def \<open>sid = Some s\<close> registry_sound_def list_all_iff
                       set_offline_def set_alist_delete)
    qed
  qed
qed (simp add: on_transport_close_def inv)

lemma db_wf_initialized:
  assumes wf: "db_wf (ts_db st)"
  shows "db_wf (ts_db (on_session_initialized st sid c now))"
proof (cases c)
  case None
  with wf show ?thesis by (simp add: on_session_initialized_def)
next
  case (Some cl)
  have "db_wf (on_client_online (update_client_status (ts_db st) cl Online (Some sid) now) cl now)"
    unfolding on_client_online_def
    by (intro db_wf_process_queue_for_target db_wf_update_client_status wf)
  with Some show ?thesis by (simp add: on_session_initialized_def Let_def)
qed

lemma db_wf_close:
  assumes wf: "db_wf (ts_db st)"
  shows "db_wf (ts_db (on_transport_close st sid))"
proof -
  have "db_wf (set_client_offline (ts_db st) c)" for c using wf by (rule db_wf_set_client_offline)
  with wf show ?thesis by (simp add: on_transport_close_def Let_def split: option.splits)
qed

lemma close_all_inv: "db_wf (ts_db st) \<Longrightarrow> transport_inv (close_all st)"
proof -
  let ?f = "\<lambda>(sid, info) st. case si_client info of None \<Rightarrow> st
              | Some c \<Rightarrow> st\<lparr>ts_registry := set_offline (ts_registry st) c,
                           ts_db := set_client_offline (ts_db st) c\<rparr>"
  have "db_wf (ts_db st') \<Longrightarrow> db_wf (ts_db (fold ?f ss st'))" for ss st'
  proof (induction ss arbitrary: st')
    case (Cons p ss)
    obtain sid info where p: "p = (sid, info)" by fastforce
    show ?case
    proof (cases "si_client info")
      case None
      with Cons p show ?thesis by simp
    next
      case (Some c)
      have "db_wf (set_client_offline (ts_db st') c)"
        using Cons.prems by (rule db_wf_set_client_offline)
      with Cons.IH p Some show ?thesis by simp
    qed
  qed simp
  then show "db_wf (ts_db st) \<Longrightarrow> ?thesis"
    by (simp add: close_all_def transport_inv_def registry_sound_def clear_registry_def Let_def)
qed

lemma post_mcp_inv:
  assumes inv: "transport_inv st" and fresh: "fresh \<notin> fst ` set (ts_sessions st)"
    and post: "post_mcp st enabled req body fresh now = Some (st', reply)"
  shows "transport_inv st'"
proof (cases "js_truthy (req_session_id req)")
  case True
  show ?thesis
  proof (cases "map_of (ts_sessions st) (with_default [] (req_session_id req))")
    case None
    with True post inv show ?thesis by (simp add: post_mcp_def)
  next
    case (Some info)
    show ?thesis
    proof (cases body)
      case (Body_Tool_Call call te)
      from post True Some Body_Tool_Call
      have "map_option (\<lambda>(d', r, q). (st\<lparr>ts_db := d'\<rparr>, Reply_Tool r q))
              (call_tool (session_server st enabled info) te (ts_db st) call) = Some (st', reply)"
        by (simp add: post_mcp_def)
      then obtain d' r q where c: "call_tool (session_server st enabled info) te (ts_db st) call = Some (d', r, q)"
        and st': "st' = st\<lparr>ts_db := d'\<rparr>" by auto
      from inv db_wf_call_tool [OF _ c] show ?thesis by (simp add: st' transport_inv_def)
    next
      case Body_Initialize
      with True Some post inv show ?thesis by (simp add: post_mcp_def)
    next
      case Body_Other
      with True Some post inv show ?thesis by (simp add: post_mcp_def)
    qed
  qed
next
  case False
  show ?thesis
  proof (cases "body = Body_Initialize")
    case True
    with False post have "st' = on_session_initialized st fresh (identify_client req) now"
      by (simp add: post_mcp_def)
    with inv fresh show ?thesis
      by (simp add: transport_inv_def registry_sound_initialized db_wf_initialized)
  next
    case nb: False
    with False post inv show ?thesis by (simp add: post_mcp_def)
  qed
qed

lemma transport_inv_step:
  "transport_step enabled st st' \<Longrightarrow> transport_inv st \<Longrightarrow> transport_inv st'"
proof (induction rule: transport_step.induct)
  case (post fresh st enabled req body now st' reply)
  show ?case by (rule post_mcp_inv [OF post.prems post.hyps])
next
  case (close enabled st sid)
  then show ?case by (simp add: transport_inv_def registry_sound_close db_wf_close)
next
  case (shutdown enabled st)
  then have "db_wf (ts_db st)" by (simp add: transport_inv_def)
  then have "transport_inv (close_all st)" by (rule close_all_inv)
  then show ?case by (simp add: shutdown_def transport_inv_def registry_sound_def)
next
  case (poll h ms st enabled now)
  then show ?case by (simp add: transport_inv_def db_wf_process_queue)
next
  case (sweep h ms st enabled)
  then show ?case by (simp add: transport_inv_def db_wf_cleanup_tick)
qed

lemma transport_inv_initial: "transport_inv (initial_transport now)"
  by (simp add: transport_inv_def initial_transport_def registry_sound_def empty_registry_def db_wf_initial)

lemma on_transport_close_processor [simp]: "ts_processor (on_transport_close st sid) = ts_processor st"
  by (simp add: on_transport_close_def Let_def split: option.splits)

lemma on_session_initialized_processor [simp]:
  "ts_processor (on_session_initialized st sid c now) = ts_processor st"
  by (simp add: on_session_initialized_def Let_def split: option.splits)

lemma post_mcp_processor:
  "post_mcp st enabled req body fresh now = Some (st', reply) \<Longrightarrow> ts_processor st' = ts_processor st"
  by (auto simp: post_mcp_def split: if_splits option.splits mcp_body.splits)

text \<open>The process owns exactly the queue processor's intervals: both from the start until
  shutdown, none after.\<close>
lemma transport_reachable_timers:
  "transport_reachable enabled st \<Longrightarrow> qp_timers_inv (ts_processor st)"
proof (induction rule: transport_reachable.induct)
  case (start now)
  show ?case by (simp add: initial_transport_def qp_timers_inv_start qp_timers_inv_new)
next
  case (step st st')
  from step.hyps(2) step.IH show ?case
    by (cases rule: transport_step.cases)
       (auto simp: shutdown_def dest: post_mcp_processor intro: qp_timers_inv_stop)
qed

lemma dequeue_update_client_status [simp]:
  "dequeue_messages (update_client_status d c st sid now) t n now' = dequeue_messages d t n now'"
  by (simp add: dequeue_messages_def update_client_status_def)

text \<open>A session opened by an identified client: the registry and the clients row name it,
  and the drain it triggers delivers every row \<open>dequeueMessages\<close> hands the client.\<close>
lemma initialized_delivers:
  assumes wf: "db_wf (ts_db st)" and e: "e \<in> set (dequeue_messages (ts_db st) c 10 now)"
  shows "get_session_id (ts_registry (on_session_initialized st sid (Some c) now)) c = Some sid \<and>
         is_client_online (ts_db (on_session_initialized st sid (Some c) now)) c \<and>
         q_message_id e \<notin> q_message_id ` set (db_queue (ts_db (on_session_initialized st sid (Some c) now))) \<and>
         (\<exists>m. get_message (ts_db (on_session_initialized st sid (Some c) now)) (q_message_id e) = Some m \<and>
              msg_status m = Delivered)"
proof -
  let ?d1 = "update_client_status (ts_db st) c Online (Some sid) now"
  have wf1: "db_wf ?d1" using wf by (rule db_wf_update_client_status)
  have on: "is_client_online ?d1 c" by (simp add: is_client_online_def update_client_status_def)
  have e1: "e \<in> set (dequeue_messages ?d1 c 10 now)" using e by simp
  have db: "ts_db (on_session_initialized st sid (Some c) now) = process_queue_for_target ?d1 c now"
    by (simp add: on_session_initialized_def on_client_online_def Let_def)
  have "is_client_online (process_queue_for_target ?d1 c now) c"
    using on process_queue_for_target_eq [OF wf1, of c now] by (simp add: is_client_online_def)
  with process_queue_for_target_delivers [OF wf1 on e1] db show ?thesis
    by (simp add: on_session_initialized_def Let_def)
qed

section \<open>Properties of the running process\<close>

text \<open>C2. In every state the running process reaches, whatever requests arrive, in
  whatever order, interleaved with transport closes, queue polls, cleanup sweeps and
  shutdown, the registry names only live sessions of the client it files them under,
  and the store is well formed.\<close>
theorem transport_reachable_inv:
  "transport_reachable enabled st \<Longrightarrow> registry_sound st \<and> db_wf (ts_db st)"
proof (induction rule: transport_reachable.induct)
  case (start now) show ?case using transport_inv_initial by (simp add: transport_inv_def)
next
  case (step st st')
  then show ?case using transport_inv_step by (auto simp: transport_inv_def)
qed

text \<open>C3. Shutdown ends the process's activity: from every state the running process
  reaches, the shutdown step leaves no session, an empty registry and none of the queue
  processor's intervals, so no queue poll or cleanup sweep can follow it.\<close>
theorem shutdown_stops_process:
  "transport_reachable enabled st \<Longrightarrow>
     ts_sessions (shutdown st) = [] \<and> active_sessions (ts_registry (shutdown st)) = [] \<and>
     tm_live (snd (ts_processor (shutdown st))) = []"
proof -
  assume "transport_reachable enabled st"
  then have "qp_timers_inv (ts_processor st)" by (rule transport_reachable_timers)
  then have "tm_live (snd (qp_stop (ts_processor st))) = []" by (rule qp_stop_no_timers)
  then show ?thesis
    by (simp add: shutdown_def close_all_def Let_def clear_registry_def)
qed

text \<open>C4. Opening a session drains the client's queue: an \<open>initialize\<close> request without
  a session id that identifies client \<open>c\<close> is answered with the fresh session, the
  registry and the \<open>clients\<close> row then show \<open>c\<close> online under it, and every queued row
  that \<open>dequeueMessages\<close> hands \<open>c\<close> (the at most ten ready rows, highest priority
  first) has left the queue with its message delivered.\<close>
theorem initialize_delivers_queued:
  assumes inv: "transport_inv st"
    and req: "\<not> js_truthy (req_session_id req)" "identify_client req = Some c"
    and e: "e \<in> set (dequeue_messages (ts_db st) c 10 now)"
  shows "\<exists>st'. post_mcp st enabled req Body_Initialize fresh now = Some (st', Reply_Initialized fresh) \<and>
           get_session_id (ts_registry st') c = Some fresh \<and> is_client_online (ts_db st') c \<and>
           q_message_id e \<notin> q_message_id ` set (db_queue (ts_db st')) \<and>
           (\<exists>m. get_message (ts_db st') (q_message_id e) = Some m \<and> msg_status m = Delivered)"
proof -
  have wf: "db_wf (ts_db st)" using inv by (simp add: transport_inv_def)
  have "post_mcp st enabled req Body_Initialize fresh now =
          Some (on_session_initialized st fresh (Some c) now, Reply_Initialized fresh)"
    using req by (simp add: post_mcp_def)
  with initialized_delivers [OF wf e, of fresh] show ?thesis by blast
qed

text \<open>C20. The converse fails: when a client reconnects (a second session opens before
  the first transport closes) and the old transport then closes, \<open>onclose\<close> removes the
  client from the registry and marks its row offline although its new session is live.
  The dispatcher then treats the client as unreachable.\<close>
theorem reconnect_leaves_live_session_offline:
  "\<exists>st. transport_reachable enabled st \<and>
        map_of (ts_sessions st) ''S2'' = Some \<lparr>si_client = Some Claude\<rparr> \<and>
        \<not> is_online (ts_registry st) Claude \<and> \<not> is_client_online (ts_db st) Claude \<and>
        \<not> target_online (srv_dispatcher (session_server st enabled \<lparr>si_client = Some Codex\<rparr>)) Claude"
proof -
  define st0 where "st0 = initial_transport 0"
  define st1 where "st1 = on_session_initialized st0 ''S1'' (Some Claude) 1"
  define st2 where "st2 = on_session_initialized st1 ''S2'' (Some Claude) 2"
  define st3 where "st3 = on_transport_close st2 (Some ''S1'')"
  have id: "identify_client example_claude_init = Some Claude"
    by (simp add: identify_client_def example_claude_init_def client_of_literal_def)
  have p1: "post_mcp st0 enabled example_claude_init Body_Initialize ''S1'' 1 =
            Some (st1, Reply_Initialized ''S1'')"
    by (simp add: post_mcp_def st1_def id) (simp add: example_claude_init_def js_truthy_def)
  have p2: "post_mcp st1 enabled example_claude_init Body_Initialize ''S2'' 2 =
            Some (st2, Reply_Initialized ''S2'')"
    by (simp add: post_mcp_def st2_def id) (simp add: example_claude_init_def js_truthy_def)
  have s1: "ts_sessions st1 = [(''S1'', \<lparr>si_client = Some Claude\<rparr>)]"
    by (simp add: st1_def st0_def on_session_initialized_def initial_transport_def Let_def)
  have r0: "transport_reachable enabled st0" unfolding st0_def by (rule transport_reachable.start)
  have r1: "transport_reachable enabled st1"
    using r0 transport_step.post [OF _ p1] by (auto simp: st0_def initial_transport_def
                                                 intro: transport_reachable.step)
  have r2: "transport_reachable enabled st2"
    using r1 transport_step.post [OF _ p2] s1 by (auto intro: transport_reachable.step)
  have r3: "transport_reachable enabled st3"
    unfolding st3_def using r2 transport_step.close by (rule transport_reachable.step)
  have sess: "map_of (ts_sessions st3) ''S2'' = Some \<lparr>si_client = Some Claude\<rparr>"
    by (simp add: st3_def st2_def s1 on_transport_close_def on_session_initialized_def Let_def)
  have reg: "\<not> is_online (ts_registry st3) Claude"
    by (simp add: st3_def st2_def s1 on_transport_close_def on_session_initialized_def Let_def
                  is_online_get_session_id)
  have row: "\<not> is_client_online (ts_db st3) Claude"
    by (simp add: st3_def st2_def s1 on_transport_close_def on_session_initialized_def Let_def
                  is_client_online_def set_client_offline_def)
  have "\<not> target_online (srv_dispatcher (session_server st3 enabled \<lparr>si_client = Some Codex\<rparr>)) Claude"
    using reg by (simp add: session_server_def create_mcp_server_def new_dispatcher_def target_online_def)
  with r3 sess reg row show ?thesis by blast
qed

section \<open>Witnesses\<close>

theorem transport_reachable_inv_witness:
  "registry_sound (initial_transport 0) \<and> db_wf (ts_db (initial_transport 0))"
  by (rule transport_reachable_inv) (rule transport_reachable.start)

theorem shutdown_stops_process_witness:
  "ts_sessions (shutdown (initial_transport 0)) = [] \<and>
   active_sessions (ts_registry (shutdown (initial_transport 0))) = [] \<and>
   tm_live (snd (ts_processor (shutdown (initial_transport 0)))) = []"
  by (rule shutdown_stops_process) (rule transport_reachable.start)

theorem initialize_delivers_queued_witness:
  "\<exists>st'. post_mcp example_offline_state None example_claude_init Body_Initialize ''S1'' 5 =
           Some (st', Reply_Initialized ''S1'') \<and>
         get_session_id (ts_registry st') Claude = Some ''S1'' \<and> is_client_online (ts_db st') Claude \<and>
         ''m1'' \<notin> q_message_id ` set (db_queue (ts_db st')) \<and>
         (\<exists>m. get_message (ts_db st') ''m1'' = Some m \<and> msg_status m = Delivered)"
proof -
  have db: "ts_db example_offline_state = example_single_try_db"
    by (simp add: example_offline_state_def)
  have wf: "db_wf example_single_try_db" by code_simp
  have inv: "transport_inv example_offline_state"
    using transport_inv_initial [of 0] wf by (simp add: example_offline_state_def transport_inv_def)
  let ?e = "hd (dequeue_messages example_single_try_db Claude 10 5)"
  have ne: "dequeue_messages example_single_try_db Claude 10 5 \<noteq> []" by code_simp
  have e: "?e \<in> set (dequeue_messages (ts_db example_offline_state) Claude 10 5)"
    using ne by (simp add: db)
  have mid: "q_message_id ?e = ''m1''" by code_simp
  have id: "identify_client example_claude_init = Some Claude"
    by (simp add: identify_client_def example_claude_init_def client_of_literal_def)
  have nos: "\<not> js_truthy (req_session_id example_claude_init)"
    by (simp add: example_claude_init_def js_truthy_def)
  from initialize_delivers_queued [OF inv nos id e, of None "''S1''"] show ?thesis
    by (simp only: mid)
qed

end
