(* ===== verification/Event_Store.thy ===== *)
theory Event_Store
  imports Prelude
begin

text \<open>
  The in-memory SSE event store of a session (\<open>InMemoryEventStore\<close>,
  src/unnamed/part_000, staged as src/mcp/eventStore.ts). Per stream it keeps the next
  sequence number, the events in order and an index from event id to position in the
  event array; the JavaScript \<open>Map\<close>s are association lists (insertion ordered, one entry
  per key), \<open>indexById.size\<close> is the length of the list. The payload type is a type
  parameter, and the clock reading \<open>Date.now()\<close> is an argument.
\<close>

record 'm event_record =
  ev_id :: string
  ev_ts :: int
  ev_message :: 'm

record 'm stream_state =
  next_seq :: nat
  events :: "'m event_record list"
  index_by_id :: "(string \<times> nat) list"

record 'm event_store =
  es_streams :: "(string \<times> 'm stream_state) list"
  es_ttl_ms :: int
  es_max_events :: nat

definition new_event_store :: "int option \<Rightarrow> nat option \<Rightarrow> 'm event_store" where
  "new_event_store ttl max_ev =
     \<lparr>es_streams = [], es_ttl_ms = (case ttl of None \<Rightarrow> 15 * 60 * 1000 | Some t \<Rightarrow> t),
      es_max_events = (case max_ev of None \<Rightarrow> 5000 | Some n \<Rightarrow> n)\<rparr>"

definition empty_stream :: "'m stream_state" where
  "empty_stream = \<lparr>next_seq = 1, events = [], index_by_id = []\<rparr>"

definition make_event_id :: "string \<Rightarrow> nat \<Rightarrow> string" where
  "make_event_id sid seq = sid @ CHR '':'' # string_of_nat seq"

text \<open>\<open>parseStreamId\<close>: the text before the first colon, or \<open>""\<close> without a colon.\<close>
definition parse_stream_id :: "string \<Rightarrow> string" where
  "parse_stream_id eid =
     (if CHR '':'' \<in> set eid then takeWhile (\<lambda>c. c \<noteq> CHR '':'') eid else [])"

text \<open>The sequence number an id carries after its first colon (not a function of the
  source; used to state the ordering guarantee).\<close>
definition seq_of_event_id :: "string \<Rightarrow> nat" where
  "seq_of_event_id eid = nat_of_digits (drop 1 (dropWhile (\<lambda>c. c \<noteq> CHR '':'') eid))"

section \<open>Pruning (\<open>pruneStream\<close>)\<close>

text \<open>The TTL loop: shift expired events off the head, deleting each one's index entry.\<close>
fun ttl_shift :: "int \<Rightarrow> 'm event_record list \<Rightarrow> (string \<times> nat) list
                   \<Rightarrow> 'm event_record list \<times> (string \<times> nat) list" where
  "ttl_shift cutoff [] ix = ([], ix)"
| "ttl_shift cutoff (e # es) ix =
     (if ev_ts e < cutoff then ttl_shift cutoff es (AList.delete (ev_id e) ix) else (e # es, ix))"

text \<open>The overflow loop: shift \<open>n\<close> events off the head, deleting their index entries.\<close>
fun shift_n :: "nat \<Rightarrow> 'm event_record list \<Rightarrow> (string \<times> nat) list
                \<Rightarrow> 'm event_record list \<times> (string \<times> nat) list" where
  "shift_n 0 es ix = (es, ix)"
| "shift_n (Suc n) [] ix = ([], ix)"
| "shift_n (Suc n) (e # es) ix = shift_n n es (AList.delete (ev_id e) ix)"

text \<open>\<open>indexById.clear(); events.forEach((ev, idx) => indexById.set(ev.id, idx))\<close>.\<close>
definition rebuild_index :: "'m event_record list \<Rightarrow> (string \<times> nat) list" where
  "rebuild_index es = fold (\<lambda>(k, v). AList.update k v) (zip (map ev_id es) [0..<length es]) []"

definition prune_state :: "int \<Rightarrow> nat \<Rightarrow> int \<Rightarrow> 'm stream_state \<Rightarrow> 'm stream_state" where
  "prune_state ttl max_ev now s =
     (let (es1, ix1) = ttl_shift (now - ttl) (events s) (index_by_id s);
          ix2 = (if length ix1 \<noteq> length es1 then rebuild_index es1 else ix1);
          (es3, ix3) = (if max_ev < length es1
                        then (let (es', ix') = shift_n (length es1 - max_ev) es1 ix2
                              in (es', rebuild_index es'))
                        else (es1, ix2))
      in s\<lparr>events := es3, index_by_id := ix3\<rparr>)"

definition prune_stream :: "'m event_store \<Rightarrow> string \<Rightarrow> int \<Rightarrow> 'm event_store" where
  "prune_stream st sid now =
     (case map_of (es_streams st) sid of
        None \<Rightarrow> st
      | Some s \<Rightarrow> st\<lparr>es_streams := AList.update sid (prune_state (es_ttl_ms st) (es_max_events st) now s)
                                     (es_streams st)\<rparr>)"

section \<open>Storing and replaying\<close>

definition push_event :: "string \<Rightarrow> 'm \<Rightarrow> int \<Rightarrow> 'm stream_state \<Rightarrow> 'm stream_state \<times> string" where
  "push_event sid msg now s =
     (let eid = make_event_id sid (next_seq s)
      in (s\<lparr>next_seq := Suc (next_seq s),
            index_by_id := AList.update eid (length (events s)) (index_by_id s),
            events := events s @ [\<lparr>ev_id = eid, ev_ts = now, ev_message = msg\<rparr>]\<rparr>, eid))"

text \<open>\<open>storeEvent\<close>: create the stream if needed, prune it, then append the event under
  the next sequence number.\<close>
definition store_event :: "'m event_store \<Rightarrow> string \<Rightarrow> 'm \<Rightarrow> int \<Rightarrow> 'm event_store \<times> string" where
  "store_event st sid msg now =
     (let s0 = (case map_of (es_streams st) sid of None \<Rightarrow> empty_stream | Some s \<Rightarrow> s);
          s1 = prune_state (es_ttl_ms st) (es_max_events st) now s0;
          (s2, eid) = push_event sid msg now s1
      in (st\<lparr>es_streams := AList.update sid s2 (es_streams st)\<rparr>, eid))"

text \<open>\<open>replayEventsAfter\<close>: the events sent (id and payload, in order) and the stream id
  returned, \<open>""\<close> when no replay is possible.\<close>
definition replay_events_after ::
  "'m event_store \<Rightarrow> string \<Rightarrow> int \<Rightarrow> 'm event_store \<times> (string \<times> 'm) list \<times> string" where
  "replay_events_after st last_id now =
     (if last_id = [] then (st, [], [])
      else
        (let sid = parse_stream_id last_id in
         if sid = [] then (st, [], [])
         else
           (case map_of (es_streams st) sid of
              None \<Rightarrow> (st, [], [])
            | Some s \<Rightarrow>
                (let s' = prune_state (es_ttl_ms st) (es_max_events st) now s;
                     st' = st\<lparr>es_streams := AList.update sid s' (es_streams st)\<rparr>
                 in (case map_of (index_by_id s') last_id of
                       None \<Rightarrow> (st', [], [])
                     | Some i \<Rightarrow> (st', map (\<lambda>e. (ev_id e, ev_message e)) (drop (Suc i) (events s')),
                                  sid))))))"

definition stream_events :: "'m event_store \<Rightarrow> string \<Rightarrow> 'm event_record list" where
  "stream_events st sid = (case map_of (es_streams st) sid of None \<Rightarrow> [] | Some s \<Rightarrow> events s)"

section \<open>Invariants\<close>

text \<open>What every reachable stream satisfies: the index only names stored events, ids are
  distinct, sequence numbers increase along the array and stay below \<open>nextSeq\<close>.\<close>
definition stream_sound :: "'m stream_state \<Rightarrow> bool" where
  "stream_sound s \<longleftrightarrow>
     fst ` set (index_by_id s) \<subseteq> ev_id ` set (events s) \<and>
     distinct (map ev_id (events s)) \<and>
     sorted_wrt (<) (map (seq_of_event_id \<circ> ev_id) (events s)) \<and>
     list_all (\<lambda>e. seq_of_event_id (ev_id e) < next_seq s) (events s)"

definition es_sound :: "'m event_store \<Rightarrow> bool" where
  "es_sound st \<longleftrightarrow> list_all (\<lambda>(k, s). CHR '':'' \<notin> set k \<and> stream_sound s) (es_streams st)"

text \<open>The index the code means to keep: each id mapped to its position.\<close>
definition index_exact :: "'m stream_state \<Rightarrow> bool" where
  "index_exact s \<longleftrightarrow> index_by_id s = rebuild_index (events s)"

definition es_exact :: "'m event_store \<Rightarrow> bool" where
  "es_exact st \<longleftrightarrow> list_all (\<lambda>(k, s). index_exact s) (es_streams st)"


text \<open>Event stores reachable from a fresh store by \<open>storeEvent\<close> on stream ids without a
  colon (the transport's stream ids are UUIDs) and \<open>replayEventsAfter\<close>.\<close>
inductive es_reachable :: "'m event_store \<Rightarrow> bool" where
  es_new: "es_reachable (new_event_store ttl mx)"
| es_store: "es_reachable st \<Longrightarrow> CHR '':'' \<notin> set sid \<Longrightarrow> es_reachable (fst (store_event st sid msg now))"
| es_replay: "es_reachable st \<Longrightarrow> es_reachable (fst (replay_events_after st l now))"


text \<open>A concrete store used by the examples: three events on stream \<open>s\<close> stored at
  0, 10 and 20 ms with the default TTL (15 minutes) and cap (5000).\<close>
definition example_store :: "nat event_store" where
  "example_store =
     fst (store_event (fst (store_event (fst (store_event (new_event_store None None) ''s'' 1 0))
                                        ''s'' 2 10)) ''s'' 3 20)"

section \<open>Lemmas\<close>

subsection \<open>Event ids\<close>

lemma parse_make_event_id:
  assumes "CHR '':'' \<notin> set sid" shows "parse_stream_id (make_event_id sid n) = sid"
proof -
  from assms have "takeWhile (\<lambda>c. c \<noteq> CHR '':'') (sid @ CHR '':'' # string_of_nat n) = sid"
    by (subst takeWhile_append2) auto
  then show ?thesis by (simp add: parse_stream_id_def make_event_id_def)
qed

lemma seq_make_event_id:
  assumes "CHR '':'' \<notin> set sid" shows "seq_of_event_id (make_event_id sid n) = n"
proof -
  from assms have "dropWhile (\<lambda>c. c \<noteq> CHR '':'') (sid @ CHR '':'' # string_of_nat n) =
                   CHR '':'' # string_of_nat n"
    by (subst dropWhile_append2) auto
  then show ?thesis by (simp add: seq_of_event_id_def make_event_id_def)
qed

subsection \<open>The two shifting loops remove a prefix\<close>

lemma ttl_shift_prefix:
  "ttl_shift c es ix = (es', ix') \<Longrightarrow>
   \<exists>n. es' = drop n es \<and> ix' = fold (\<lambda>e. AList.delete (ev_id e)) (take n es) ix"
proof (induction c es ix rule: ttl_shift.induct)
  case (1 c ix)
  then show ?case by simp
next
  case (2 c e es ix)
  show ?case
  proof (cases "ev_ts e < c")
    case True
    with "2.prems" have "ttl_shift c es (AList.delete (ev_id e) ix) = (es', ix')" by simp
    with True "2.IH" obtain n where "es' = drop n es"
      and "ix' = fold (\<lambda>e. AList.delete (ev_id e)) (take n es) (AList.delete (ev_id e) ix)"
      by blast
    then show ?thesis by (intro exI [of _ "Suc n"]) simp
  next
    case False
    with "2.prems" show ?thesis by (intro exI [of _ 0]) simp
  qed
qed

lemma ttl_shift_fresh:
  "list_all (\<lambda>e. c \<le> ev_ts e) es \<Longrightarrow> ttl_shift c es ix = (es, ix)"
  by (cases es) auto

lemma shift_n_prefix:
  "shift_n n es ix = (drop n es, fold (\<lambda>e. AList.delete (ev_id e)) (take n es) ix)"
  by (induction n es ix rule: shift_n.induct) simp_all

lemma keys_fold_delete:
  "fst ` set (fold (\<lambda>e. AList.delete (ev_id e)) xs ix) = fst ` set ix - ev_id ` set xs"
  by (induction xs arbitrary: ix) (auto simp: AList.delete_eq)


subsection \<open>The rebuilt index\<close>

lemma keys_rebuild_index: "fst ` set (rebuild_index es) = ev_id ` set es"
proof -
  have "map fst (zip (map ev_id es) [0..<length es]) = map ev_id es" by simp
  then have "fst ` set (zip (map ev_id es) [0..<length es]) = ev_id ` set es"
    by (metis list.set_map)
  then show ?thesis by (simp add: rebuild_index_def keys_fold_update)
qed

lemma rebuild_index_snoc:
  "rebuild_index (es @ [e]) = AList.update (ev_id e) (length es) (rebuild_index es)"
  by (simp add: rebuild_index_def)

lemma rebuild_index_lookup:
  assumes "distinct (map ev_id es)" and "es = pre @ e # post"
  shows "map_of (rebuild_index es) (ev_id e) = Some (length pre)"
proof -
  let ?z = "zip (map ev_id es) [0..<length es]"
  have i: "length pre < length es" using assms(2) by simp
  have "?z ! length pre \<in> set ?z" by (rule nth_mem) (simp add: i)
  moreover have "?z ! length pre = (ev_id e, length pre)"
    using i by (simp add: assms(2) nth_append)
  ultimately have "(ev_id e, length pre) \<in> set ?z" by simp
  with assms(1) show ?thesis
    by (simp add: rebuild_index_def map_of_fold_update_in)
qed

lemma prune_state_suffix:
  "\<exists>n. events (prune_state ttl mx now s) = drop n (events s) \<and>
       next_seq (prune_state ttl mx now s) = next_seq s"
proof -
  obtain es1 ix1 where t: "ttl_shift (now - ttl) (events s) (index_by_id s) = (es1, ix1)"
    by fastforce
  from ttl_shift_prefix [OF t] obtain n where es1: "es1 = drop n (events s)" by blast
  show ?thesis
  proof (cases "mx < length es1")
    case True
    then show ?thesis
      by (intro exI [of _ "length es1 - mx + n"])
         (simp add: prune_state_def t shift_n_prefix es1 Let_def add.commute)
  next
    case False
    then show ?thesis by (intro exI [of _ n]) (simp add: prune_state_def t es1)
  qed
qed

lemma index_exact_prune:
  assumes ex: "index_exact s" and fresh: "list_all (\<lambda>e. now - ttl \<le> ev_ts e) (events s)"
  shows "index_exact (prune_state ttl mx now s)"
proof -
  have t: "ttl_shift (now - ttl) (events s) (rebuild_index (events s)) =
           (events s, rebuild_index (events s))"
    using fresh by (rule ttl_shift_fresh)
  from ex show ?thesis
    by (simp add: index_exact_def prune_state_def t Let_def shift_n_prefix)
qed

lemma prune_state_index_keys:
  "fst ` set (index_by_id s) \<subseteq> ev_id ` set (events s) \<Longrightarrow>
   fst ` set (index_by_id (prune_state ttl mx now s)) \<subseteq> ev_id ` set (events (prune_state ttl mx now s))"
proof -
  assume keys: "fst ` set (index_by_id s) \<subseteq> ev_id ` set (events s)"
  obtain es1 ix1 where t: "ttl_shift (now - ttl) (events s) (index_by_id s) = (es1, ix1)"
    by fastforce
  from ttl_shift_prefix [OF t] obtain n where es1: "es1 = drop n (events s)"
    and ix1: "ix1 = fold (\<lambda>e. AList.delete (ev_id e)) (take n (events s)) (index_by_id s)" by blast
  have "fst ` set ix1 \<subseteq> ev_id ` set es1"
  proof -
    have "ev_id ` set (events s) \<subseteq> ev_id ` set (take n (events s)) \<union> ev_id ` set es1"
      by (metis append_take_drop_id es1 image_Un set_append subset_refl)
    with keys show ?thesis by (auto simp: ix1 keys_fold_delete)
  qed
  then show ?thesis
    by (auto simp: prune_state_def t Let_def keys_rebuild_index shift_n_prefix)
qed

lemma stream_sound_prune: "stream_sound s \<Longrightarrow> stream_sound (prune_state ttl mx now s)"
proof -
  assume ok: "stream_sound s"
  obtain n where ev: "events (prune_state ttl mx now s) = drop n (events s)"
    and ns: "next_seq (prune_state ttl mx now s) = next_seq s"
    using prune_state_suffix by blast
  from ok have keys: "fst ` set (index_by_id s) \<subseteq> ev_id ` set (events s)"
    by (simp add: stream_sound_def)
  from ok show ?thesis
    unfolding stream_sound_def ev ns
    using prune_state_index_keys [OF keys, of ttl mx now]
    by (auto simp: ev drop_map [symmetric] distinct_drop sorted_wrt_drop list_all_iff
             dest: in_set_dropD)
qed


subsection \<open>Appending\<close>

lemma stream_sound_push:
  assumes ok: "stream_sound s" and sid: "CHR '':'' \<notin> set sid"
  shows "stream_sound (fst (push_event sid msg now s))"
proof -
  let ?eid = "make_event_id sid (next_seq s)"
  have seq: "seq_of_event_id ?eid = next_seq s" using sid by (rule seq_make_event_id)
  have fresh: "?eid \<notin> ev_id ` set (events s)"
  proof
    assume "?eid \<in> ev_id ` set (events s)"
    then obtain x where "x \<in> set (events s)" and "ev_id x = ?eid" by auto
    with ok seq show False by (auto simp: stream_sound_def list_all_iff)
  qed
  from ok fresh seq show ?thesis
    by (auto simp: stream_sound_def push_event_def Let_def dom_update sorted_wrt_append
                   list_all_iff)
qed

lemma index_exact_push: "index_exact s \<Longrightarrow> index_exact (fst (push_event sid msg now s))"
  by (simp add: index_exact_def push_event_def Let_def rebuild_index_snoc)

lemma stream_sound_empty: "stream_sound empty_stream"
  by (simp add: stream_sound_def empty_stream_def)

lemma index_exact_empty: "index_exact empty_stream"
  by (simp add: index_exact_def empty_stream_def rebuild_index_def)

lemma es_sound_lookup:
  "es_sound st \<Longrightarrow> map_of (es_streams st) k = Some s \<Longrightarrow> CHR '':'' \<notin> set k \<and> stream_sound s"
  by (auto simp: es_sound_def list_all_iff dest: map_of_SomeD)

lemma es_sound_update:
  "es_sound st \<Longrightarrow> CHR '':'' \<notin> set k \<Longrightarrow> stream_sound s \<Longrightarrow>
   es_sound (st\<lparr>es_streams := AList.update k s (es_streams st)\<rparr>)"
  by (simp add: es_sound_def list_all_update)

lemma es_exact_lookup: "es_exact st \<Longrightarrow> map_of (es_streams st) k = Some s \<Longrightarrow> index_exact s"
  by (auto simp: es_exact_def list_all_iff dest: map_of_SomeD)

lemma es_exact_update:
  "es_exact st \<Longrightarrow> index_exact s \<Longrightarrow> es_exact (st\<lparr>es_streams := AList.update k s (es_streams st)\<rparr>)"
  by (simp add: es_exact_def list_all_update)

subsection \<open>Storing and replaying keep the store sound\<close>

lemma es_sound_store_event:
  assumes ok: "es_sound st" and sid: "CHR '':'' \<notin> set sid"
  shows "es_sound (fst (store_event st sid msg now))"
proof -
  let ?s0 = "case map_of (es_streams st) sid of None \<Rightarrow> empty_stream | Some s \<Rightarrow> s"
  have "stream_sound ?s0"
    using ok by (auto simp: stream_sound_empty dest: es_sound_lookup split: option.splits)
  then have "stream_sound (fst (push_event sid msg now (prune_state (es_ttl_ms st) (es_max_events st) now ?s0)))"
    using sid by (intro stream_sound_push stream_sound_prune)
  with ok sid show ?thesis
    by (simp add: store_event_def Let_def split_def es_sound_update)
qed

lemma es_sound_replay:
  assumes ok: "es_sound st" shows "es_sound (fst (replay_events_after st l now))"
proof (cases "map_of (es_streams st) (parse_stream_id l)")
  case None
  then show ?thesis using ok by (simp add: replay_events_after_def Let_def)
next
  case (Some s)
  with ok have "CHR '':'' \<notin> set (parse_stream_id l)" and "stream_sound s"
    by (auto dest: es_sound_lookup)
  then show ?thesis
    using ok Some
    by (auto simp: replay_events_after_def Let_def es_sound_update stream_sound_prune
             split: option.splits)
qed

lemma ttl_shift_expired:
  "list_all (\<lambda>e. ev_ts e < c) pre \<Longrightarrow> \<not> ev_ts a < c \<Longrightarrow>
   ttl_shift c (pre @ a # post) ix = (a # post, fold (\<lambda>e. AList.delete (ev_id e)) pre ix)"
  by (induction pre arbitrary: ix) auto

lemma map_of_fold_delete:
  "k \<notin> ev_id ` set xs \<Longrightarrow> map_of (fold (\<lambda>e. AList.delete (ev_id e)) xs ix) k = map_of ix k"
  by (induction xs arbitrary: ix) auto

lemma distinct_fold_delete:
  "distinct (map fst ix) \<Longrightarrow> distinct (map fst (fold (\<lambda>e. AList.delete (ev_id e)) xs ix))"
  by (induction xs arbitrary: ix) (auto simp: distinct_delete)

lemma distinct_rebuild_index: "distinct (map fst (rebuild_index es))"
  unfolding rebuild_index_def by (rule distinct_fold_update) simp

text \<open>With an exact index, a TTL prune that drops the expired head \<open>pre\<close> of the buffer
  keeps the index entry of the first kept event \<open>a\<close> at its old position
  \<open>length pre\<close>, and no rebuild follows.\<close>
lemma prune_state_stale_index:
  assumes ex: "index_exact s" and d: "distinct (map ev_id (events s))"
    and ev: "events s = pre @ a # post"
    and old: "list_all (\<lambda>e. ev_ts e < now - ttl) pre" and kept: "\<not> ev_ts a < now - ttl"
    and cap: "length (a # post) \<le> mx"
  shows "events (prune_state ttl mx now s) = a # post \<and>
         map_of (index_by_id (prune_state ttl mx now s)) (ev_id a) = Some (length pre)"
proof -
  let ?ix1 = "fold (\<lambda>e. AList.delete (ev_id e)) pre (rebuild_index (events s))"
  have t: "ttl_shift (now - ttl) (events s) (index_by_id s) = (a # post, ?ix1)"
    using ex old kept by (simp add: index_exact_def ev ttl_shift_expired)
  have keys: "fst ` set ?ix1 = ev_id ` set (a # post)"
    using d by (auto simp: keys_fold_delete keys_rebuild_index ev)
  have "length ?ix1 = card (fst ` set ?ix1)"
    using distinct_fold_delete [OF distinct_rebuild_index] by (metis distinct_card length_map set_map)
  also have "\<dots> = length (a # post)"
    using d keys by (simp add: ev distinct_card [symmetric] del: list.set_map) (metis distinct_card list.set_map length_map distinct_append)
  finally have len: "length ?ix1 = length (a # post)" .
  have na: "ev_id a \<notin> ev_id ` set pre" using d by (auto simp: ev)
  have look: "map_of ?ix1 (ev_id a) = Some (length pre)"
    by (rule trans [OF map_of_fold_delete [OF na] rebuild_index_lookup [OF d ev]])
  show ?thesis using t len cap look by (simp add: prune_state_def Let_def)
qed


section \<open>Properties of the event store\<close>

text \<open>Event ids round-trip: for a stream id without a colon, the stream id parsed back
  from \<open>"{streamId}:{seq}"\<close> is the stream id, and the number after the colon is the
  sequence number.\<close>
theorem event_id_roundtrip:
  "CHR '':'' \<notin> set sid \<Longrightarrow>
   parse_stream_id (make_event_id sid n) = sid \<and> seq_of_event_id (make_event_id sid n) = n"
  by (simp add: parse_make_event_id seq_make_event_id)

theorem event_id_roundtrip_witness:
  "parse_stream_id (make_event_id ''3f2a'' 12) = ''3f2a'' \<and> seq_of_event_id (make_event_id ''3f2a'' 12) = 12"
  using event_id_roundtrip [of "''3f2a''" 12] by simp

text \<open>C28. Every reachable event store is sound: in each stream the index names only stored
  events, ids are distinct and sequence numbers strictly increase along the buffer.\<close>
theorem es_reachable_sound: "es_reachable st \<Longrightarrow> es_sound st"
proof (induction rule: es_reachable.induct)
  case (es_new ttl mx)
  then show ?case by (simp add: es_sound_def new_event_store_def)
next
  case (es_store st sid msg now)
  then show ?case by (simp add: es_sound_store_event)
next
  case (es_replay st l now)
  then show ?case by (simp add: es_sound_replay)
qed

theorem es_reachable_sound_witness:
  "es_sound (fst (store_event (new_event_store None None :: nat event_store) ''s'' 7 0))"
  by (rule es_reachable_sound) (simp add: es_reachable.es_store es_reachable.es_new)

text \<open>C26. Replay after a resumption id sends the events of its stream strictly after the
  anchor, in order, and returns the stream id, when the stream's index is exact and no
  event of the stream has outlived the TTL (scenario S6 of the spec).\<close>
theorem replay_after_exact:
  assumes ok: "es_sound st" and ex: "es_exact st"
    and fresh: "list_all (\<lambda>e. now - es_ttl_ms st \<le> ev_ts e) (stream_events st sid)"
    and sid: "parse_stream_id last_id = sid" "sid \<noteq> []"
    and r: "replay_events_after st last_id now = (st', sent, res)"
    and pos: "stream_events st' sid = pre @ e # post" "ev_id e = last_id"
  shows "sent = map (\<lambda>e. (ev_id e, ev_message e)) post \<and> res = sid"
proof -
  from sid have ne: "last_id \<noteq> []" by (auto simp: parse_stream_id_def)
  show ?thesis
  proof (cases "map_of (es_streams st) sid")
    case None
    with r sid ne have "st' = st" by (auto simp: replay_events_after_def Let_def)
    with None pos show ?thesis by (simp add: stream_events_def)
  next
    case (Some s)
    let ?s' = "prune_state (es_ttl_ms st) (es_max_events st) now s"
    have exact: "index_exact ?s'"
      using es_exact_lookup [OF ex Some] fresh Some by (simp add: index_exact_prune stream_events_def)
    have dist: "distinct (map ev_id (events ?s'))"
    proof -
      have "stream_sound s" using es_sound_lookup [OF ok Some] by simp
      then have "stream_sound ?s'" by (rule stream_sound_prune)
      then show ?thesis by (simp add: stream_sound_def)
    qed
    have ev: "events ?s' = pre @ e # post"
    proof -
      have "st' = st\<lparr>es_streams := AList.update sid ?s' (es_streams st)\<rparr>"
        using r Some sid ne by (auto simp: replay_events_after_def Let_def split: option.splits)
      with pos(1) show ?thesis by (simp add: stream_events_def update_conv')
    qed
    have "map_of (rebuild_index (events ?s')) (ev_id e) = Some (length pre)"
      using dist ev by (rule rebuild_index_lookup)
    with exact pos(2) have "map_of (index_by_id ?s') last_id = Some (length pre)"
      by (simp add: index_exact_def)
    with r Some sid ne ev show ?thesis by (auto simp: replay_events_after_def Let_def)
  qed
qed


theorem replay_after_exact_witness:
  "fst (snd (replay_events_after example_store ''s:2'' 30)) = [(''s:3'', 3)]"
proof -
  obtain st' sent res where r: "replay_events_after example_store ''s:2'' 30 = (st', sent, res)"
    by (metis prod_cases3)
  have ok: "es_sound example_store" and ex: "es_exact example_store"
    and fresh: "list_all (\<lambda>e. 30 - es_ttl_ms example_store \<le> ev_ts e) (stream_events example_store ''s'')"
    by code_simp+
  have sid: "parse_stream_id ''s:2'' = ''s''" by code_simp
  have "stream_events (fst (replay_events_after example_store ''s:2'' 30)) ''s'' =
      [\<lparr>ev_id = ''s:1'', ev_ts = 0, ev_message = 1\<rparr>] @ \<lparr>ev_id = ''s:2'', ev_ts = 10, ev_message = 2\<rparr>
      # [\<lparr>ev_id = ''s:3'', ev_ts = 20, ev_message = 3\<rparr>]"
    by code_simp
  with r have pos: "stream_events st' ''s'' =
      [\<lparr>ev_id = ''s:1'', ev_ts = 0, ev_message = 1\<rparr>] @ \<lparr>ev_id = ''s:2'', ev_ts = 10, ev_message = 2\<rparr>
      # [\<lparr>ev_id = ''s:3'', ev_ts = 20, ev_message = 3\<rparr>]"
    by simp
  show ?thesis
    using replay_after_exact [OF ok ex fresh sid _ r pos] r by simp
qed

text \<open>C27. The TTL prune breaks resumption: it shifts expired events off the buffer and
  deletes their index entries but keeps the positions of the others, and it rebuilds the
  index only when its size differs from the buffer's, which it then never does. So in
  every sound store with an exact index, when a prune drops the expired events \<open>pre\<close>
  ahead of a still-buffered event \<open>a\<close>, replay after \<open>a\<close> keeps \<open>a\<close> and the events
  after it buffered, yet sends only those after position \<open>length pre\<close> of them,
  skipping the first \<open>length pre\<close> events that follow \<open>a\<close>, and reports the stream id
  as if the replay had succeeded.\<close>
theorem replay_skips_after_ttl_prune:
  assumes ok: "es_sound st" and ex: "es_exact st" and s: "map_of (es_streams st) sid = Some s"
    and ev: "events s = pre @ a # post"
    and old: "list_all (\<lambda>e. ev_ts e < now - es_ttl_ms st) pre"
    and kept: "\<not> ev_ts a < now - es_ttl_ms st"
    and cap: "length (a # post) \<le> es_max_events st"
    and sid: "parse_stream_id (ev_id a) = sid" "sid \<noteq> []"
  shows "stream_events (fst (replay_events_after st (ev_id a) now)) sid = a # post \<and>
         fst (snd (replay_events_after st (ev_id a) now)) =
           map (\<lambda>e. (ev_id e, ev_message e)) (drop (length pre) post) \<and>
         snd (snd (replay_events_after st (ev_id a) now)) = sid"
proof -
  have ne: "ev_id a \<noteq> []" using sid by (auto simp: parse_stream_id_def)
  have d: "distinct (map ev_id (events s))"
    using es_sound_lookup [OF ok s] by (simp add: stream_sound_def)
  note p = prune_state_stale_index [OF es_exact_lookup [OF ex s] d ev old kept cap]
  show ?thesis
    using p s sid ne by (simp add: replay_events_after_def Let_def stream_events_def update_conv')
qed

theorem replay_skips_after_ttl_prune_witness:
  "stream_events (fst (replay_events_after example_store ''s:2'' 900005)) ''s'' =
     [\<lparr>ev_id = ''s:2'', ev_ts = 10, ev_message = 2\<rparr>, \<lparr>ev_id = ''s:3'', ev_ts = 20, ev_message = 3\<rparr>] \<and>
   fst (snd (replay_events_after example_store ''s:2'' 900005)) = [] \<and>
   snd (snd (replay_events_after example_store ''s:2'' 900005)) = ''s''"
proof -
  have ok: "es_sound example_store" and ex: "es_exact example_store" by code_simp+
  have some: "map_of (es_streams example_store) ''s'' \<noteq> None" by code_simp
  then obtain s where s: "map_of (es_streams example_store) ''s'' = Some s" by blast
  have "events (the (map_of (es_streams example_store) ''s'')) =
          [\<lparr>ev_id = ''s:1'', ev_ts = 0, ev_message = 1\<rparr>] @ \<lparr>ev_id = ''s:2'', ev_ts = 10, ev_message = 2\<rparr>
          # [\<lparr>ev_id = ''s:3'', ev_ts = 20, ev_message = 3\<rparr>]" by code_simp
  then have ev: "events s =
          [\<lparr>ev_id = ''s:1'', ev_ts = 0, ev_message = 1\<rparr>] @ \<lparr>ev_id = ''s:2'', ev_ts = 10, ev_message = 2\<rparr>
          # [\<lparr>ev_id = ''s:3'', ev_ts = 20, ev_message = 3\<rparr>]" using s by simp
  have ttl: "es_ttl_ms example_store = 900000" and mx: "es_max_events example_store = 5000" by code_simp+
  have sid: "parse_stream_id ''s:2'' = ''s''" by code_simp
  from replay_skips_after_ttl_prune [OF ok ex s ev] sid ttl mx show ?thesis by simp
qed

text \<open>A resumption id whose event is no longer buffered after pruning yields an empty
  replay and the empty stream id (the caller starts afresh): nothing is sent.\<close>
theorem replay_evicted_empty:
  assumes ok: "es_sound st"
    and r: "replay_events_after st last_id now = (st', sent, res)"
    and gone: "last_id \<notin> ev_id ` set (stream_events st' (parse_stream_id last_id))"
  shows "sent = [] \<and> res = []"
proof (cases "last_id = [] \<or> parse_stream_id last_id = []")
  case True
  with r show ?thesis by (auto simp: replay_events_after_def Let_def split: if_splits)
next
  case False
  show ?thesis
  proof (cases "map_of (es_streams st) (parse_stream_id last_id)")
    case None
    with r False show ?thesis by (auto simp: replay_events_after_def Let_def)
  next
    case (Some s)
    let ?sid = "parse_stream_id last_id"
    let ?s' = "prune_state (es_ttl_ms st) (es_max_events st) now s"
    have st': "st' = st\<lparr>es_streams := AList.update ?sid ?s' (es_streams st)\<rparr>"
      using r Some False by (auto simp: replay_events_after_def Let_def split: option.splits)
    have "stream_sound s" using es_sound_lookup [OF ok Some] by simp
    then have "fst ` set (index_by_id ?s') \<subseteq> ev_id ` set (events ?s')"
      by (intro prune_state_index_keys) (simp add: stream_sound_def)
    moreover have "last_id \<notin> ev_id ` set (events ?s')"
      using gone by (simp add: st' stream_events_def update_conv')
    ultimately have "map_of (index_by_id ?s') last_id = None"
      by (auto simp: map_of_eq_None_iff)
    with r Some False show ?thesis by (auto simp: replay_events_after_def Let_def)
  qed
qed

theorem replay_evicted_empty_witness:
  "fst (snd (replay_events_after example_store ''s:2'' 900015)) = [] \<and>
   snd (snd (replay_events_after example_store ''s:2'' 900015)) = []"
proof -
  obtain st' sent res where r: "replay_events_after example_store ''s:2'' 900015 = (st', sent, res)"
    by (metis prod_cases3)
  have ok: "es_sound example_store" by code_simp
  have "''s:2'' \<notin> ev_id ` set (stream_events (fst (replay_events_after example_store ''s:2'' 900015))
                                   (parse_stream_id ''s:2''))"
    by code_simp
  with r have "''s:2'' \<notin> ev_id ` set (stream_events st' (parse_stream_id ''s:2''))"
    by simp
  from replay_evicted_empty [OF ok r this] r show ?thesis by simp
qed

text \<open>Replay delivers events in strictly increasing sequence order.\<close>
theorem replay_sent_increasing:
  assumes ok: "es_sound st" and r: "replay_events_after st l now = (st', sent, res)"
  shows "sorted_wrt (<) (map (seq_of_event_id \<circ> fst) sent)"
proof (cases "l = [] \<or> parse_stream_id l = [] \<or> map_of (es_streams st) (parse_stream_id l) = None")
  case True
  with r show ?thesis by (auto simp: replay_events_after_def Let_def split: if_splits)
next
  case False
  then obtain s where Some: "map_of (es_streams st) (parse_stream_id l) = Some s" by auto
  let ?s' = "prune_state (es_ttl_ms st) (es_max_events st) now s"
  have "stream_sound s" using es_sound_lookup [OF ok Some] by simp
  then have "stream_sound ?s'" by (rule stream_sound_prune)
  then have sorted: "sorted_wrt (<) (map (seq_of_event_id \<circ> ev_id) (events ?s'))"
    by (simp add: stream_sound_def)
  have "sent = [] \<or> (\<exists>i. sent = map (\<lambda>e. (ev_id e, ev_message e)) (drop (Suc i) (events ?s')))"
    using r False Some by (auto simp: replay_events_after_def Let_def split: option.splits)
  then show ?thesis
  proof
    assume "\<exists>i. sent = map (\<lambda>e. (ev_id e, ev_message e)) (drop (Suc i) (events ?s'))"
    then obtain i where "sent = map (\<lambda>e. (ev_id e, ev_message e)) (drop (Suc i) (events ?s'))" ..
    with sorted show ?thesis by (simp add: drop_map [symmetric] sorted_wrt_drop comp_def)
  qed simp
qed

theorem replay_sent_increasing_witness:
  "map (seq_of_event_id \<circ> fst) (fst (snd (replay_events_after example_store ''s:1'' 30))) = [2, 3] \<and>
   sorted_wrt (<) (map (seq_of_event_id \<circ> fst) (fst (snd (replay_events_after example_store ''s:1'' 30))))"
proof -
  obtain st' sent res where r: "replay_events_after example_store ''s:1'' 30 = (st', sent, res)"
    by (metis prod_cases3)
  have ok: "es_sound example_store" by code_simp
  have "map (seq_of_event_id \<circ> fst) (fst (snd (replay_events_after example_store ''s:1'' 30))) = [2, 3]"
    by code_simp
  with replay_sent_increasing [OF ok r] r show ?thesis by simp
qed

end
