(* ===== verification/Security.thy ===== *)
theory Security
  imports Prelude
begin

text \<open>
  The loopback-only request filter (\<open>isLoopback\<close> and the \<open>preHandler\<close> hook of
  \<open>installSecurity\<close>, src/src/security.ts). A header whose value is the empty string
  is falsy in JavaScript and counts as absent in the \<open>host\<close> and \<open>origin\<close> tests.
\<close>

definition is_loopback :: "string option \<Rightarrow> bool" where
  "is_loopback addr =
     (case addr of None \<Rightarrow> False
      | Some a \<Rightarrow> a = ''127.0.0.1'' \<or> a = ''::1'' \<or> prefix ''::ffff:127.0.0.1'' a)"

definition allowed_hosts :: "nat \<Rightarrow> string list" where
  "allowed_hosts port =
     [''127.0.0.1:'' @ string_of_nat port, ''localhost:'' @ string_of_nat port,
      ''[::1]:'' @ string_of_nat port]"

datatype filter_result = Pass | Reject nat string

definition pre_handler :: "nat \<Rightarrow> http_request \<Rightarrow> filter_result" where
  "pre_handler port req =
     (if \<not> is_loopback (req_ip req) then Reject 403 ''loopback_only''
      else if \<not> js_truthy (req_host req) \<or> req_host req \<notin> Some ` set (allowed_hosts port)
      then Reject 403 ''invalid_host''
      else if prefix ''/mcp'' (req_url req) \<and> js_truthy (req_origin req)
      then Reject 403 ''origin_not_allowed_for_mcp''
      else Pass)"


section \<open>The filter's guarantee\<close>

text \<open>C30. A request passes the filter exactly when it comes from a loopback address, names
  an allowed host, and is not a tool-path request carrying an origin; every rejection is a
  403 (spec property 9).\<close>
theorem pre_handler_passes_iff:
  "(pre_handler port req = Pass \<longleftrightarrow>
      is_loopback (req_ip req) \<and> req_host req \<in> Some ` set (allowed_hosts port) \<and>
      \<not> (prefix ''/mcp'' (req_url req) \<and> js_truthy (req_origin req))) \<and>
   (pre_handler port req = Pass \<or> (\<exists>e. pre_handler port req = Reject 403 e))"
proof -
  have "\<forall>h \<in> set (allowed_hosts port). h \<noteq> []" by (simp add: allowed_hosts_def)
  then have "req_host req \<in> Some ` set (allowed_hosts port) \<Longrightarrow> js_truthy (req_host req)"
    by (auto simp: js_truthy_def)
  then show ?thesis by (auto simp: pre_handler_def)
qed

theorem pre_handler_passes_iff_witness:
  "pre_handler 3790 \<lparr>req_ip = Some ''10.0.0.5'', req_host = Some ''127.0.0.1:3790'', req_origin = None,
       req_client_header = None, req_user_agent = None, req_query_client = None,
       req_session_id = None, req_last_event_id = None, req_url = ''/mcp''\<rparr> \<noteq> Pass"
  using pre_handler_passes_iff [of 3790 "\<lparr>req_ip = Some ''10.0.0.5'', req_host = Some ''127.0.0.1:3790'',
       req_origin = None, req_client_header = None, req_user_agent = None, req_query_client = None,
       req_session_id = None, req_last_event_id = None, req_url = ''/mcp''\<rparr>"]
  by (simp add: is_loopback_def)

text \<open>An \<open>Origin\<close> header whose value is empty is falsy in JavaScript, so a tool-path
  request carrying it passes the filter, although the spec rejects any tool-path request
  that carries an \<open>Origin\<close> header.\<close>
theorem pre_handler_empty_origin_passes:
  "pre_handler 3790 \<lparr>req_ip = Some ''127.0.0.1'', req_host = Some ''127.0.0.1:3790'',
       req_origin = Some [], req_client_header = None, req_user_agent = None,
       req_query_client = None, req_session_id = None, req_last_event_id = None,
       req_url = ''/mcp''\<rparr> = Pass"
  by code_simp

end
