(* ===== verification/Spec2Isabelle.thy ===== *)
theory Spec2Isabelle
  imports Transport Event_Store Security
begin

text \<open>
  \<^bold>\<open>A verification model of the tulayngmamamo bridge.\<close>
  The bridge is an MCP server that lets two assistant CLIs, Claude and Codex, send
  each other messages, delegate research and reviews, and share context. A client
  opens an HTTP session (src/src/mcp/http.ts), is identified from its headers
  (src/src/mcp/identity.ts lines 1-23), and calls tools (server.ts, staged in
  identity.ts lines 24-708). The tools write to a SQLite store (schema and
  \<open>db/messages.ts\<close> in src/unnamed/part_005, src/src/db/*.ts, shared_context in
  part_004) and hand messages to the dispatcher (src/unnamed/part_002), which delivers to
  an online peer, queues for an offline Claude (drained by the queue processor,
  part_001), or asks an offline Codex through a persistent MCP client
  (src/src/router/codexMcpClient.ts) and then a one-shot \<open>codex exec\<close> run (invoker,
  identity.ts lines 875-1252). Summaries and findings are sent to a knowledge graph
  (memorantado, identity.ts lines 709-875). A request filter (src/security.ts) and a
  per-session SSE event store (part_000) guard and resume the HTTP streams.

  \<^bold>\<open>Theories.\<close> Each theory opens with the correspondence of its definitions to the
  code; every definition that translates code is listed with its lines in the manifest.
  \<^item> \<open>Prelude\<close>: identities, JavaScript string and JSON primitives, shared list
    lemmas, the \<open>wf_intros\<close> collection.
  \<^item> \<open>Store\<close>, \<open>Shared_Context\<close>, \<open>Queue_Store\<close>: the tables as lists of rows, one
    function per statement, constraint violations as \<open>Inl\<close> errors; the invariant
    \<open>db_wf\<close> and its preservation by every statement (\<open>store_run_initial_wf\<close>);
    the full-text search with FTS5's matcher as a parameter; \<open>getQueueStats\<close> and its
    agreement with \<open>dequeueMessages\<close> and \<open>getQueueLength\<close>.
  \<^item> \<open>Queue_Processor\<close>: dequeue, delivery, exponential backoff, sweep; \<open>start()\<close>
    and \<open>stop()\<close> over the runtime's table of intervals.
  \<^item> \<open>Invoker\<close>: the \<open>codex exec\<close> peer: prompt and arguments, the invocation row
    lifecycle, NDJSON extraction and Markdown rendering.
  \<^item> \<open>Agents\<close>, \<open>Identity\<close>, \<open>Security\<close>, \<open>Client_Registry\<close>: persona selection,
    client identification, the loopback filter, the session registry.
  \<^item> \<open>Codex_Mcp_Client\<close>: connection state, conversation memory, result extraction.
  \<^item> \<open>Dispatcher\<close>: \<open>sendMessage\<close> with its routing tiers and the polling wait.
  \<^item> \<open>Memorantado\<close>, \<open>Tool_Server\<close>: the knowledge-graph requests, how each call
    settles on every outcome of \<open>fetch\<close>, and all fourteen tools, dispatched by
    \<open>call_tool\<close>; \<open>settle_tool\<close> composes a tool with the outcome of the writes it
    awaits.
  \<^item> \<open>Transport\<close>: the HTTP routes (\<open>/mcp\<close>, \<open>/status\<close>, \<open>/health\<close>) over a state
    of sessions, registry, store and the queue processor with its intervals, the process
    configuration and \<open>resolveDbPath\<close>, and the running process as the step relation
    \<open>transport_step\<close> with its reachable states: a queue poll or sweep is a tick of a
    live interval, and \<open>shutdown\<close> runs both \<open>onClose\<close> hooks.
  \<^item> \<open>Event_Store\<close>: storing and replaying SSE events with TTL and size pruning.

  \<^bold>\<open>What is proved.\<close> Invariants: every statement run keeps the store well formed,
  and so does every reachable state of the process, whatever tool calls, closes, polls
  and sweeps led to it, in which the registry names only live sessions; the queue
  processor never holds two poll intervals, and shutdown leaves no session, an empty
  registry and none of its intervals. Liveness across components: a client that opens a
  session has its ready queued messages delivered by the drain the session triggers.
  Functional behaviour on every branch of \<open>sendMessage\<close> (online,
  queued, both Codex tiers, unknown conversation), the queue processor, the invoker's
  invocation rows, the tools' guards, event replay, the conversation context handed to
  Codex. Termination and liveness of the response wait; soundness of what the wait
  returns. An equivalence of the invoker's activity loops with a reference; round trips
  (event ids, shared context, Codex conversation memory); bounds of the backoff and of
  the queue statistics. Theorems stating findings, for every store they apply to, show the
  code's behaviour where it departs from the specification (listed in the manifest).

  \<^bold>\<open>Units and bounds.\<close> The clock is in milliseconds, backoff delays in seconds. The
  polling wait runs in eighths of a millisecond so that its intervals (100 ms growing by
  1.5 up to 1000 ms) are whole numbers; elapsed time is the sum of the sleeps. The wait is a
  \<open>partial_function (option)\<close>; that it returns is proved by induction on the distance to
  the deadline, which shrinks by at least 100 ms per poll, so no fuel is needed.
  Outside effects (clock readings, \<open>randomUUID()\<close>, child processes, SDK calls,
  \<open>JSON.parse\<close>) are arguments; a fresh session id is one no live session has.

  \<^bold>\<open>Not modelled.\<close> The MCP SDK, Fastify, better-sqlite3 and execa themselves (their
  observable results are inputs); \<open>fetch\<close> of the knowledge graph (its requests are
  modelled, and its outcome is an argument); pretty-printing of JSON results; FTS5's
  query language and stemmer (the matcher is a parameter of \<open>search_messages\<close>; the
  triggers only keep the index equal to the messages' content); logging and the startup
  messages of \<open>runHttpMode\<close>; the \<open>Number()\<close> parse of the port; the README
  text staged in part_006; \<open>openDb\<close> file permissions, WAL mode and busy timeout in
  db.ts (foreign keys on is what the store model assumes); \<open>migrate\<close> is the migrated
  store \<open>initial_db\<close>; \<open>path.join\<close> beyond a normalised directory and a file name; the zod
  \<open>uuid()\<close> format check (ids are abstract). The persistent Codex peer reaches the
  dispatcher as the reply of each send (\<open>env_mcp_send\<close>): the client itself is modelled
  in \<open>Codex_Mcp_Client\<close>, but the per-session instance each \<open>createMcpServer\<close> builds
  is not carried in the session state. Concurrency is modelled as interleaving
  of whole handlers: the queue drain triggered by a session's initialisation runs at that
  step.
\<close>

end
